theory Spec2Isabelle
  imports Main "HOL-Library.Word"
begin

section \<open>Channel configuration commitment (txconfig.go)\<close>

text \<open>
  A shallow embedding of \<^verbatim>\<open>platform/fabric/core/generic/txconfig.go\<close>: the methods
  \<^verbatim>\<open>ReloadConfigTransactions\<close>, \<^verbatim>\<open>CommitConfig\<close>, \<^verbatim>\<open>Resources\<close>,
  \<^verbatim>\<open>commitConfig\<close>, \<^verbatim>\<open>applyBundle\<close> and the function \<^verbatim>\<open>capabilitiesSupported\<close>.

  The Go methods mutate the receiver \<^verbatim>\<open>c *channel\<close>; here every method takes the
  channel and returns it updated. Every acquisition and release of a lock, every call
  into a collaborator (vault, bundle builder, validator, network layer) and every logger
  call is appended to the channel's \<open>trace\<close>, in program order, so that the order and
  the absence of calls can be stated.
\<close>

subsection \<open>Data\<close>

type_synonym bytes = "8 word list"

text \<open>
  \<^verbatim>\<open>driver.ValidationCode\<close>: the source distinguishes \<^verbatim>\<open>driver.Valid\<close>,
  \<^verbatim>\<open>driver.Unknown\<close> and everything else (the \<^verbatim>\<open>default\<close> branch of both switches).
\<close>

datatype ValidationCode = Valid | Unknown | OtherCode int

text \<open>Arguments of a format string, kept symbolic: the verbs are not rendered.\<close>

datatype fmtarg = ArgStr string | ArgUint "64 word" | ArgLen nat | ArgCode ValidationCode

text \<open>
  Go errors. \<open>External\<close> is an error produced by a collaborator; the other three are
  the constructors of \<^verbatim>\<open>github.com/pkg/errors\<close> the source uses, the wrapped error
  first.
\<close>

datatype error =
    External string
  | Errorf string "fmtarg list"
  | Wrapf error string "fmtarg list"
  | WithMessagef error string "fmtarg list"

text \<open>
  What a method call ends with: \<open>Ok\<close> is a \<^verbatim>\<open>nil\<close> error, \<open>Err e\<close> a returned error,
  \<open>Panic\<close> a run-time panic (the nil dereference of \<^verbatim>\<open>ctx.Config.Sequence\<close>).
\<close>

datatype outcome = Ok | Err error | Panic

text \<open>\<^verbatim>\<open>common.Envelope\<close>, \<^verbatim>\<open>common.Payload\<close>, \<^verbatim>\<open>common.Config\<close>, \<^verbatim>\<open>common.ConfigEnvelope\<close>:
  the fields the source reads; the configuration tree is opaque to it.\<close>

record Envelope =
  Payload :: bytes
  Signature :: bytes

record PayloadMsg =
  Header :: bytes
  Data :: bytes

record Config =
  Sequence :: "64 word"
  ChannelGroup :: bytes

record ConfigEnvelope =
  Config :: "Config option"
  LastUpdate :: "Envelope option"

text \<open>
  \<^verbatim>\<open>channelconfig.Bundle\<close> through the accessors the source calls.
  \<open>OrdererConfig\<close> is \<open>None\<close> when the second result of \<^verbatim>\<open>OrdererConfig()\<close> is false,
  and otherwise the organizations of \<^verbatim>\<open>Organizations()\<close>, a Go map, in the order in
  which \<^verbatim>\<open>range\<close> visits it. \<open>ApplicationConfig\<close> is \<open>None\<close> when the second result of
  \<^verbatim>\<open>ApplicationConfig()\<close> is false, and otherwise the result of its
  \<^verbatim>\<open>Capabilities().Supported()\<close>; \<open>ChannelConfig\<close> is the result of
  \<^verbatim>\<open>ChannelConfig().Capabilities().Supported()\<close>.
\<close>

record OrdererOrg =
  OrgName :: string
  MSPID :: string
  TLSRootCerts :: "bytes list"
  TLSIntermediateCerts :: "bytes list"
  Endpoints :: "string list"

record Validator =
  ChannelID :: string
  ConfigProto :: Config

record Bundle =
  ConfigtxValidator :: Validator
  OrdererConfig :: "OrdererOrg list option"
  ApplicationConfig :: "error option option"
  ChannelConfig :: "error option"

text \<open>\<^verbatim>\<open>grpc.ConnectionConfig\<close>: the four fields \<^verbatim>\<open>applyBundle\<close> sets;
  \<open>ConnectionTimeout\<close> is a \<^verbatim>\<open>time.Duration\<close>, in nanoseconds.\<close>

record ConnectionConfig =
  Address :: string
  ConnectionTimeout :: int
  TLSEnabled :: bool
  TLSRootCertBytes :: "bytes list"

definition Second :: int where
  "Second = 1000000000"

datatype lock = commitConfigMutex | applyLock | resourcesLock

datatype level = Infof | Debugf

datatype event =
    Lock lock | Unlock lock | RLock lock | RUnlock lock
  | CallNewQueryExecutor | CallQEDone
  | CallStatus string
  | CallGetState string string
  | CallNewRWSet string
  | CallSetState string string string bytes
  | CallRWSDone string
  | CallCommitTX string "64 word" int
  | CallDiscardTx string
  | CallNewBundle string "Config option"
  | CallValidate Validator ConfigEnvelope
  | CallLogSanityChecks Bundle
  | CallCapabilitiesSupported Bundle
  | CallSetConfigOrderers "ConnectionConfig list"
  | Log level string "fmtarg list"
  | LogError string error

text \<open>
  Modelled from the spec: the state store (vault) of this repository, whose code is
  not among the sources. Section 6 of the specification gives its contract:
  \<^verbatim>\<open>Status\<close>, \<^verbatim>\<open>NewQueryExecutor\<close> with \<^verbatim>\<open>GetState\<close> and \<^verbatim>\<open>Done\<close>,
  \<^verbatim>\<open>NewRWSet\<close> with \<^verbatim>\<open>SetState\<close> and \<^verbatim>\<open>Done\<close>, \<^verbatim>\<open>CommitTX\<close> and
  \<^verbatim>\<open>DiscardTx\<close>; sections 2 and 3 say that a read/write set is a transactional unit
  of mutation, committed or discarded as a whole. So: \<open>txStatus\<close> is the status per
  transaction id, \<open>kvstate\<close> the committed key/value state per (namespace, key), and
  \<open>rwsets\<close> the writes of the open read/write sets, not yet committed.
\<close>

record Vault =
  txStatus :: "string \<Rightarrow> ValidationCode"
  kvstate :: "(string \<times> string) \<rightharpoonup> bytes"
  rwsets :: "string \<rightharpoonup> ((string \<times> string) \<times> bytes) list"

text \<open>The receiver \<^verbatim>\<open>c *channel\<close>: the fields the source uses, and the trace.\<close>

record Chan =
  name :: string
  resources :: "Bundle option"
  vault :: Vault
  trace :: "event list"

text \<open>
  The collaborators outside the sources, as parameters: the decoders of
  \<^verbatim>\<open>protoutil\<close> and \<^verbatim>\<open>configtx\<close>, \<^verbatim>\<open>channelconfig.NewBundle\<close>, the validator's
  \<^verbatim>\<open>Validate\<close>, \<^verbatim>\<open>rwset.CreateCompositeKey\<close>, and for each operation of the vault
  the error it returns, if any, in a given state of the vault.
\<close>

record deps =
  UnmarshalEnvelope :: "bytes \<Rightarrow> error + Envelope"
  UnmarshalPayload :: "bytes \<Rightarrow> error + PayloadMsg"
  UnmarshalConfigEnvelope :: "bytes \<Rightarrow> error + ConfigEnvelope"
  NewBundle :: "string \<Rightarrow> Config option \<Rightarrow> error + Bundle"
  Validate :: "Validator \<Rightarrow> ConfigEnvelope \<Rightarrow> error option"
  CreateCompositeKey :: "string \<Rightarrow> string list \<Rightarrow> error + string"
  failStatus :: "Vault \<Rightarrow> string \<Rightarrow> error option"
  failNewQueryExecutor :: "Vault \<Rightarrow> error option"
  failGetState :: "Vault \<Rightarrow> string \<Rightarrow> string \<Rightarrow> error option"
  failNewRWSet :: "Vault \<Rightarrow> string \<Rightarrow> error option"
  failSetState :: "Vault \<Rightarrow> string \<Rightarrow> string \<Rightarrow> string \<Rightarrow> bytes \<Rightarrow> error option"
  failCommitTX :: "Vault \<Rightarrow> string \<Rightarrow> 64 word \<Rightarrow> error option"
  failDiscardTx :: "Vault \<Rightarrow> string \<Rightarrow> error option"

subsection \<open>Constants and string conversion\<close>

definition channelConfigKey :: string where
  "channelConfigKey = ''CHANNEL_CONFIG_ENV_BYTES''"

definition peerNamespace :: string where
  "peerNamespace = ''_configtx''"

text \<open>Modelled from the spec: \<^verbatim>\<open>committer.ConfigTXPrefix\<close>, the literal prefix
  \<^verbatim>\<open>"config-"\<close> of section 6.\<close>

definition ConfigTXPrefix :: string where
  "ConfigTXPrefix = ''config-''"

text \<open>\<^verbatim>\<open>strconv.FormatUint(n, 10)\<close>: the decimal digits, most significant first.\<close>

definition digit :: "nat \<Rightarrow> char" where
  "digit k = ''0123456789'' ! k"

fun decimal :: "nat \<Rightarrow> string" where
  "decimal n = (if n < 10 then [digit n] else decimal (n div 10) @ [digit (n mod 10)])"

declare decimal.simps [simp del]

definition FormatUint :: "64 word \<Rightarrow> string" where
  "FormatUint w = decimal (unat w)"

subsection \<open>The trace\<close>

definition emits :: "event list \<Rightarrow> Chan \<Rightarrow> Chan" where
  "emits es c = c\<lparr>trace := trace c @ es\<rparr>"

definition emit :: "event \<Rightarrow> Chan \<Rightarrow> Chan" where
  "emit e c = emits [e] c"

subsection \<open>The vault's operations\<close>

text \<open>
  Modelled from the spec: each operation first may fail, as \<open>deps\<close> says, and then
  leaves the vault as it is. \<^verbatim>\<open>Status\<close> and \<^verbatim>\<open>GetState\<close> read; a key never written
  reads as no bytes. \<^verbatim>\<open>NewRWSet\<close> opens an empty write set for the transaction,
  \<^verbatim>\<open>SetState\<close> adds a write to it, \<^verbatim>\<open>Done\<close> releases the handle and may be called
  again. \<^verbatim>\<open>CommitTX\<close> applies the writes of the transaction's write set to the
  committed state, in order, marks the transaction \<open>Valid\<close> and closes the set;
  \<^verbatim>\<open>DiscardTx\<close> closes the set without applying it.
\<close>

definition vault_Status :: "deps \<Rightarrow> string \<Rightarrow> Chan \<Rightarrow> (error + ValidationCode) \<times> Chan" where
  "vault_Status d txID c =
     (case failStatus d (vault c) txID of
        Some err \<Rightarrow> (Inl err, emit (CallStatus txID) c)
      | None \<Rightarrow> (Inr (txStatus (vault c) txID), emit (CallStatus txID) c))"

definition vault_NewQueryExecutor :: "deps \<Rightarrow> Chan \<Rightarrow> error option \<times> Chan" where
  "vault_NewQueryExecutor d c = (failNewQueryExecutor d (vault c), emit CallNewQueryExecutor c)"

definition qe_GetState :: "deps \<Rightarrow> string \<Rightarrow> string \<Rightarrow> Chan \<Rightarrow> (error + bytes) \<times> Chan" where
  "qe_GetState d ns key c =
     (case failGetState d (vault c) ns key of
        Some err \<Rightarrow> (Inl err, emit (CallGetState ns key) c)
      | None \<Rightarrow>
          (Inr (case kvstate (vault c) (ns, key) of None \<Rightarrow> [] | Some v \<Rightarrow> v),
           emit (CallGetState ns key) c))"

definition vault_NewRWSet :: "deps \<Rightarrow> string \<Rightarrow> Chan \<Rightarrow> error option \<times> Chan" where
  "vault_NewRWSet d txid c =
     (case failNewRWSet d (vault c) txid of
        Some err \<Rightarrow> (Some err, emit (CallNewRWSet txid) c)
      | None \<Rightarrow>
          (None, emit (CallNewRWSet txid)
             (c\<lparr>vault := (vault c)\<lparr>rwsets := (rwsets (vault c))(txid \<mapsto> [])\<rparr>\<rparr>)))"

definition rws_SetState :: "deps \<Rightarrow> string \<Rightarrow> string \<Rightarrow> string \<Rightarrow> bytes \<Rightarrow> Chan \<Rightarrow> error option \<times> Chan" where
  "rws_SetState d txid ns key v c =
     (case failSetState d (vault c) txid ns key v of
        Some err \<Rightarrow> (Some err, emit (CallSetState txid ns key v) c)
      | None \<Rightarrow>
          (None, emit (CallSetState txid ns key v)
             (c\<lparr>vault := (vault c)\<lparr>rwsets := (rwsets (vault c))
                (txid \<mapsto> (case rwsets (vault c) txid of None \<Rightarrow> [] | Some ws \<Rightarrow> ws) @ [((ns, key), v)])\<rparr>\<rparr>)))"

definition rws_Done :: "string \<Rightarrow> Chan \<Rightarrow> Chan" where
  "rws_Done txid c = emit (CallRWSDone txid) c"

definition apply_writes :: "((string \<times> string) \<times> bytes) list \<Rightarrow> ((string \<times> string) \<rightharpoonup> bytes) \<Rightarrow> ((string \<times> string) \<rightharpoonup> bytes)" where
  "apply_writes ws m = foldl (\<lambda>m' w. m'(fst w \<mapsto> snd w)) m ws"

definition CommitTX :: "deps \<Rightarrow> string \<Rightarrow> 64 word \<Rightarrow> int \<Rightarrow> Chan \<Rightarrow> error option \<times> Chan" where
  "CommitTX d txid block indexInBlock c =
     (case failCommitTX d (vault c) txid block of
        Some err \<Rightarrow> (Some err, emit (CallCommitTX txid block indexInBlock) c)
      | None \<Rightarrow>
          (None, emit (CallCommitTX txid block indexInBlock)
             (c\<lparr>vault := (vault c)
                \<lparr>txStatus := (txStatus (vault c))(txid := Valid),
                 kvstate := apply_writes (case rwsets (vault c) txid of None \<Rightarrow> [] | Some ws \<Rightarrow> ws)
                              (kvstate (vault c)),
                 rwsets := (rwsets (vault c))(txid := None)\<rparr>\<rparr>)))"

definition DiscardTx :: "deps \<Rightarrow> string \<Rightarrow> Chan \<Rightarrow> error option \<times> Chan" where
  "DiscardTx d txid c =
     (case failDiscardTx d (vault c) txid of
        Some err \<Rightarrow> (Some err, emit (CallDiscardTx txid) c)
      | None \<Rightarrow>
          (None, emit (CallDiscardTx txid)
             (c\<lparr>vault := (vault c)\<lparr>rwsets := (rwsets (vault c))(txid := None)\<rparr>\<rparr>)))"

subsection \<open>Resources, applyBundle, capabilitiesSupported\<close>

text \<open>\<^verbatim>\<open>Resources\<close> (lines 199-204): the field, read under the read lock.\<close>

definition Resources :: "Chan \<Rightarrow> Bundle option \<times> Chan" where
  "Resources c = (resources c, emits [RLock resourcesLock, RUnlock resourcesLock] c)"

text \<open>
  \<^verbatim>\<open>applyBundle\<close> (lines 230-266). The deferred \<^verbatim>\<open>c.lock.Unlock()\<close> runs when the
  function returns, so it is the last event. The two nested loops append one
  connection configuration per endpoint and log one line per endpoint.
\<close>

definition tlsRootCertsOf :: "OrdererOrg \<Rightarrow> bytes list" where
  "tlsRootCertsOf org = ([] @ TLSRootCerts org) @ TLSIntermediateCerts org"

definition orgOrderers :: "OrdererOrg \<Rightarrow> ConnectionConfig list" where
  "orgOrderers org =
     map (\<lambda>endpoint.
            \<lparr>Address = endpoint, ConnectionTimeout = 10 * Second, TLSEnabled = True,
             TLSRootCertBytes = tlsRootCertsOf org\<rparr>)
         (Endpoints org)"

definition orgLogs :: "string \<Rightarrow> OrdererOrg \<Rightarrow> event list" where
  "orgLogs cname org =
     map (\<lambda>endpoint.
            Log Debugf ''[channel: %s] Adding orderer endpoint: [%s:%s:%s]''
              [ArgStr cname, ArgStr (OrgName org), ArgStr (MSPID org), ArgStr endpoint])
         (Endpoints org)"

definition setConfigOrderers :: "ConnectionConfig list \<Rightarrow> Chan \<Rightarrow> Chan" where
  "setConfigOrderers orderers c = emit (CallSetConfigOrderers orderers) c"

definition applyBundle :: "Bundle \<Rightarrow> Chan \<Rightarrow> Chan" where
  "applyBundle bundle c =
     (let c1 = emit (Lock resourcesLock) c;
          c2 = c1\<lparr>resources := Some bundle\<rparr>;
          c3 = (case OrdererConfig bundle of
                  Some orgs \<Rightarrow>
                    (let c4 = emit (Log Debugf ''[channel: %s] Orderer config has changed, updating the list of orderers''
                                      [ArgStr (name c2)]) c2;
                         newOrderers = concat (map orgOrderers orgs);
                         c5 = emits (concat (map (orgLogs (name c4)) orgs)) c4
                     in if length newOrderers \<noteq> 0
                        then setConfigOrderers newOrderers
                               (emit (Log Debugf ''[channel: %s] Updating the list of orderers: (%d) found''
                                        [ArgStr (name c5), ArgLen (length newOrderers)]) c5)
                        else emit (Log Debugf ''[channel: %s] No orderers found in channel config''
                                     [ArgStr (name c5)]) c5)
                | None \<Rightarrow> emit (Log Debugf ''no orderer configuration found in channel config'' []) c2)
      in emit (Unlock resourcesLock) c3)"

text \<open>\<^verbatim>\<open>capabilitiesSupported\<close> (lines 268-283).\<close>

definition capabilitiesSupported :: "Bundle \<Rightarrow> error option" where
  "capabilitiesSupported res =
     (case ApplicationConfig res of
        None \<Rightarrow> Some (Errorf ''[channel %s] does not have application config so is incompatible''
                        [ArgStr (ChannelID (ConfigtxValidator res))])
      | Some acSupported \<Rightarrow>
          (case acSupported of
             Some err \<Rightarrow> Some (Wrapf err ''[channel %s] incompatible'' [ArgStr (ChannelID (ConfigtxValidator res))])
           | None \<Rightarrow>
               (case ChannelConfig res of
                  Some err \<Rightarrow> Some (Wrapf err ''[channel %s] incompatible'' [ArgStr (ChannelID (ConfigtxValidator res))])
                | None \<Rightarrow> None)))"

subsection \<open>commitConfig\<close>

text \<open>
  \<^verbatim>\<open>commitConfig\<close> (lines 206-228). \<^verbatim>\<open>defer rws.Done()\<close> is registered once the
  write set exists, so \<open>rws_Done\<close> is the last event of every path after that;
  the path to \<^verbatim>\<open>CommitTX\<close> calls it once more, explicitly, before the commit.
\<close>

definition commitConfig_rws :: "deps \<Rightarrow> string \<Rightarrow> 64 word \<Rightarrow> 64 word \<Rightarrow> bytes \<Rightarrow> Chan \<Rightarrow> error option \<times> Chan" where
  "commitConfig_rws d txid blockNumber seq envelope c =
     (case CreateCompositeKey d channelConfigKey [FormatUint seq] of
        Inl err \<Rightarrow> (Some (Wrapf err ''cannot create configtx rws key'' []), c)
      | Inr key \<Rightarrow>
          (case rws_SetState d txid peerNamespace key envelope c of
             (Some err, c1) \<Rightarrow> (Some (Wrapf err ''failed setting configtx state in rws'' []), c1)
           | (None, c1) \<Rightarrow>
               (case CommitTX d txid blockNumber 0 (rws_Done txid c1) of
                  (Some err, c2) \<Rightarrow>
                    (case DiscardTx d txid c2 of
                       (Some err2, c3) \<Rightarrow>
                         (Some (Wrapf err ''failed committing configtx rws'' []),
                          emit (LogError ''failed committing configtx rws [%s]'' err2) c3)
                     | (None, c3) \<Rightarrow> (Some (Wrapf err ''failed committing configtx rws'' []), c3))
                | (None, c2) \<Rightarrow> (None, c2))))"

definition commitConfig :: "deps \<Rightarrow> string \<Rightarrow> 64 word \<Rightarrow> 64 word \<Rightarrow> bytes \<Rightarrow> Chan \<Rightarrow> error option \<times> Chan" where
  "commitConfig d txid blockNumber seq envelope c =
     (case vault_NewRWSet d txid c of
        (Some err, c1) \<Rightarrow> (Some (Wrapf err ''cannot create rws for configtx'' []), c1)
      | (None, c1) \<Rightarrow>
          (case commitConfig_rws d txid blockNumber seq envelope c1 of
             (r, c2) \<Rightarrow> (r, rws_Done txid c2)))"

subsection \<open>CommitConfig\<close>

text \<open>
  Lines 164-187: the bundle of a live commit. With no active bundle it is built from
  the channel's name; otherwise the active bundle's validator validates the
  configuration, the bundle is built for the validator's channel id, and the
  capabilities are checked. \<^verbatim>\<open>c.Resources()\<close> is called once for the test and once
  more for the validator; a method call on a nil interface would panic.
\<close>

definition commit_bundle :: "deps \<Rightarrow> 64 word \<Rightarrow> ConfigEnvelope \<Rightarrow> Chan \<Rightarrow> (outcome + Bundle) \<times> Chan" where
  "commit_bundle d blockNumber ctx c =
     (case Resources c of
        (None, c1) \<Rightarrow>
          (case NewBundle d (name c1) (Config ctx) of
             Inl err \<Rightarrow> (Inl (Err (Wrapf err ''failed to build a new bundle'' [])),
                         emit (CallNewBundle (name c1) (Config ctx)) c1)
           | Inr bundle \<Rightarrow> (Inr bundle, emit (CallNewBundle (name c1) (Config ctx)) c1))
      | (Some _, c1) \<Rightarrow>
          (case Resources c1 of
             (None, c2) \<Rightarrow> (Inl Panic, c2)
           | (Some res, c2) \<Rightarrow>
               (let configTxValidator = ConfigtxValidator res;
                    c3 = emit (CallValidate configTxValidator ctx) c2
                in case Validate d configTxValidator ctx of
                     Some err \<Rightarrow>
                       (Inl (Err (Wrapf err ''failed to validate config transaction, block number [%d]''
                                    [ArgUint blockNumber])), c3)
                   | None \<Rightarrow>
                       (let c4 = emit (CallNewBundle (ChannelID configTxValidator) (Config ctx)) c3
                        in case NewBundle d (ChannelID configTxValidator) (Config ctx) of
                             Inl err \<Rightarrow> (Inl (Err (Wrapf err ''failed to create next bundle'' [])), c4)
                           | Inr bundle \<Rightarrow>
                               (let c5 = emits [CallLogSanityChecks bundle, CallCapabilitiesSupported bundle] c4
                                in case capabilitiesSupported bundle of
                                     Some err \<Rightarrow> (Inl (Err err), c5)
                                   | None \<Rightarrow> (Inr bundle, c5))))))"

text \<open>Lines 164-195: build the bundle, persist, and only then activate.\<close>

definition CommitConfig_unknown :: "deps \<Rightarrow> 64 word \<Rightarrow> bytes \<Rightarrow> ConfigEnvelope \<Rightarrow> string \<Rightarrow> 64 word \<Rightarrow> Chan \<Rightarrow> outcome \<times> Chan" where
  "CommitConfig_unknown d blockNumber raw ctx txid seq c =
     (case commit_bundle d blockNumber ctx c of
        (Inl out, c1) \<Rightarrow> (out, c1)
      | (Inr bundle, c1) \<Rightarrow>
          (case commitConfig d txid blockNumber seq raw c1 of
             (Some err, c2) \<Rightarrow> (Err (Wrapf err ''failed committing configtx to the vault'' []), c2)
           | (None, c2) \<Rightarrow> (Ok, applyBundle bundle c2)))"

text \<open>Lines 136-196, under the two locks.\<close>

definition CommitConfig_locked :: "deps \<Rightarrow> 64 word \<Rightarrow> bytes \<Rightarrow> Envelope option \<Rightarrow> Chan \<Rightarrow> outcome \<times> Chan" where
  "CommitConfig_locked d blockNumber raw env c =
     (case env of
        None \<Rightarrow> (Err (Errorf ''channel config found nil'' []), c)
      | Some e \<Rightarrow>
          (case UnmarshalPayload d (Payload e) of
             Inl err \<Rightarrow>
               (Err (Wrapf err ''cannot get payload from config transaction, block number [%d]''
                       [ArgUint blockNumber]), c)
           | Inr payload \<Rightarrow>
               (case UnmarshalConfigEnvelope d (Data payload) of
                  Inl err \<Rightarrow>
                    (Err (Wrapf err ''error unmarshalling config which passed initial validity checks'' []), c)
                | Inr ctx \<Rightarrow>
                    (case Config ctx of
                       None \<Rightarrow> (Panic, c)
                     | Some cfg \<Rightarrow>
                         (let txid = ConfigTXPrefix @ FormatUint (Sequence cfg)
                          in case vault_Status d txid c of
                               (Inl err, c1) \<Rightarrow>
                                 (Err (Wrapf err ''failed getting tx's status [%s]'' [ArgStr txid]), c1)
                             | (Inr vc, c1) \<Rightarrow>
                                 (case vc of
                                    Valid \<Rightarrow> (Ok, c1)
                                  | Unknown \<Rightarrow>
                                      CommitConfig_unknown d blockNumber raw ctx txid (Sequence cfg) c1
                                  | OtherCode n \<Rightarrow>
                                      (Err (Errorf ''invalid configtx's [%s] status [%d]''
                                              [ArgStr txid, ArgCode vc]), c1)))))))"

text \<open>
  \<^verbatim>\<open>CommitConfig\<close> (lines 127-196). The deferred unlocks run on every path, the
  panic included, last registered first.
\<close>

definition CommitConfig :: "deps \<Rightarrow> 64 word \<Rightarrow> bytes \<Rightarrow> Envelope option \<Rightarrow> Chan \<Rightarrow> outcome \<times> Chan" where
  "CommitConfig d blockNumber raw env c =
     (case CommitConfig_locked d blockNumber raw env
             (emits [Lock commitConfigMutex, Lock applyLock,
                     Log Debugf ''[channel: %s] received config transaction number %d''
                       [ArgStr (name c), ArgUint blockNumber]] c) of
        (out, c1) \<Rightarrow> (out, emits [Unlock applyLock, Unlock commitConfigMutex] c1))"

subsection \<open>ReloadConfigTransactions\<close>

text \<open>Lines 78-101: the bundle of a reload step; as lines 164-187, but for one message.\<close>

definition reload_bundle :: "deps \<Rightarrow> string \<Rightarrow> ConfigEnvelope \<Rightarrow> Chan \<Rightarrow> (outcome + Bundle) \<times> Chan" where
  "reload_bundle d txID ctx c =
     (case Resources c of
        (None, c1) \<Rightarrow>
          (case NewBundle d (name c1) (Config ctx) of
             Inl err \<Rightarrow> (Inl (Err (Wrapf err ''failed to build a new bundle'' [])),
                         emit (CallNewBundle (name c1) (Config ctx)) c1)
           | Inr bundle \<Rightarrow> (Inr bundle, emit (CallNewBundle (name c1) (Config ctx)) c1))
      | (Some _, c1) \<Rightarrow>
          (case Resources c1 of
             (None, c2) \<Rightarrow> (Inl Panic, c2)
           | (Some res, c2) \<Rightarrow>
               (let configTxValidator = ConfigtxValidator res;
                    c3 = emit (CallValidate configTxValidator ctx) c2
                in case Validate d configTxValidator ctx of
                     Some err \<Rightarrow>
                       (Inl (Err (Wrapf err ''failed to validate config transaction [%s]'' [ArgStr txID])), c3)
                   | None \<Rightarrow>
                       (let c4 = emit (CallNewBundle (ChannelID configTxValidator) (Config ctx)) c3
                        in case NewBundle d (ChannelID configTxValidator) (Config ctx) of
                             Inl err \<Rightarrow> (Inl (Err (Wrapf err ''failed to create next bundle'' [])), c4)
                           | Inr bundle \<Rightarrow>
                               (let c5 = emits [CallLogSanityChecks bundle, CallCapabilitiesSupported bundle] c4
                                in case capabilitiesSupported bundle of
                                     Some err \<Rightarrow> (Inl (Err err), c5)
                                   | None \<Rightarrow> (Inr bundle, c5))))))"

text \<open>Lines 55-106: the branch \<^verbatim>\<open>case driver.Valid\<close> of the loop; \<open>Ok\<close> is \<^verbatim>\<open>continue\<close>.\<close>

definition reload_valid :: "deps \<Rightarrow> 64 word \<Rightarrow> string \<Rightarrow> Chan \<Rightarrow> outcome \<times> Chan" where
  "reload_valid d sequence txID c =
     (let c1 = emit (Log Infof ''config block available, txID [%s], loading...'' [ArgStr txID]) c
      in case CreateCompositeKey d channelConfigKey [FormatUint sequence] of
           Inl err \<Rightarrow> (Err (Wrapf err ''cannot create configtx rws key'' []), c1)
         | Inr key \<Rightarrow>
             (case qe_GetState d peerNamespace key c1 of
                (Inl err, c2) \<Rightarrow> (Err (Wrapf err ''failed setting configtx state in rws'' []), c2)
              | (Inr envelope, c2) \<Rightarrow>
                  (case UnmarshalEnvelope d envelope of
                     Inl err \<Rightarrow>
                       (Err (Wrapf err ''cannot get payload from config transaction [%s]'' [ArgStr txID]), c2)
                   | Inr env \<Rightarrow>
                       (case UnmarshalPayload d (Payload env) of
                          Inl err \<Rightarrow>
                            (Err (Wrapf err ''cannot get payload from config transaction [%s]'' [ArgStr txID]), c2)
                        | Inr payload \<Rightarrow>
                            (case UnmarshalConfigEnvelope d (Data payload) of
                               Inl err \<Rightarrow>
                                 (Err (Wrapf err ''error unmarshalling config which passed initial validity checks [%s]''
                                         [ArgStr txID]), c2)
                             | Inr ctx \<Rightarrow>
                                 (case reload_bundle d txID ctx c2 of
                                    (Inl out, c3) \<Rightarrow> (out, c3)
                                  | (Inr bundle, c3) \<Rightarrow> (Ok, applyBundle bundle c3)))))))"

text \<open>
  Lines 45-115: the loop, which the source does not bound: \<open>None\<close> is a loop that
  never ends. A result carries the value of \<^verbatim>\<open>sequence\<close> at the exit.
\<close>

partial_function (option) reload_loop :: "deps \<Rightarrow> 64 word \<Rightarrow> Chan \<Rightarrow> (outcome \<times> Chan \<times> 64 word) option" where
  "reload_loop d sequence c =
     (case vault_Status d (ConfigTXPrefix @ FormatUint sequence) c of
        (Inl err, c1) \<Rightarrow>
          Some (Err (WithMessagef err ''failed getting tx's status [%s]''
                       [ArgStr (ConfigTXPrefix @ FormatUint sequence)]), c1, sequence)
      | (Inr vc, c1) \<Rightarrow>
          (case vc of
             Valid \<Rightarrow>
               (case reload_valid d sequence (ConfigTXPrefix @ FormatUint sequence) c1 of
                  (Ok, c2) \<Rightarrow> reload_loop d (sequence + 1) c2
                | (Err e, c2) \<Rightarrow> Some (Err e, c2, sequence)
                | (Panic, c2) \<Rightarrow> Some (Panic, c2, sequence))
           | Unknown \<Rightarrow> Some (Ok, c1, sequence)
           | OtherCode n \<Rightarrow>
               Some (Err (Errorf ''invalid configtx's [%s] status [%d]''
                            [ArgStr (ConfigTXPrefix @ FormatUint sequence), ArgCode vc]), c1, sequence)))"

text \<open>
  \<^verbatim>\<open>ReloadConfigTransactions\<close> (lines 34-124). The deferred \<^verbatim>\<open>qe.Done()\<close> and
  \<^verbatim>\<open>c.applyLock.Unlock()\<close> run on every path, last registered first.
\<close>

definition ReloadConfigTransactions :: "deps \<Rightarrow> Chan \<Rightarrow> (outcome \<times> Chan) option" where
  "ReloadConfigTransactions d c =
     (case vault_NewQueryExecutor d (emit (Lock applyLock) c) of
        (Some err, c1) \<Rightarrow>
          Some (Err (WithMessagef err ''failed getting query executor'' []), emit (Unlock applyLock) c1)
      | (None, c1) \<Rightarrow>
          (case reload_loop d 1 (emit (Log Infof ''looking up the latest config block available'' []) c1) of
             None \<Rightarrow> None
           | Some (Ok, c2, sequence) \<Rightarrow>
               Some (Ok, emits [CallQEDone, Unlock applyLock]
                       (if sequence = 1
                        then emit (Log Infof ''no config block available, must start from genesis'' []) c2
                        else emit (Log Infof ''latest config block available at sequence [%d]''
                                     [ArgUint (sequence - 1)]) c2))
           | Some (out, c2, sequence) \<Rightarrow> Some (out, emits [CallQEDone, Unlock applyLock] c2)))"

subsection \<open>Observing a trace\<close>

text \<open>The events a call appended to the trace.\<close>

definition new_events :: "Chan \<Rightarrow> Chan \<Rightarrow> event list" where
  "new_events c c' = drop (length (trace c)) (trace c')"

text \<open>The kinds of events: locking, reading the vault, writing it, building a bundle,
  validating, checking capabilities, pushing orderers to the network layer, logging.\<close>

datatype kind = KLock | KRead | KWrite | KBuild | KValidate | KCheck | KPush | KLog

fun kind_of :: "event \<Rightarrow> kind" where
  "kind_of (Lock l) = KLock"
| "kind_of (Unlock l) = KLock"
| "kind_of (RLock l) = KLock"
| "kind_of (RUnlock l) = KLock"
| "kind_of CallNewQueryExecutor = KRead"
| "kind_of CallQEDone = KRead"
| "kind_of (CallStatus t) = KRead"
| "kind_of (CallGetState ns k) = KRead"
| "kind_of (CallNewRWSet t) = KWrite"
| "kind_of (CallSetState t ns k v) = KWrite"
| "kind_of (CallRWSDone t) = KWrite"
| "kind_of (CallCommitTX t b i) = KWrite"
| "kind_of (CallDiscardTx t) = KWrite"
| "kind_of (CallNewBundle n cfg) = KBuild"
| "kind_of (CallValidate v ctx) = KValidate"
| "kind_of (CallLogSanityChecks b) = KLog"
| "kind_of (CallCapabilitiesSupported b) = KCheck"
| "kind_of (CallSetConfigOrderers os) = KPush"
| "kind_of (Log lv f as) = KLog"
| "kind_of (LogError f e) = KLog"

definition of_kinds :: "kind set \<Rightarrow> event list \<Rightarrow> event list" where
  "of_kinds ks es = filter (\<lambda>e. kind_of e \<in> ks) es"

text \<open>The lists pushed to the network layer, in order.\<close>

fun pushed :: "event list \<Rightarrow> ConnectionConfig list list" where
  "pushed [] = []"
| "pushed (CallSetConfigOrderers os # es) = os # pushed es"
| "pushed (e # es) = pushed es"

text \<open>
  Whether every push of a trace happens while lock \<open>l\<close> is not held (\<open>pushes_outside\<close>),
  or while it is held (\<open>pushes_inside\<close>); \<open>held\<close> says whether it is at the start.
\<close>

fun pushes_outside :: "lock \<Rightarrow> bool \<Rightarrow> event list \<Rightarrow> bool" where
  "pushes_outside l held [] = True"
| "pushes_outside l held (Lock l' # es) = pushes_outside l (held \<or> l' = l) es"
| "pushes_outside l held (Unlock l' # es) = pushes_outside l (held \<and> l' \<noteq> l) es"
| "pushes_outside l held (CallSetConfigOrderers os # es) = (\<not> held \<and> pushes_outside l held es)"
| "pushes_outside l held (e # es) = pushes_outside l held es"

fun pushes_inside :: "lock \<Rightarrow> bool \<Rightarrow> event list \<Rightarrow> bool" where
  "pushes_inside l held [] = True"
| "pushes_inside l held (Lock l' # es) = pushes_inside l (held \<or> l' = l) es"
| "pushes_inside l held (Unlock l' # es) = pushes_inside l (held \<and> l' \<noteq> l) es"
| "pushes_inside l held (CallSetConfigOrderers os # es) = (held \<and> pushes_inside l held es)"
| "pushes_inside l held (e # es) = pushes_inside l held es"

text \<open>
  Whether lock \<open>l\<close> is held after a trace. An event is \<open>quiet\<close> when it neither takes
  or releases an exclusive lock nor pushes. A trace is made of \<open>locked_steps\<close> when,
  started with the resources lock free and any other lock held, every push in it
  happens with all of them held and it ends as it started.
\<close>

fun held_after :: "lock \<Rightarrow> bool \<Rightarrow> event list \<Rightarrow> bool" where
  "held_after l held [] = held"
| "held_after l held (Lock l' # es) = held_after l (held \<or> l' = l) es"
| "held_after l held (Unlock l' # es) = held_after l (held \<and> l' \<noteq> l) es"
| "held_after l held (e # es) = held_after l held es"

fun quiet :: "event \<Rightarrow> bool" where
  "quiet (Lock l) = False"
| "quiet (Unlock l) = False"
| "quiet (CallSetConfigOrderers os) = False"
| "quiet e = True"

definition locked_steps :: "event list \<Rightarrow> bool" where
  "locked_steps es =
     (pushes_inside commitConfigMutex True es \<and> held_after commitConfigMutex True es
      \<and> pushes_inside applyLock True es \<and> held_after applyLock True es
      \<and> pushes_inside resourcesLock False es \<and> \<not> held_after resourcesLock False es)"

subsection \<open>Replaying configurations, as the specification describes it\<close>

text \<open>
  Section 4.1, step 3, in the specification's words: the bundle of a configuration is
  built on the genesis path if no bundle exists yet, and on the successor path, with
  validation against the predecessor's validator and the capability check, otherwise.
  \<open>None\<close> is a configuration that is rejected.
\<close>

definition spec_build :: "deps \<Rightarrow> string \<Rightarrow> Bundle option \<Rightarrow> ConfigEnvelope \<Rightarrow> Bundle option" where
  "spec_build d nm cur ctx =
     (case cur of
        None \<Rightarrow> (case NewBundle d nm (Config ctx) of Inl err \<Rightarrow> None | Inr b \<Rightarrow> Some b)
      | Some res \<Rightarrow>
          (case Validate d (ConfigtxValidator res) ctx of
             Some err \<Rightarrow> None
           | None \<Rightarrow>
               (case NewBundle d (ChannelID (ConfigtxValidator res)) (Config ctx) of
                  Inl err \<Rightarrow> None
                | Inr b \<Rightarrow> (case capabilitiesSupported b of Some err \<Rightarrow> None | None \<Rightarrow> Some b))))"

text \<open>The active bundle after the configurations of a list, each built on its
  predecessor; \<open>None\<close> when one of them is rejected.\<close>

fun spec_replay :: "deps \<Rightarrow> string \<Rightarrow> Bundle option \<Rightarrow> ConfigEnvelope list \<Rightarrow> Bundle option option" where
  "spec_replay d nm cur [] = Some cur"
| "spec_replay d nm cur (ctx # ctxs) =
     (case spec_build d nm cur ctx of
        None \<Rightarrow> None
      | Some b \<Rightarrow> spec_replay d nm (Some b) ctxs)"

text \<open>
  The block-delivery path, which calls \<^verbatim>\<open>CommitConfig\<close> once per delivered
  configuration transaction (block number, raw bytes, decoded envelope), in order, and
  stops at the first that does not return \<^verbatim>\<open>nil\<close>.
\<close>

fun CommitAll :: "deps \<Rightarrow> (64 word \<times> bytes \<times> Envelope) list \<Rightarrow> Chan \<Rightarrow> outcome \<times> Chan" where
  "CommitAll d [] c = (Ok, c)"
| "CommitAll d (tx # txs) c =
     (case CommitConfig d (fst tx) (fst (snd tx)) (Some (snd (snd tx))) c of
        (Ok, c1) \<Rightarrow> CommitAll d txs c1
      | (Err e, c1) \<Rightarrow> (Err e, c1)
      | (Panic, c1) \<Rightarrow> (Panic, c1))"

subsection \<open>What a reload reads from the vault\<close>

text \<open>
  The status \<^verbatim>\<open>ReloadConfigTransactions\<close> and \<^verbatim>\<open>CommitConfig\<close> read for a sequence
  number, and the configuration a reload step reads and decodes for it (lines 57-76);
  \<open>None\<close> when the read or the decoding fails.
\<close>

definition stored_status :: "deps \<Rightarrow> Vault \<Rightarrow> 64 word \<Rightarrow> ValidationCode option" where
  "stored_status d v sequence =
     (case failStatus d v (ConfigTXPrefix @ FormatUint sequence) of
        Some err \<Rightarrow> None
      | None \<Rightarrow> Some (txStatus v (ConfigTXPrefix @ FormatUint sequence)))"

definition decode_stored :: "deps \<Rightarrow> bytes \<Rightarrow> ConfigEnvelope option" where
  "decode_stored d envelope =
     (case UnmarshalEnvelope d envelope of
        Inl err \<Rightarrow> None
      | Inr env \<Rightarrow>
          (case UnmarshalPayload d (Payload env) of
             Inl err \<Rightarrow> None
           | Inr payload \<Rightarrow>
               (case UnmarshalConfigEnvelope d (Data payload) of
                  Inl err \<Rightarrow> None
                | Inr ctx \<Rightarrow> Some ctx)))"

definition stored_config :: "deps \<Rightarrow> Vault \<Rightarrow> 64 word \<Rightarrow> ConfigEnvelope option" where
  "stored_config d v sequence =
     (case CreateCompositeKey d channelConfigKey [FormatUint sequence] of
        Inl err \<Rightarrow> None
      | Inr key \<Rightarrow>
          (case failGetState d v peerNamespace key of
             Some err \<Rightarrow> None
           | None \<Rightarrow>
               decode_stored d (case kvstate v (peerNamespace, key) of None \<Rightarrow> [] | Some b \<Rightarrow> b)))"

text \<open>
  The configuration \<^verbatim>\<open>CommitConfig\<close> decodes from a delivered envelope (lines 140-148)
  and the transaction id it derives from it (line 150); \<open>None\<close> when the decoding
  fails or the configuration is absent.
\<close>

definition decode_live :: "deps \<Rightarrow> Envelope \<Rightarrow> ConfigEnvelope option" where
  "decode_live d env =
     (case UnmarshalPayload d (Payload env) of
        Inl err \<Rightarrow> None
      | Inr payload \<Rightarrow>
          (case UnmarshalConfigEnvelope d (Data payload) of
             Inl err \<Rightarrow> None
           | Inr ctx \<Rightarrow> Some ctx))"

definition live_txid :: "deps \<Rightarrow> Envelope \<Rightarrow> string option" where
  "live_txid d env =
     (case decode_live d env of
        None \<Rightarrow> None
      | Some ctx \<Rightarrow>
          (case Config ctx of
             None \<Rightarrow> None
           | Some cfg \<Rightarrow> Some (ConfigTXPrefix @ FormatUint (Sequence cfg))))"

text \<open>
  A vault that holds configuration transactions for the sequence numbers from \<open>s\<close> on:
  for each, in order, the status is \<open>Valid\<close> and the raw envelope is readable at the
  key of the sequence number.
\<close>

fun holds_configs :: "deps \<Rightarrow> Vault \<Rightarrow> 64 word \<Rightarrow> bytes list \<Rightarrow> bool" where
  "holds_configs d v s [] = True"
| "holds_configs d v s (raw # raws) =
     (stored_status d v s = Some Valid
      \<and> (case CreateCompositeKey d channelConfigKey [FormatUint s] of
            Inl err \<Rightarrow> False
          | Inr key \<Rightarrow>
              failGetState d v peerNamespace key = None
              \<and> kvstate v (peerNamespace, key) = Some raw)
      \<and> holds_configs d v (s + 1) raws)"


subsection \<open>A small instance\<close>

text \<open>
  Collaborators for running the model on concrete inputs. An envelope's bytes are its
  payload, a payload's bytes its data; the first byte of the data is the configuration's
  sequence number and the rest its tree. A bundle has an application section unless the
  tree is empty, and unsupported application capabilities when the tree starts with the
  byte 255. A validator accepts the configuration whose sequence number follows its own.
  No operation of the vault fails.
\<close>

definition demoNewBundle :: "string \<Rightarrow> Config option \<Rightarrow> error + Bundle" where
  "demoNewBundle n cfg =
     (case cfg of
        None \<Rightarrow> Inl (External ''config is nil'')
      | Some cf \<Rightarrow>
          Inr \<lparr>ConfigtxValidator = \<lparr>ChannelID = n, ConfigProto = cf\<rparr>,
               OrdererConfig = None,
               ApplicationConfig =
                 (case ChannelGroup cf of
                    [] \<Rightarrow> None
                  | x # xs \<Rightarrow> if x = 255 then Some (Some (External ''unsupported capability'')) else Some None),
               ChannelConfig = None\<rparr>)"

definition demoValidate :: "Validator \<Rightarrow> ConfigEnvelope \<Rightarrow> error option" where
  "demoValidate v ctx =
     (case Config ctx of
        None \<Rightarrow> Some (External ''config is nil'')
      | Some cf \<Rightarrow>
          if Sequence cf = Sequence (ConfigProto v) + 1 then None
          else Some (External ''config sequence is not the next one''))"

definition demoDeps :: deps where
  "demoDeps =
     \<lparr>UnmarshalEnvelope = (\<lambda>b. Inr \<lparr>Payload = b, Signature = []\<rparr>),
      UnmarshalPayload = (\<lambda>b. Inr \<lparr>Header = [], Data = b\<rparr>),
      UnmarshalConfigEnvelope =
        (\<lambda>b. case b of
                [] \<Rightarrow> Inr \<lparr>Config = None, LastUpdate = None\<rparr>
              | x # xs \<Rightarrow> Inr \<lparr>Config = Some \<lparr>Sequence = ucast x, ChannelGroup = xs\<rparr>, LastUpdate = None\<rparr>),
      NewBundle = demoNewBundle,
      Validate = demoValidate,
      CreateCompositeKey = (\<lambda>objectType attrs. Inr (objectType @ concat attrs)),
      failStatus = (\<lambda>v t. None),
      failNewQueryExecutor = (\<lambda>v. None),
      failGetState = (\<lambda>v ns k. None),
      failNewRWSet = (\<lambda>v t. None),
      failSetState = (\<lambda>v t ns k b. None),
      failCommitTX = (\<lambda>v t b. None),
      failDiscardTx = (\<lambda>v t. None)\<rparr>"

text \<open>The same, with a ledger commit and a discard that always fail.\<close>

definition failingDeps :: deps where
  "failingDeps =
     demoDeps\<lparr>failCommitTX := (\<lambda>v t b. Some (External ''commit failed'')),
              failDiscardTx := (\<lambda>v t. Some (External ''discard failed''))\<rparr>"


text \<open>A channel with no active bundle, an empty vault and an empty trace.\<close>

definition emptyVault :: Vault where
  "emptyVault = \<lparr>txStatus = (\<lambda>t. Unknown), kvstate = Map.empty, rwsets = Map.empty\<rparr>"

definition newChan :: "string \<Rightarrow> Vault \<Rightarrow> Chan" where
  "newChan nm v = \<lparr>name = nm, resources = None, vault = v, trace = []\<rparr>"

text \<open>Two configuration transactions, with sequence numbers 1 and 2, and a bundle with
  one ordering organization, two endpoints and one TLS root certificate.\<close>

definition demoEnv1 :: Envelope where
  "demoEnv1 = \<lparr>Payload = [1, 7], Signature = []\<rparr>"

definition demoEnv2 :: Envelope where
  "demoEnv2 = \<lparr>Payload = [2, 8], Signature = []\<rparr>"

definition demoOrg :: OrdererOrg where
  "demoOrg =
     \<lparr>OrgName = ''OrdererOrg'', MSPID = ''OrdererMSP'', TLSRootCerts = [[1, 2, 3]],
      TLSIntermediateCerts = [], Endpoints = [''orderer0:7050'', ''orderer1:7050'']\<rparr>"

definition demoBundle :: Bundle where
  "demoBundle =
     \<lparr>ConfigtxValidator = \<lparr>ChannelID = ''ch'', ConfigProto = \<lparr>Sequence = 1, ChannelGroup = [7]\<rparr>\<rparr>,
      OrdererConfig = Some [demoOrg],
      ApplicationConfig = Some None,
      ChannelConfig = None\<rparr>"

definition demoTxs :: "(64 word \<times> bytes \<times> Envelope) list" where
  "demoTxs = [(0, [1, 7], demoEnv1), (1, [2, 8], demoEnv2)]"

text \<open>The vault after the two transactions were committed, and the bundles of the two.\<close>

definition storedVault :: Vault where
  "storedVault =
     \<lparr>txStatus = (\<lambda>t. Unknown)(''config-1'' := Valid, ''config-2'' := Valid),
      kvstate = [(''_configtx'', ''CHANNEL_CONFIG_ENV_BYTES1'') \<mapsto> [1, 7],
                 (''_configtx'', ''CHANNEL_CONFIG_ENV_BYTES2'') \<mapsto> [2, 8]],
      rwsets = Map.empty\<rparr>"

definition demoBundle1 :: Bundle where
  "demoBundle1 =
     \<lparr>ConfigtxValidator = \<lparr>ChannelID = ''ch'', ConfigProto = \<lparr>Sequence = 1, ChannelGroup = [7]\<rparr>\<rparr>,
      OrdererConfig = None, ApplicationConfig = Some None, ChannelConfig = None\<rparr>"

definition demoBundle2 :: Bundle where
  "demoBundle2 =
     \<lparr>ConfigtxValidator = \<lparr>ChannelID = ''ch'', ConfigProto = \<lparr>Sequence = 2, ChannelGroup = [8]\<rparr>\<rparr>,
      OrdererConfig = None, ApplicationConfig = Some None, ChannelConfig = None\<rparr>"

text \<open>The channel after the first of the two was committed and activated.\<close>

definition demoChan1 :: Chan where
  "demoChan1 =
     \<lparr>name = ''ch'', resources = Some demoBundle1,
      vault = \<lparr>txStatus = (\<lambda>t. Unknown)(''config-1'' := Valid),
               kvstate = [(''_configtx'', ''CHANNEL_CONFIG_ENV_BYTES1'') \<mapsto> [1, 7]],
               rwsets = Map.empty\<rparr>,
      trace = []\<rparr>"

text \<open>A first configuration transaction with sequence number 0, and its bundle.\<close>

definition demoEnv0 :: Envelope where
  "demoEnv0 = \<lparr>Payload = [0, 7], Signature = []\<rparr>"

definition demoBundle0 :: Bundle where
  "demoBundle0 =
     \<lparr>ConfigtxValidator = \<lparr>ChannelID = ''ch'', ConfigProto = \<lparr>Sequence = 0, ChannelGroup = [7]\<rparr>\<rparr>,
      OrdererConfig = None, ApplicationConfig = Some None, ChannelConfig = None\<rparr>"

section \<open>Properties\<close>

subsection \<open>What each operation leaves unchanged\<close>

lemma emits_simps [simp]:
  "name (emits es c) = name c" "resources (emits es c) = resources c"
  "vault (emits es c) = vault c" "trace (emits es c) = trace c @ es"
  by (simp_all add: emits_def)

lemma emit_simps [simp]:
  "name (emit e c) = name c" "resources (emit e c) = resources c"
  "vault (emit e c) = vault c" "trace (emit e c) = trace c @ [e]"
  by (simp_all add: emit_def)

lemma new_events_append: "trace c' = trace c @ es \<Longrightarrow> new_events c c' = es"
  by (simp add: new_events_def)

lemma applyBundle_fields [simp]:
  "name (applyBundle b c) = name c"
  "resources (applyBundle b c) = Some b"
  "vault (applyBundle b c) = vault c"
  by (simp_all add: applyBundle_def Let_def setConfigOrderers_def split: option.splits)

lemma applyBundle_trace:
  "trace (applyBundle b c) =
     trace c @ [Lock resourcesLock] @
     (case OrdererConfig b of
        None \<Rightarrow> [Log Debugf ''no orderer configuration found in channel config'' []]
      | Some orgs \<Rightarrow>
          Log Debugf ''[channel: %s] Orderer config has changed, updating the list of orderers'' [ArgStr (name c)]
          # concat (map (orgLogs (name c)) orgs) @
          (if concat (map orgOrderers orgs) = []
           then [Log Debugf ''[channel: %s] No orderers found in channel config'' [ArgStr (name c)]]
           else [Log Debugf ''[channel: %s] Updating the list of orderers: (%d) found''
                   [ArgStr (name c), ArgLen (length (concat (map orgOrderers orgs)))],
                 CallSetConfigOrderers (concat (map orgOrderers orgs))])) @
     [Unlock resourcesLock]"
  by (simp add: applyBundle_def Let_def setConfigOrderers_def split: option.splits)

lemma commit_bundle_fields [simp]:
  "name (snd (commit_bundle d blk ctx c)) = name c"
  "resources (snd (commit_bundle d blk ctx c)) = resources c"
  "vault (snd (commit_bundle d blk ctx c)) = vault c"
  by (simp_all add: commit_bundle_def Resources_def Let_def split: option.splits sum.splits)

lemma reload_bundle_fields [simp]:
  "name (snd (reload_bundle d t ctx c)) = name c"
  "resources (snd (reload_bundle d t ctx c)) = resources c"
  "vault (snd (reload_bundle d t ctx c)) = vault c"
  by (simp_all add: reload_bundle_def Resources_def Let_def split: option.splits sum.splits)

lemma commitConfig_fields [simp]:
  "name (snd (commitConfig d t blk s raw c)) = name c"
  "resources (snd (commitConfig d t blk s raw c)) = resources c"
  by (simp_all add: commitConfig_def commitConfig_rws_def vault_NewRWSet_def rws_SetState_def
        rws_Done_def CommitTX_def DiscardTx_def split: option.splits sum.splits prod.splits)

subsection \<open>Traces of the operations\<close>

lemma commitConfig_rws_cong:
  assumes "vault c = vault c'"
  shows "fst (commitConfig_rws d t blk s raw c) = fst (commitConfig_rws d t blk s raw c')
    \<and> vault (snd (commitConfig_rws d t blk s raw c)) = vault (snd (commitConfig_rws d t blk s raw c'))"
  using assms
  by (simp add: commitConfig_rws_def rws_SetState_def
        rws_Done_def CommitTX_def DiscardTx_def split: option.splits sum.splits)

lemma commitConfig_cong:
  assumes "vault c = vault c'"
  shows "fst (commitConfig d t blk s raw c) = fst (commitConfig d t blk s raw c')
     \<and> vault (snd (commitConfig d t blk s raw c)) = vault (snd (commitConfig d t blk s raw c'))"
proof (cases "failNewRWSet d (vault c') t")
  case None
  let ?v = "(vault c')\<lparr>rwsets := (rwsets (vault c'))(t \<mapsto> [])\<rparr>"
  have "vault (emit (CallNewRWSet t) (c\<lparr>vault := ?v\<rparr>)) = vault (emit (CallNewRWSet t) (c'\<lparr>vault := ?v\<rparr>))"
    by simp
  from commitConfig_rws_cong [OF this, of d t blk s raw] None assms show ?thesis
    by (simp add: commitConfig_def vault_NewRWSet_def rws_Done_def case_prod_beta)
next
  case (Some err)
  with assms show ?thesis
    by (simp add: commitConfig_def vault_NewRWSet_def)
qed

lemma commitConfig_trace:
  "\<exists>es. trace (snd (commitConfig d t blk s raw c)) = trace c @ es \<and> (\<forall>e\<in>set es. kind_of e = KWrite \<or> kind_of e = KLog)"
  by (simp add: commitConfig_def commitConfig_rws_def vault_NewRWSet_def rws_SetState_def
        rws_Done_def CommitTX_def DiscardTx_def split: option.splits sum.splits)

lemma of_kinds_append [simp]: "of_kinds ks (xs @ ys) = of_kinds ks xs @ of_kinds ks ys"
  by (simp add: of_kinds_def)

lemma of_kinds_Nil [simp]: "of_kinds ks [] = []"
  by (simp add: of_kinds_def)

lemma of_kinds_Cons [simp]: "of_kinds ks (e # es) = (if kind_of e \<in> ks then e # of_kinds ks es else of_kinds ks es)"
  by (simp add: of_kinds_def)

lemma pushed_append [simp]: "pushed (xs @ ys) = pushed xs @ pushed ys"
  by (induction xs rule: pushed.induct) simp_all

lemma pushed_map_Log: "pushed (map (\<lambda>x. Log lv fm (g x)) xs) = []"
  by (induction xs) simp_all

lemma pushed_orgLogs1 [simp]: "pushed (orgLogs n org) = []"
  by (simp add: orgLogs_def pushed_map_Log)

lemma pushed_orgLogs [simp]: "pushed (concat (map (orgLogs n) orgs)) = []"
  by (induction orgs) simp_all

lemma kind_orgLogs: "e \<in> set (orgLogs n org) \<Longrightarrow> kind_of e = KLog"
  by (auto simp: orgLogs_def)

lemma applyBundle_trace_kinds:
  "\<exists>es. trace (applyBundle b c) = trace c @ Lock resourcesLock # es @ [Unlock resourcesLock]
      \<and> (\<forall>e\<in>set es. kind_of e = KPush \<or> kind_of e = KLog)"
  by (auto simp add: applyBundle_trace dest: kind_orgLogs split: option.splits)

lemma commit_bundle_trace:
  "\<exists>es. trace (snd (commit_bundle d blk ctx c)) = trace c @ es
     \<and> (\<forall>e\<in>set es. e \<noteq> Lock resourcesLock \<and> kind_of e \<noteq> KWrite \<and> kind_of e \<noteq> KPush)"
  by (simp add: commit_bundle_def Resources_def Let_def split: option.splits sum.splits)

lemma reload_bundle_trace:
  "\<exists>es. trace (snd (reload_bundle d t ctx c)) = trace c @ es
     \<and> (\<forall>e\<in>set es. e \<noteq> Lock resourcesLock \<and> kind_of e \<noteq> KWrite \<and> kind_of e \<noteq> KPush)"
  by (simp add: reload_bundle_def Resources_def Let_def split: option.splits sum.splits)

subsection \<open>The bundle of a step is the one of the specification\<close>

lemma commit_bundle_spec_Some:
  "spec_build d (name c) (resources c) ctx = Some b \<Longrightarrow> fst (commit_bundle d blk ctx c) = Inr b"
  by (auto simp add: commit_bundle_def spec_build_def Resources_def Let_def split: option.splits sum.splits)

lemma commit_bundle_spec_None:
  "spec_build d (name c) (resources c) ctx = None \<Longrightarrow> \<exists>err. fst (commit_bundle d blk ctx c) = Inl (Err err)"
  by (auto simp add: commit_bundle_def spec_build_def Resources_def Let_def split: option.splits sum.splits)

lemma reload_bundle_spec_Some:
  "spec_build d (name c) (resources c) ctx = Some b \<Longrightarrow> fst (reload_bundle d t ctx c) = Inr b"
  by (auto simp add: reload_bundle_def spec_build_def Resources_def Let_def split: option.splits sum.splits)


lemma of_kinds_none: "\<forall>e\<in>set es. kind_of e \<notin> ks \<Longrightarrow> of_kinds ks es = []"
  by (induction es) simp_all

lemma reload_valid_stored:
  assumes "stored_config d (vault c) s = Some ctx"
  shows "reload_valid d s t c =
           (case reload_bundle d t ctx
                   (emit (CallGetState peerNamespace
                            (projr (CreateCompositeKey d channelConfigKey [FormatUint s])))
                      (emit (Log Infof ''config block available, txID [%s], loading...'' [ArgStr t]) c)) of
              (Inl out, c3) \<Rightarrow> (out, c3)
            | (Inr bundle, c3) \<Rightarrow> (Ok, applyBundle bundle c3))"
  using assms
  by (auto simp add: reload_valid_def stored_config_def decode_stored_def qe_GetState_def Let_def
        split: sum.splits option.splits)

lemma commit_bundle_genesis:
  "resources c = None \<Longrightarrow>
     new_events c (snd (commit_bundle d blk ctx c)) =
       [RLock resourcesLock, RUnlock resourcesLock, CallNewBundle (name c) (Config ctx)]"
  by (simp add: new_events_def commit_bundle_def Resources_def split: sum.splits)

lemma commit_bundle_successor:
  "resources c = Some res \<Longrightarrow>
     new_events c (snd (commit_bundle d blk ctx c)) =
       [RLock resourcesLock, RUnlock resourcesLock, RLock resourcesLock, RUnlock resourcesLock,
        CallValidate (ConfigtxValidator res) ctx] @
       (case Validate d (ConfigtxValidator res) ctx of
          Some err \<Rightarrow> []
        | None \<Rightarrow>
            CallNewBundle (ChannelID (ConfigtxValidator res)) (Config ctx) #
            (case NewBundle d (ChannelID (ConfigtxValidator res)) (Config ctx) of
               Inl err \<Rightarrow> []
             | Inr b \<Rightarrow> [CallLogSanityChecks b, CallCapabilitiesSupported b]))"
  by (simp add: new_events_def commit_bundle_def Resources_def Let_def split: sum.splits option.splits)

lemma reload_bundle_genesis:
  "resources c = None \<Longrightarrow>
     new_events c (snd (reload_bundle d t ctx c)) =
       [RLock resourcesLock, RUnlock resourcesLock, CallNewBundle (name c) (Config ctx)]"
  by (simp add: new_events_def reload_bundle_def Resources_def split: sum.splits)

lemma reload_bundle_successor:
  "resources c = Some res \<Longrightarrow>
     new_events c (snd (reload_bundle d t ctx c)) =
       [RLock resourcesLock, RUnlock resourcesLock, RLock resourcesLock, RUnlock resourcesLock,
        CallValidate (ConfigtxValidator res) ctx] @
       (case Validate d (ConfigtxValidator res) ctx of
          Some err \<Rightarrow> []
        | None \<Rightarrow>
            CallNewBundle (ChannelID (ConfigtxValidator res)) (Config ctx) #
            (case NewBundle d (ChannelID (ConfigtxValidator res)) (Config ctx) of
               Inl err \<Rightarrow> []
             | Inr b \<Rightarrow> [CallLogSanityChecks b, CallCapabilitiesSupported b]))"
  by (simp add: new_events_def reload_bundle_def Resources_def Let_def split: sum.splits option.splits)

subsection \<open>Decimal strings\<close>

lemma FormatUint_0: "FormatUint 0 = ''0''"
  by (simp add: FormatUint_def decimal.simps digit_def)

lemma FormatUint_1: "FormatUint 1 = ''1''"
  by (simp add: FormatUint_def decimal.simps digit_def)

lemma FormatUint_2: "FormatUint 2 = ''2''"
  by (simp add: FormatUint_def decimal.simps digit_def)

lemma FormatUint_3: "FormatUint 3 = ''3''"
  by (simp add: FormatUint_def decimal.simps digit_def)

subsection \<open>Idempotent commit\<close>

text \<open>
  C2. When the transaction id derived from the configuration's own sequence number,
  \<open>ConfigTXPrefix @ FormatUint (Sequence cfg)\<close>, already has status \<open>Valid\<close> in the vault,
  \<open>CommitConfig\<close> returns \<open>Ok\<close>. Apart from taking and releasing its two locks and
  logging, the only thing it does is the status query: the vault and the active bundle
  are as before, and no write set is opened, nothing is committed, no bundle is built
  and none is activated.
\<close>

theorem CommitConfig_valid_idempotent:
  assumes "UnmarshalPayload d (Payload e) = Inr payload"
    and "UnmarshalConfigEnvelope d (Data payload) = Inr ctx"
    and "Config ctx = Some cfg"
    and "failStatus d (vault c) (ConfigTXPrefix @ FormatUint (Sequence cfg)) = None"
    and "txStatus (vault c) (ConfigTXPrefix @ FormatUint (Sequence cfg)) = Valid"
  shows "CommitConfig d blockNumber raw (Some e) c =
           (Ok, c\<lparr>trace := trace c @
                   [Lock commitConfigMutex, Lock applyLock,
                    Log Debugf ''[channel: %s] received config transaction number %d''
                      [ArgStr (name c), ArgUint blockNumber],
                    CallStatus (ConfigTXPrefix @ FormatUint (Sequence cfg)),
                    Unlock applyLock, Unlock commitConfigMutex]\<rparr>)"
  using assms
  by (simp add: CommitConfig_def CommitConfig_locked_def vault_Status_def emits_def emit_def)

theorem CommitConfig_valid_idempotent_witness:
  "CommitConfig demoDeps 5 [1, 7] (Some demoEnv1)
     (newChan ''ch'' (emptyVault\<lparr>txStatus := (\<lambda>t. Unknown)(''config-1'' := Valid)\<rparr>)) =
   (Ok, \<lparr>name = ''ch'', resources = None,
         vault = emptyVault\<lparr>txStatus := (\<lambda>t. Unknown)(''config-1'' := Valid)\<rparr>,
         trace = [Lock commitConfigMutex, Lock applyLock,
                  Log Debugf ''[channel: %s] received config transaction number %d'' [ArgStr ''ch'', ArgUint 5],
                  CallStatus ''config-1'', Unlock applyLock, Unlock commitConfigMutex]\<rparr>)"
  using CommitConfig_valid_idempotent [of demoDeps demoEnv1 "\<lparr>Header = [], Data = [1, 7]\<rparr>"
      "\<lparr>Config = Some \<lparr>Sequence = 1, ChannelGroup = [7]\<rparr>, LastUpdate = None\<rparr>"
      "\<lparr>Sequence = 1, ChannelGroup = [7]\<rparr>"
      "newChan ''ch'' (emptyVault\<lparr>txStatus := (\<lambda>t. Unknown)(''config-1'' := Valid)\<rparr>)" 5 "[1, 7]"]
  by (simp add: demoDeps_def demoEnv1_def newChan_def emptyVault_def ConfigTXPrefix_def FormatUint_1)

subsection \<open>No activation on rejection\<close>

text \<open>
  C3. Take a call of \<open>CommitConfig\<close> that gets as far as building the bundle (the
  envelope decodes, the status of the derived id is \<open>Unknown\<close>). If the active bundle's
  validator rejects the configuration, or \<open>NewBundle\<close> fails (on the genesis or on the
  successor path), or the capability check of the new bundle fails, then the call
  returns an error, the active bundle and the vault are as before the call, and the
  call took no write lock on the resources, wrote nothing and pushed nothing.
\<close>

theorem CommitConfig_rejected_keeps_bundle:
  assumes "UnmarshalPayload d (Payload e) = Inr payload"
    and "UnmarshalConfigEnvelope d (Data payload) = Inr ctx"
    and "Config ctx = Some cfg"
    and "failStatus d (vault c) (ConfigTXPrefix @ FormatUint (Sequence cfg)) = None"
    and "txStatus (vault c) (ConfigTXPrefix @ FormatUint (Sequence cfg)) = Unknown"
    and "(\<exists>res err. resources c = Some res \<and> Validate d (ConfigtxValidator res) ctx = Some err)
       \<or> (resources c = None \<and> isl (NewBundle d (name c) (Config ctx)))
       \<or> (\<exists>res. resources c = Some res \<and> Validate d (ConfigtxValidator res) ctx = None
             \<and> isl (NewBundle d (ChannelID (ConfigtxValidator res)) (Config ctx)))
       \<or> (\<exists>res b err. resources c = Some res \<and> Validate d (ConfigtxValidator res) ctx = None
             \<and> NewBundle d (ChannelID (ConfigtxValidator res)) (Config ctx) = Inr b
             \<and> capabilitiesSupported b = Some err)"
  shows "\<exists>err c'. CommitConfig d blockNumber raw (Some e) c = (Err err, c')
           \<and> resources c' = resources c \<and> vault c' = vault c
           \<and> (\<forall>ev\<in>set (new_events c c'). ev \<noteq> Lock resourcesLock \<and> kind_of ev \<noteq> KWrite \<and> kind_of ev \<noteq> KPush)"
proof -
  let ?txid = "ConfigTXPrefix @ FormatUint (Sequence cfg)"
  let ?c1 = "emit (CallStatus ?txid)
               (emits [Lock commitConfigMutex, Lock applyLock,
                       Log Debugf ''[channel: %s] received config transaction number %d''
                         [ArgStr (name c), ArgUint blockNumber]] c)"
  from assms(6) have "spec_build d (name ?c1) (resources ?c1) ctx = None"
    by (auto simp add: spec_build_def isl_def)
  from commit_bundle_spec_None [OF this] obtain err
    where err: "fst (commit_bundle d blockNumber ctx ?c1) = Inl (Err err)" by blast
  obtain es where es: "trace (snd (commit_bundle d blockNumber ctx ?c1)) = trace ?c1 @ es"
    "\<forall>e\<in>set es. e \<noteq> Lock resourcesLock \<and> kind_of e \<noteq> KWrite \<and> kind_of e \<noteq> KPush"
    using commit_bundle_trace by blast
  let ?c' = "emits [Unlock applyLock, Unlock commitConfigMutex] (snd (commit_bundle d blockNumber ctx ?c1))"
  have run: "CommitConfig d blockNumber raw (Some e) c = (Err err, ?c')"
    using assms(1-5) err
    by (simp add: CommitConfig_def CommitConfig_locked_def CommitConfig_unknown_def vault_Status_def
          case_prod_beta)
  have tr: "trace ?c' = trace c @ ([Lock commitConfigMutex, Lock applyLock,
                       Log Debugf ''[channel: %s] received config transaction number %d''
                         [ArgStr (name c), ArgUint blockNumber], CallStatus ?txid] @ es @ [Unlock applyLock, Unlock commitConfigMutex])"
    using es(1) by simp
  have "\<forall>ev\<in>set (new_events c ?c'). ev \<noteq> Lock resourcesLock \<and> kind_of ev \<noteq> KWrite \<and> kind_of ev \<noteq> KPush"
    unfolding new_events_append [OF tr] using es(2) by auto
  with run show ?thesis by simp
qed

theorem CommitConfig_rejected_keeps_bundle_witness:
  "\<exists>err c'. CommitConfig demoDeps 9 [3, 7] (Some \<lparr>Payload = [3, 7], Signature = []\<rparr>)
               ((newChan ''ch'' emptyVault)\<lparr>resources := Some demoBundle\<rparr>) = (Err err, c')
      \<and> resources c' = Some demoBundle \<and> vault c' = emptyVault"
proof -
  let ?c = "(newChan ''ch'' emptyVault)\<lparr>resources := Some demoBundle\<rparr>"
  let ?ctx = "\<lparr>Config = Some \<lparr>Sequence = 3, ChannelGroup = [7]\<rparr>, LastUpdate = None\<rparr>"
  have h1: "UnmarshalPayload demoDeps (Payload \<lparr>Payload = [3, 7], Signature = []\<rparr>) = Inr \<lparr>Header = [], Data = [3, 7]\<rparr>"
    by (simp add: demoDeps_def)
  have h2: "UnmarshalConfigEnvelope demoDeps (Data \<lparr>Header = [], Data = [3, 7]\<rparr>) = Inr ?ctx"
    by (simp add: demoDeps_def)
  have h3: "Config ?ctx = Some \<lparr>Sequence = 3, ChannelGroup = [7]\<rparr>"
    by simp
  have h4: "failStatus demoDeps (vault ?c) (ConfigTXPrefix @ FormatUint (Sequence \<lparr>Sequence = 3, ChannelGroup = [7]\<rparr>)) = None"
    by (simp add: demoDeps_def)
  have h5: "txStatus (vault ?c) (ConfigTXPrefix @ FormatUint (Sequence \<lparr>Sequence = 3, ChannelGroup = [7]\<rparr>)) = Unknown"
    by (simp add: newChan_def emptyVault_def)
  have h6: "(\<exists>res err. resources ?c = Some res \<and> Validate demoDeps (ConfigtxValidator res) ?ctx = Some err)
       \<or> (resources ?c = None \<and> isl (NewBundle demoDeps (name ?c) (Config ?ctx)))
       \<or> (\<exists>res. resources ?c = Some res \<and> Validate demoDeps (ConfigtxValidator res) ?ctx = None
             \<and> isl (NewBundle demoDeps (ChannelID (ConfigtxValidator res)) (Config ?ctx)))
       \<or> (\<exists>res b err. resources ?c = Some res \<and> Validate demoDeps (ConfigtxValidator res) ?ctx = None
             \<and> NewBundle demoDeps (ChannelID (ConfigtxValidator res)) (Config ?ctx) = Inr b
             \<and> capabilitiesSupported b = Some err)"
    by (simp add: demoDeps_def demoValidate_def demoBundle_def)
  from CommitConfig_rejected_keeps_bundle [OF h1 h2 h3 h4 h5 h6, of 9 "[3, 7]"]
  show ?thesis by (auto simp add: newChan_def)
qed

subsection \<open>Failure of the ledger commit\<close>




subsection \<open>Endpoint propagation\<close>

text \<open>
  C7. \<open>applyBundle\<close> of a bundle whose ordering configuration has one organization with
  endpoints \<open>e1\<close>, \<open>e2\<close> and one TLS root certificate pushes exactly one list to the
  network layer, of the two connection configurations of \<open>e1\<close> and \<open>e2\<close>, each with TLS
  enabled, the timeout of ten seconds (in nanoseconds) and the root certificate
  followed by the organization's intermediate certificates. With no ordering
  configuration, or with no endpoint in it, nothing is pushed. \<open>applyBundle\<close> has no
  error result, and the bundle is the active one afterwards.
\<close>

theorem applyBundle_pushes_endpoints:
  "(OrdererConfig b = Some [org] \<and> Endpoints org = [e1, e2] \<and> TLSRootCerts org = [cert]
      \<and> TLSIntermediateCerts org = ics \<longrightarrow>
      pushed (new_events c (applyBundle b c)) =
        [[\<lparr>Address = e1, ConnectionTimeout = 10000000000, TLSEnabled = True, TLSRootCertBytes = cert # ics\<rparr>,
          \<lparr>Address = e2, ConnectionTimeout = 10000000000, TLSEnabled = True, TLSRootCertBytes = cert # ics\<rparr>]])
   \<and> ((OrdererConfig b = None \<or> (\<exists>orgs. OrdererConfig b = Some orgs \<and> concat (map Endpoints orgs) = []))
        \<longrightarrow> pushed (new_events c (applyBundle b c)) = [])
   \<and> resources (applyBundle b c) = Some b"
proof -
  have "concat (map orgOrderers orgs) = []" if "concat (map Endpoints orgs) = []" for orgs
    using that by (induction orgs) (simp_all add: orgOrderers_def)
  then show ?thesis
    by (auto simp add: new_events_def applyBundle_trace orgOrderers_def tlsRootCertsOf_def Second_def)
qed

theorem applyBundle_pushes_endpoints_witness:
  "pushed (new_events (newChan ''ch'' emptyVault) (applyBundle demoBundle (newChan ''ch'' emptyVault))) =
     [[\<lparr>Address = ''orderer0:7050'', ConnectionTimeout = 10000000000, TLSEnabled = True,
        TLSRootCertBytes = [[1, 2, 3]]\<rparr>,
       \<lparr>Address = ''orderer1:7050'', ConnectionTimeout = 10000000000, TLSEnabled = True,
        TLSRootCertBytes = [[1, 2, 3]]\<rparr>]]
   \<and> pushed (new_events (newChan ''ch'' emptyVault)
        (applyBundle (demoBundle\<lparr>OrdererConfig := None\<rparr>) (newChan ''ch'' emptyVault))) = []"
proof -
  have a: "OrdererConfig demoBundle = Some [demoOrg] \<and> Endpoints demoOrg = [''orderer0:7050'', ''orderer1:7050'']
      \<and> TLSRootCerts demoOrg = [[1, 2, 3]] \<and> TLSIntermediateCerts demoOrg = []"
    by (simp add: demoBundle_def demoOrg_def)
  have b: "OrdererConfig (demoBundle\<lparr>OrdererConfig := None\<rparr>) = None
      \<or> (\<exists>orgs. OrdererConfig (demoBundle\<lparr>OrdererConfig := None\<rparr>) = Some orgs \<and> concat (map Endpoints orgs) = [])"
    by simp
  from applyBundle_pushes_endpoints [of demoBundle demoOrg "''orderer0:7050''" "''orderer1:7050''" "[1, 2, 3]" "[]"
      "newChan ''ch'' emptyVault"] a
  have 1: "pushed (new_events (newChan ''ch'' emptyVault) (applyBundle demoBundle (newChan ''ch'' emptyVault))) =
     [[\<lparr>Address = ''orderer0:7050'', ConnectionTimeout = 10000000000, TLSEnabled = True,
        TLSRootCertBytes = [[1, 2, 3]]\<rparr>,
       \<lparr>Address = ''orderer1:7050'', ConnectionTimeout = 10000000000, TLSEnabled = True,
        TLSRootCertBytes = [[1, 2, 3]]\<rparr>]]"
    by blast
  from applyBundle_pushes_endpoints [of "demoBundle\<lparr>OrdererConfig := None\<rparr>" _ _ _ _ _ "newChan ''ch'' emptyVault"] b
  have 2: "pushed (new_events (newChan ''ch'' emptyVault)
        (applyBundle (demoBundle\<lparr>OrdererConfig := None\<rparr>) (newChan ''ch'' emptyVault))) = []"
    by blast
  from 1 2 show ?thesis by simp
qed

subsection \<open>The events of a whole call\<close>

lemma commit_bundle_new_events:
  "trace (snd (commit_bundle d blk ctx c)) = trace c @ new_events c (snd (commit_bundle d blk ctx c))"
proof -
  obtain es where "trace (snd (commit_bundle d blk ctx c)) = trace c @ es"
    using commit_bundle_trace by blast
  then show ?thesis by (simp add: new_events_def)
qed

lemma reload_bundle_new_events:
  "trace (snd (reload_bundle d t ctx c)) = trace c @ new_events c (snd (reload_bundle d t ctx c))"
proof -
  obtain es where "trace (snd (reload_bundle d t ctx c)) = trace c @ es"
    using reload_bundle_trace by blast
  then show ?thesis by (simp add: new_events_def)
qed

lemma CommitConfig_unknown_trace:
  "\<exists>rest. trace (snd (CommitConfig_unknown d blk raw ctx txid seq c)) =
            trace c @ new_events c (snd (commit_bundle d blk ctx c)) @ rest
        \<and> (\<forall>e\<in>set rest. kind_of e = KWrite \<or> kind_of e = KLog \<or> kind_of e = KPush \<or> kind_of e = KLock)"
proof (cases "commit_bundle d blk ctx c")
  case (Pair r c1)
  then have c1: "trace c1 = trace c @ new_events c (snd (commit_bundle d blk ctx c))"
    using commit_bundle_new_events [of d blk ctx c] by simp
  show ?thesis
  proof (cases r)
    case (Inl out)
    with Pair c1 show ?thesis by (simp add: CommitConfig_unknown_def)
  next
    case (Inr bdl)
    obtain es where es: "trace (snd (commitConfig d txid blk seq raw c1)) = trace c1 @ es"
      "\<forall>e\<in>set es. kind_of e = KWrite \<or> kind_of e = KLog"
      using commitConfig_trace by blast
    obtain r2 c2 where cc: "commitConfig d txid blk seq raw c1 = (r2, c2)" by (cases "commitConfig d txid blk seq raw c1")
    obtain aes where aes: "trace (applyBundle bdl c2) = trace c2 @ Lock resourcesLock # aes @ [Unlock resourcesLock]"
      "\<forall>e\<in>set aes. kind_of e = KPush \<or> kind_of e = KLog"
      using applyBundle_trace_kinds by blast
    show ?thesis
    proof (cases r2)
      case None
      have "trace (snd (CommitConfig_unknown d blk raw ctx txid seq c)) =
              trace c @ new_events c (snd (commit_bundle d blk ctx c)) @ (es @ Lock resourcesLock # aes @ [Unlock resourcesLock])"
        using Pair Inr cc None es(1) aes(1) c1 by (simp add: CommitConfig_unknown_def)
      moreover have "\<forall>e\<in>set (es @ Lock resourcesLock # aes @ [Unlock resourcesLock]).
          kind_of e = KWrite \<or> kind_of e = KLog \<or> kind_of e = KPush \<or> kind_of e = KLock"
        using es(2) aes(2) by auto
      ultimately show ?thesis by blast
    next
      case (Some err)
      have "trace (snd (CommitConfig_unknown d blk raw ctx txid seq c)) =
              trace c @ new_events c (snd (commit_bundle d blk ctx c)) @ es"
        using Pair Inr cc Some es(1) c1 by (simp add: CommitConfig_unknown_def)
      moreover have "\<forall>e\<in>set es. kind_of e = KWrite \<or> kind_of e = KLog \<or> kind_of e = KPush \<or> kind_of e = KLock"
        using es(2) by auto
      ultimately show ?thesis by blast
    qed
  qed
qed

lemma reload_valid_trace:
  fixes d s t c
  defines "pre \<equiv> [Log Infof ''config block available, txID [%s], loading...'' [ArgStr t],
              CallGetState peerNamespace (projr (CreateCompositeKey d channelConfigKey [FormatUint s]))]"
  assumes "stored_config d (vault c) s = Some ctx"
  shows "\<exists>rest. trace (snd (reload_valid d s t c)) =
            trace c @ pre @ new_events (emits pre c) (snd (reload_bundle d t ctx (emits pre c))) @ rest
        \<and> (\<forall>e\<in>set rest. kind_of e = KLog \<or> kind_of e = KPush \<or> kind_of e = KLock)"
proof -
  let ?c0 = "emits pre c"
  have c0: "emit (CallGetState peerNamespace (projr (CreateCompositeKey d channelConfigKey [FormatUint s])))
              (emit (Log Infof ''config block available, txID [%s], loading...'' [ArgStr t]) c) = ?c0"
    by (simp add: emit_def emits_def pre_def)
  obtain r c1 where rb: "reload_bundle d t ctx ?c0 = (r, c1)" by (cases "reload_bundle d t ctx ?c0")
  then have c1: "trace c1 = trace c @ pre @ new_events ?c0 (snd (reload_bundle d t ctx ?c0))"
    using reload_bundle_new_events [of d t ctx ?c0] by simp
  show ?thesis
  proof (cases r)
    case (Inl out)
    have "trace (snd (reload_valid d s t c)) =
            trace c @ pre @ new_events ?c0 (snd (reload_bundle d t ctx ?c0)) @ []"
      using rb Inl c1 by (simp add: reload_valid_stored [OF assms(2)] c0)
    moreover have "\<forall>e\<in>set ([] :: event list). kind_of e = KLog \<or> kind_of e = KPush \<or> kind_of e = KLock"
      by simp
    ultimately show ?thesis by blast
  next
    case (Inr bdl)
    obtain aes where aes: "trace (applyBundle bdl c1) = trace c1 @ Lock resourcesLock # aes @ [Unlock resourcesLock]"
      "\<forall>e\<in>set aes. kind_of e = KPush \<or> kind_of e = KLog"
      using applyBundle_trace_kinds by blast
    have "trace (snd (reload_valid d s t c)) =
            trace c @ pre @ new_events ?c0 (snd (reload_bundle d t ctx ?c0)) @ (Lock resourcesLock # aes @ [Unlock resourcesLock])"
      using rb Inr c1 aes(1) by (simp add: reload_valid_stored [OF assms(2)] c0)
    moreover have "\<forall>e\<in>set (Lock resourcesLock # aes @ [Unlock resourcesLock]). kind_of e = KLog \<or> kind_of e = KPush \<or> kind_of e = KLock"
      using aes(2) by auto
    ultimately show ?thesis by blast
  qed
qed

lemma CommitConfig_reach:
  assumes "UnmarshalPayload d (Payload e) = Inr payload"
    and "UnmarshalConfigEnvelope d (Data payload) = Inr ctx"
    and "Config ctx = Some cfg"
    and "failStatus d (vault c) (ConfigTXPrefix @ FormatUint (Sequence cfg)) = None"
    and "txStatus (vault c) (ConfigTXPrefix @ FormatUint (Sequence cfg)) = Unknown"
  shows "CommitConfig d blk raw (Some e) c =
           (fst (CommitConfig_unknown d blk raw ctx (ConfigTXPrefix @ FormatUint (Sequence cfg)) (Sequence cfg)
                  (emits [Lock commitConfigMutex, Lock applyLock,
                          Log Debugf ''[channel: %s] received config transaction number %d''
                            [ArgStr (name c), ArgUint blk],
                          CallStatus (ConfigTXPrefix @ FormatUint (Sequence cfg))] c)),
            emits [Unlock applyLock, Unlock commitConfigMutex]
              (snd (CommitConfig_unknown d blk raw ctx (ConfigTXPrefix @ FormatUint (Sequence cfg)) (Sequence cfg)
                  (emits [Lock commitConfigMutex, Lock applyLock,
                          Log Debugf ''[channel: %s] received config transaction number %d''
                            [ArgStr (name c), ArgUint blk],
                          CallStatus (ConfigTXPrefix @ FormatUint (Sequence cfg))] c))))"
  using assms
  by (simp add: CommitConfig_def CommitConfig_locked_def vault_Status_def case_prod_beta emit_def emits_def Let_def)

lemma CommitConfig_unknown_Ok:
  assumes "spec_build d (name c) (resources c) ctx = Some b"
    and "fst (commitConfig d txid blk seq raw c) = None"
  shows "fst (CommitConfig_unknown d blk raw ctx txid seq c) = Ok"
    and "resources (snd (CommitConfig_unknown d blk raw ctx txid seq c)) = Some b"
    and "vault (snd (CommitConfig_unknown d blk raw ctx txid seq c)) = vault (snd (commitConfig d txid blk seq raw c))"
    and "name (snd (CommitConfig_unknown d blk raw ctx txid seq c)) = name c"
proof -
  obtain r c1 where cb: "commit_bundle d blk ctx c = (r, c1)" by (cases "commit_bundle d blk ctx c")
  with commit_bundle_spec_Some [OF assms(1), of blk] have r: "r = Inr b" by simp
  have v: "vault c1 = vault c" and n: "name c1 = name c"
    using cb commit_bundle_fields [of d blk ctx c] by simp_all
  from commitConfig_cong [OF v, of d txid blk seq raw] assms(2)
  have ok: "fst (commitConfig d txid blk seq raw c1) = None"
    and vv: "vault (snd (commitConfig d txid blk seq raw c1)) = vault (snd (commitConfig d txid blk seq raw c))"
    by simp_all
  obtain r2 c2 where cc: "commitConfig d txid blk seq raw c1 = (r2, c2)" by (cases "commitConfig d txid blk seq raw c1")
  with ok have r2: "r2 = None" by simp
  have n2: "name c2 = name c1" using cc commitConfig_fields(1) [of d txid blk seq raw c1] by simp
  show "fst (CommitConfig_unknown d blk raw ctx txid seq c) = Ok"
    using cb r cc r2 by (simp add: CommitConfig_unknown_def)
  show "resources (snd (CommitConfig_unknown d blk raw ctx txid seq c)) = Some b"
    using cb r cc r2 by (simp add: CommitConfig_unknown_def)
  show "vault (snd (CommitConfig_unknown d blk raw ctx txid seq c)) = vault (snd (commitConfig d txid blk seq raw c))"
    using cb r cc r2 vv by (simp add: CommitConfig_unknown_def)
  show "name (snd (CommitConfig_unknown d blk raw ctx txid seq c)) = name c"
    using cb r cc r2 n n2 by (simp add: CommitConfig_unknown_def)
qed

lemma reload_valid_Ok:
  assumes "stored_config d (vault c) s = Some ctx"
    and "spec_build d (name c) (resources c) ctx = Some b"
  shows "fst (reload_valid d s t c) = Ok"
    and "resources (snd (reload_valid d s t c)) = Some b"
    and "vault (snd (reload_valid d s t c)) = vault c"
    and "name (snd (reload_valid d s t c)) = name c"
proof -
  let ?c0 = "emit (CallGetState peerNamespace (projr (CreateCompositeKey d channelConfigKey [FormatUint s])))
              (emit (Log Infof ''config block available, txID [%s], loading...'' [ArgStr t]) c)"
  obtain r c1 where rb: "reload_bundle d t ctx ?c0 = (r, c1)" by (cases "reload_bundle d t ctx ?c0")
  have "spec_build d (name ?c0) (resources ?c0) ctx = Some b" using assms(2) by simp
  from reload_bundle_spec_Some [OF this, of t] rb have r: "r = Inr b" by simp
  have f: "vault c1 = vault c" "name c1 = name c"
    using rb reload_bundle_fields [of d t ctx ?c0] by simp_all
  show "fst (reload_valid d s t c) = Ok" "resources (snd (reload_valid d s t c)) = Some b"
    "vault (snd (reload_valid d s t c)) = vault c" "name (snd (reload_valid d s t c)) = name c"
    using rb r f by (simp_all add: reload_valid_stored [OF assms(1)])
qed

lemma CommitConfig_events:
  assumes "UnmarshalPayload d (Payload e) = Inr payload"
    and "UnmarshalConfigEnvelope d (Data payload) = Inr ctx"
    and "Config ctx = Some cfg"
    and "failStatus d (vault c) (ConfigTXPrefix @ FormatUint (Sequence cfg)) = None"
    and "txStatus (vault c) (ConfigTXPrefix @ FormatUint (Sequence cfg)) = Unknown"
  shows "\<exists>c1 rest. name c1 = name c \<and> resources c1 = resources c
      \<and> new_events c (snd (CommitConfig d blk raw (Some e) c)) =
          [Lock commitConfigMutex, Lock applyLock,
           Log Debugf ''[channel: %s] received config transaction number %d'' [ArgStr (name c), ArgUint blk],
           CallStatus (ConfigTXPrefix @ FormatUint (Sequence cfg))] @
          new_events c1 (snd (commit_bundle d blk ctx c1)) @ rest @ [Unlock applyLock, Unlock commitConfigMutex]
      \<and> (\<forall>e\<in>set rest. kind_of e = KWrite \<or> kind_of e = KLog \<or> kind_of e = KPush \<or> kind_of e = KLock)"
proof -
  let ?txid = "ConfigTXPrefix @ FormatUint (Sequence cfg)"
  let ?pre = "[Lock commitConfigMutex, Lock applyLock,
               Log Debugf ''[channel: %s] received config transaction number %d'' [ArgStr (name c), ArgUint blk],
               CallStatus ?txid]"
  let ?c1 = "emits ?pre c"
  obtain rest where rest:
    "trace (snd (CommitConfig_unknown d blk raw ctx ?txid (Sequence cfg) ?c1)) =
       trace ?c1 @ new_events ?c1 (snd (commit_bundle d blk ctx ?c1)) @ rest"
    "\<forall>e\<in>set rest. kind_of e = KWrite \<or> kind_of e = KLog \<or> kind_of e = KPush \<or> kind_of e = KLock"
    using CommitConfig_unknown_trace by blast
  have "trace (snd (CommitConfig d blk raw (Some e) c)) =
          trace c @ (?pre @ new_events ?c1 (snd (commit_bundle d blk ctx ?c1)) @ rest @ [Unlock applyLock, Unlock commitConfigMutex])"
    using rest(1) by (simp add: CommitConfig_reach [OF assms])
  from new_events_append [OF this] rest(2) show ?thesis
    by (intro exI [of _ ?c1] exI [of _ rest]) simp
qed

lemma of_kinds_rest:
  "\<forall>e\<in>set rest. kind_of e = KWrite \<or> kind_of e = KLog \<or> kind_of e = KPush \<or> kind_of e = KLock \<Longrightarrow>
     of_kinds {KValidate, KBuild} rest = [] \<and> of_kinds {KCheck} rest = []"
  by (auto intro!: of_kinds_none)

lemma of_kinds_rest':
  "\<forall>e\<in>set rest. kind_of e = KLog \<or> kind_of e = KPush \<or> kind_of e = KLock \<Longrightarrow>
     of_kinds {KValidate, KBuild} rest = [] \<and> of_kinds {KCheck} rest = []"
  by (auto intro!: of_kinds_none)

subsection \<open>The small instance\<close>

lemma demo_decode [simp]:
  "UnmarshalPayload demoDeps bs = Inr \<lparr>Header = [], Data = bs\<rparr>"
  "UnmarshalEnvelope demoDeps bs = Inr \<lparr>Payload = bs, Signature = []\<rparr>"
  "UnmarshalConfigEnvelope demoDeps (x # xs) =
     Inr \<lparr>Config = Some \<lparr>Sequence = ucast x, ChannelGroup = xs\<rparr>, LastUpdate = None\<rparr>"
  "CreateCompositeKey demoDeps ot attrs = Inr (ot @ concat attrs)"
  "NewBundle demoDeps = demoNewBundle" "Validate demoDeps = demoValidate"
  by (simp_all add: demoDeps_def)

lemma demo_nofail [simp]:
  "failStatus demoDeps v t = None" "failNewQueryExecutor demoDeps v = None"
  "failGetState demoDeps v ns k = None" "failNewRWSet demoDeps v t = None"
  "failSetState demoDeps v t ns k bs = None" "failCommitTX demoDeps v t blk = None"
  "failDiscardTx demoDeps v t = None"
  by (simp_all add: demoDeps_def)

lemma demo_commitConfig_ok: "fst (commitConfig demoDeps t blk s raw c) = None"
  by (simp add: commitConfig_def commitConfig_rws_def vault_NewRWSet_def rws_SetState_def
        rws_Done_def CommitTX_def)

subsection \<open>Genesis and successor paths\<close>

text \<open>
  C6. Take a call of \<open>CommitConfig\<close> that gets as far as building the bundle, or a
  reload step (\<open>reload_valid\<close>) that read and decoded its configuration. Of the events
  of the whole call, the validations and bundle constructions are these: with no
  active bundle, one construction for the channel's name and no validation; with an
  active bundle, first the validation of the proposed configuration by that bundle's
  validator and then, only if it passed, one construction for the validator's channel
  id.
\<close>

theorem genesis_and_successor_paths:
  "(UnmarshalPayload d (Payload e) = Inr payload \<and> UnmarshalConfigEnvelope d (Data payload) = Inr ctx
      \<and> Config ctx = Some cfg
      \<and> failStatus d (vault c) (ConfigTXPrefix @ FormatUint (Sequence cfg)) = None
      \<and> txStatus (vault c) (ConfigTXPrefix @ FormatUint (Sequence cfg)) = Unknown \<longrightarrow>
    of_kinds {KValidate, KBuild} (new_events c (snd (CommitConfig d blockNumber raw (Some e) c))) =
      (case resources c of
         None \<Rightarrow> [CallNewBundle (name c) (Config ctx)]
       | Some res \<Rightarrow>
           CallValidate (ConfigtxValidator res) ctx #
           (case Validate d (ConfigtxValidator res) ctx of
              Some err \<Rightarrow> []
            | None \<Rightarrow> [CallNewBundle (ChannelID (ConfigtxValidator res)) (Config ctx)])))
   \<and> (stored_config d (vault c) sequence = Some ctx \<longrightarrow>
    of_kinds {KValidate, KBuild} (new_events c (snd (reload_valid d sequence txID c))) =
      (case resources c of
         None \<Rightarrow> [CallNewBundle (name c) (Config ctx)]
       | Some res \<Rightarrow>
           CallValidate (ConfigtxValidator res) ctx #
           (case Validate d (ConfigtxValidator res) ctx of
              Some err \<Rightarrow> []
            | None \<Rightarrow> [CallNewBundle (ChannelID (ConfigtxValidator res)) (Config ctx)])))"
proof (intro conjI impI)
  assume h: "UnmarshalPayload d (Payload e) = Inr payload \<and> UnmarshalConfigEnvelope d (Data payload) = Inr ctx
      \<and> Config ctx = Some cfg
      \<and> failStatus d (vault c) (ConfigTXPrefix @ FormatUint (Sequence cfg)) = None
      \<and> txStatus (vault c) (ConfigTXPrefix @ FormatUint (Sequence cfg)) = Unknown"
  then obtain c1 rest where c1: "name c1 = name c" "resources c1 = resources c"
    and ev: "new_events c (snd (CommitConfig d blockNumber raw (Some e) c)) =
          [Lock commitConfigMutex, Lock applyLock,
           Log Debugf ''[channel: %s] received config transaction number %d'' [ArgStr (name c), ArgUint blockNumber],
           CallStatus (ConfigTXPrefix @ FormatUint (Sequence cfg))] @
          new_events c1 (snd (commit_bundle d blockNumber ctx c1)) @ rest @ [Unlock applyLock, Unlock commitConfigMutex]"
    and rest: "\<forall>e\<in>set rest. kind_of e = KWrite \<or> kind_of e = KLog \<or> kind_of e = KPush \<or> kind_of e = KLock"
    using CommitConfig_events [of d e payload ctx cfg c blockNumber raw] by blast
  show "of_kinds {KValidate, KBuild} (new_events c (snd (CommitConfig d blockNumber raw (Some e) c))) =
      (case resources c of
         None \<Rightarrow> [CallNewBundle (name c) (Config ctx)]
       | Some res \<Rightarrow>
           CallValidate (ConfigtxValidator res) ctx #
           (case Validate d (ConfigtxValidator res) ctx of
              Some err \<Rightarrow> []
            | None \<Rightarrow> [CallNewBundle (ChannelID (ConfigtxValidator res)) (Config ctx)]))"
  proof (cases "resources c")
    case None
    with c1 have "resources c1 = None" by simp
    from commit_bundle_genesis [OF this, of d blockNumber ctx] c1 None of_kinds_rest [OF rest]
    show ?thesis by (simp add: ev)
  next
    case (Some res)
    with c1 have "resources c1 = Some res" by simp
    from commit_bundle_successor [OF this, of d blockNumber ctx] c1 Some of_kinds_rest [OF rest]
    show ?thesis by (simp add: ev split: option.splits sum.splits)
  qed
next
  assume h: "stored_config d (vault c) sequence = Some ctx"
  let ?pre = "[Log Infof ''config block available, txID [%s], loading...'' [ArgStr txID],
              CallGetState peerNamespace (projr (CreateCompositeKey d channelConfigKey [FormatUint sequence]))]"
  let ?c1 = "emits ?pre c"
  from reload_valid_trace [OF h, of txID] obtain rest where
    tr: "trace (snd (reload_valid d sequence txID c)) =
            trace c @ (?pre @ new_events ?c1 (snd (reload_bundle d txID ctx ?c1)) @ rest)"
    and rest: "\<forall>e\<in>set rest. kind_of e = KLog \<or> kind_of e = KPush \<or> kind_of e = KLock"
    by auto
  note ev = new_events_append [OF tr]
  show "of_kinds {KValidate, KBuild} (new_events c (snd (reload_valid d sequence txID c))) =
      (case resources c of
         None \<Rightarrow> [CallNewBundle (name c) (Config ctx)]
       | Some res \<Rightarrow>
           CallValidate (ConfigtxValidator res) ctx #
           (case Validate d (ConfigtxValidator res) ctx of
              Some err \<Rightarrow> []
            | None \<Rightarrow> [CallNewBundle (ChannelID (ConfigtxValidator res)) (Config ctx)]))"
  proof (cases "resources c")
    case None
    then have "resources ?c1 = None" by simp
    from reload_bundle_genesis [OF this, of d txID ctx] None of_kinds_rest' [OF rest]
    show ?thesis by (simp add: ev)
  next
    case (Some res)
    then have "resources ?c1 = Some res" by simp
    from reload_bundle_successor [OF this, of d txID ctx] Some of_kinds_rest' [OF rest]
    show ?thesis by (simp add: ev split: option.splits sum.splits)
  qed
qed

theorem genesis_and_successor_paths_witness:
  "of_kinds {KValidate, KBuild}
     (new_events (newChan ''ch'' emptyVault)
        (snd (CommitConfig demoDeps 0 [1, 7] (Some demoEnv1) (newChan ''ch'' emptyVault)))) =
     [CallNewBundle ''ch'' (Some \<lparr>Sequence = 1, ChannelGroup = [7]\<rparr>)]
   \<and> of_kinds {KValidate, KBuild}
     (new_events ((newChan ''ch'' storedVault)\<lparr>resources := Some demoBundle1\<rparr>)
        (snd (reload_valid demoDeps 2 ''config-2'' ((newChan ''ch'' storedVault)\<lparr>resources := Some demoBundle1\<rparr>)))) =
     [CallValidate \<lparr>ChannelID = ''ch'', ConfigProto = \<lparr>Sequence = 1, ChannelGroup = [7]\<rparr>\<rparr>
        \<lparr>Config = Some \<lparr>Sequence = 2, ChannelGroup = [8]\<rparr>, LastUpdate = None\<rparr>,
      CallNewBundle ''ch'' (Some \<lparr>Sequence = 2, ChannelGroup = [8]\<rparr>)]"
proof -
  let ?c = "newChan ''ch'' emptyVault"
  let ?c2 = "(newChan ''ch'' storedVault)\<lparr>resources := Some demoBundle1\<rparr>"
  let ?ctx2 = "\<lparr>Config = Some \<lparr>Sequence = 2, ChannelGroup = [8]\<rparr>, LastUpdate = None\<rparr>"
  have a: "UnmarshalPayload demoDeps (Payload demoEnv1) = Inr \<lparr>Header = [], Data = [1, 7]\<rparr>
      \<and> UnmarshalConfigEnvelope demoDeps (Data \<lparr>Header = [], Data = [1, 7]\<rparr>) =
          Inr \<lparr>Config = Some \<lparr>Sequence = 1, ChannelGroup = [7]\<rparr>, LastUpdate = None\<rparr>
      \<and> Config \<lparr>Config = Some \<lparr>Sequence = 1, ChannelGroup = [7]\<rparr>, LastUpdate = None\<rparr> =
          Some \<lparr>Sequence = 1, ChannelGroup = [7]\<rparr>
      \<and> failStatus demoDeps (vault ?c) (ConfigTXPrefix @ FormatUint (Sequence \<lparr>Sequence = 1, ChannelGroup = [7]\<rparr>)) = None
      \<and> txStatus (vault ?c) (ConfigTXPrefix @ FormatUint (Sequence \<lparr>Sequence = 1, ChannelGroup = [7]\<rparr>)) = Unknown"
    by (simp add: demoEnv1_def newChan_def emptyVault_def)
  have b: "stored_config demoDeps (vault ?c2) 2 = Some ?ctx2"
    by (simp add: stored_config_def decode_stored_def newChan_def storedVault_def channelConfigKey_def
          peerNamespace_def FormatUint_2)
  from genesis_and_successor_paths [of demoDeps demoEnv1 "\<lparr>Header = [], Data = [1, 7]\<rparr>"
      "\<lparr>Config = Some \<lparr>Sequence = 1, ChannelGroup = [7]\<rparr>, LastUpdate = None\<rparr>"
      "\<lparr>Sequence = 1, ChannelGroup = [7]\<rparr>" ?c 0 "[1, 7]"] a
  have 1: "of_kinds {KValidate, KBuild} (new_events ?c (snd (CommitConfig demoDeps 0 [1, 7] (Some demoEnv1) ?c))) =
     [CallNewBundle ''ch'' (Some \<lparr>Sequence = 1, ChannelGroup = [7]\<rparr>)]"
    by (simp add: newChan_def)
  from genesis_and_successor_paths [of demoDeps _ _ ?ctx2 _ ?c2 _ _ 2 "''config-2''"] b
  have 2: "of_kinds {KValidate, KBuild} (new_events ?c2 (snd (reload_valid demoDeps 2 ''config-2'' ?c2))) =
     [CallValidate \<lparr>ChannelID = ''ch'', ConfigProto = \<lparr>Sequence = 1, ChannelGroup = [7]\<rparr>\<rparr> ?ctx2,
      CallNewBundle ''ch'' (Some \<lparr>Sequence = 2, ChannelGroup = [8]\<rparr>)]"
    by (simp add: newChan_def demoBundle1_def demoValidate_def)
  from 1 2 show ?thesis by simp
qed

subsection \<open>No capability check on the genesis path\<close>

text \<open>
  C10. With the same two kinds of step: the capability check is called only when there
  is an active bundle, the validation passed and the successor bundle was built. With
  no active bundle it is not called, and the step succeeds and activates whatever
  bundle \<open>NewBundle\<close> returned (for a live commit, if persisting succeeds), also one
  with no application section or with unsupported capabilities.
\<close>

theorem genesis_skips_capability_check:
  "(UnmarshalPayload d (Payload e) = Inr payload \<and> UnmarshalConfigEnvelope d (Data payload) = Inr ctx
      \<and> Config ctx = Some cfg
      \<and> failStatus d (vault c) (ConfigTXPrefix @ FormatUint (Sequence cfg)) = None
      \<and> txStatus (vault c) (ConfigTXPrefix @ FormatUint (Sequence cfg)) = Unknown \<longrightarrow>
    of_kinds {KCheck} (new_events c (snd (CommitConfig d blockNumber raw (Some e) c))) =
      (case resources c of
         None \<Rightarrow> []
       | Some res \<Rightarrow>
           (case Validate d (ConfigtxValidator res) ctx of
              Some err \<Rightarrow> []
            | None \<Rightarrow>
                (case NewBundle d (ChannelID (ConfigtxValidator res)) (Config ctx) of
                   Inl err \<Rightarrow> []
                 | Inr b' \<Rightarrow> [CallCapabilitiesSupported b'])))
    \<and> (resources c = None \<and> NewBundle d (name c) (Config ctx) = Inr b
        \<and> fst (commitConfig d (ConfigTXPrefix @ FormatUint (Sequence cfg)) blockNumber (Sequence cfg) raw c) = None \<longrightarrow>
        fst (CommitConfig d blockNumber raw (Some e) c) = Ok
        \<and> resources (snd (CommitConfig d blockNumber raw (Some e) c)) = Some b))
   \<and> (stored_config d (vault c) sequence = Some ctx \<longrightarrow>
    of_kinds {KCheck} (new_events c (snd (reload_valid d sequence txID c))) =
      (case resources c of
         None \<Rightarrow> []
       | Some res \<Rightarrow>
           (case Validate d (ConfigtxValidator res) ctx of
              Some err \<Rightarrow> []
            | None \<Rightarrow>
                (case NewBundle d (ChannelID (ConfigtxValidator res)) (Config ctx) of
                   Inl err \<Rightarrow> []
                 | Inr b' \<Rightarrow> [CallCapabilitiesSupported b'])))
    \<and> (resources c = None \<and> NewBundle d (name c) (Config ctx) = Inr b \<longrightarrow>
        fst (reload_valid d sequence txID c) = Ok
        \<and> resources (snd (reload_valid d sequence txID c)) = Some b))"
proof (intro conjI impI)
  assume h: "UnmarshalPayload d (Payload e) = Inr payload \<and> UnmarshalConfigEnvelope d (Data payload) = Inr ctx
      \<and> Config ctx = Some cfg
      \<and> failStatus d (vault c) (ConfigTXPrefix @ FormatUint (Sequence cfg)) = None
      \<and> txStatus (vault c) (ConfigTXPrefix @ FormatUint (Sequence cfg)) = Unknown"
  then obtain c1 rest where c1: "name c1 = name c" "resources c1 = resources c"
    and ev: "new_events c (snd (CommitConfig d blockNumber raw (Some e) c)) =
          [Lock commitConfigMutex, Lock applyLock,
           Log Debugf ''[channel: %s] received config transaction number %d'' [ArgStr (name c), ArgUint blockNumber],
           CallStatus (ConfigTXPrefix @ FormatUint (Sequence cfg))] @
          new_events c1 (snd (commit_bundle d blockNumber ctx c1)) @ rest @ [Unlock applyLock, Unlock commitConfigMutex]"
    and rest: "\<forall>e\<in>set rest. kind_of e = KWrite \<or> kind_of e = KLog \<or> kind_of e = KPush \<or> kind_of e = KLock"
    using CommitConfig_events [of d e payload ctx cfg c blockNumber raw] by blast
  show "of_kinds {KCheck} (new_events c (snd (CommitConfig d blockNumber raw (Some e) c))) =
      (case resources c of
         None \<Rightarrow> []
       | Some res \<Rightarrow>
           (case Validate d (ConfigtxValidator res) ctx of
              Some err \<Rightarrow> []
            | None \<Rightarrow>
                (case NewBundle d (ChannelID (ConfigtxValidator res)) (Config ctx) of
                   Inl err \<Rightarrow> []
                 | Inr b' \<Rightarrow> [CallCapabilitiesSupported b'])))"
  proof (cases "resources c")
    case None
    with c1 have "resources c1 = None" by simp
    from commit_bundle_genesis [OF this, of d blockNumber ctx] c1 None of_kinds_rest [OF rest]
    show ?thesis by (simp add: ev)
  next
    case (Some res)
    with c1 have "resources c1 = Some res" by simp
    from commit_bundle_successor [OF this, of d blockNumber ctx] c1 Some of_kinds_rest [OF rest]
    show ?thesis by (simp add: ev split: option.splits sum.splits)
  qed
  assume g: "resources c = None \<and> NewBundle d (name c) (Config ctx) = Inr b
        \<and> fst (commitConfig d (ConfigTXPrefix @ FormatUint (Sequence cfg)) blockNumber (Sequence cfg) raw c) = None"
  let ?txid = "ConfigTXPrefix @ FormatUint (Sequence cfg)"
  let ?c1 = "emits [Lock commitConfigMutex, Lock applyLock,
                    Log Debugf ''[channel: %s] received config transaction number %d''
                      [ArgStr (name c), ArgUint blockNumber],
                    CallStatus ?txid] c"
  from g have sb: "spec_build d (name ?c1) (resources ?c1) ctx = Some b"
    by (simp add: spec_build_def)
  have "vault ?c1 = vault c" by simp
  from commitConfig_cong [OF this, of d ?txid blockNumber "Sequence cfg" raw] g
  have ok: "fst (commitConfig d ?txid blockNumber (Sequence cfg) raw ?c1) = None" by simp
  from h have r: "UnmarshalPayload d (Payload e) = Inr payload" "UnmarshalConfigEnvelope d (Data payload) = Inr ctx"
    "Config ctx = Some cfg" "failStatus d (vault c) ?txid = None" "txStatus (vault c) ?txid = Unknown"
    by simp_all
  show "fst (CommitConfig d blockNumber raw (Some e) c) = Ok"
    using CommitConfig_unknown_Ok(1) [OF sb ok] by (simp add: CommitConfig_reach [OF r])
  show "resources (snd (CommitConfig d blockNumber raw (Some e) c)) = Some b"
    using CommitConfig_unknown_Ok(2) [OF sb ok] by (simp add: CommitConfig_reach [OF r])
next
  assume h: "stored_config d (vault c) sequence = Some ctx"
  let ?pre = "[Log Infof ''config block available, txID [%s], loading...'' [ArgStr txID],
              CallGetState peerNamespace (projr (CreateCompositeKey d channelConfigKey [FormatUint sequence]))]"
  let ?c1 = "emits ?pre c"
  from reload_valid_trace [OF h, of txID] obtain rest where
    tr: "trace (snd (reload_valid d sequence txID c)) =
            trace c @ (?pre @ new_events ?c1 (snd (reload_bundle d txID ctx ?c1)) @ rest)"
    and rest: "\<forall>e\<in>set rest. kind_of e = KLog \<or> kind_of e = KPush \<or> kind_of e = KLock"
    by auto
  note ev = new_events_append [OF tr]
  show "of_kinds {KCheck} (new_events c (snd (reload_valid d sequence txID c))) =
      (case resources c of
         None \<Rightarrow> []
       | Some res \<Rightarrow>
           (case Validate d (ConfigtxValidator res) ctx of
              Some err \<Rightarrow> []
            | None \<Rightarrow>
                (case NewBundle d (ChannelID (ConfigtxValidator res)) (Config ctx) of
                   Inl err \<Rightarrow> []
                 | Inr b' \<Rightarrow> [CallCapabilitiesSupported b'])))"
  proof (cases "resources c")
    case None
    then have "resources ?c1 = None" by simp
    from reload_bundle_genesis [OF this, of d txID ctx] None of_kinds_rest' [OF rest]
    show ?thesis by (simp add: ev)
  next
    case (Some res)
    then have "resources ?c1 = Some res" by simp
    from reload_bundle_successor [OF this, of d txID ctx] Some of_kinds_rest' [OF rest]
    show ?thesis by (simp add: ev split: option.splits sum.splits)
  qed
  assume g: "resources c = None \<and> NewBundle d (name c) (Config ctx) = Inr b"
  then have sb: "spec_build d (name c) (resources c) ctx = Some b"
    by (simp add: spec_build_def)
  show "fst (reload_valid d sequence txID c) = Ok"
    by (rule reload_valid_Ok(1) [OF h sb])
  show "resources (snd (reload_valid d sequence txID c)) = Some b"
    by (rule reload_valid_Ok(2) [OF h sb])
qed

theorem genesis_skips_capability_check_witness:
  "fst (CommitConfig demoDeps 0 [1] (Some \<lparr>Payload = [1], Signature = []\<rparr>) (newChan ''ch'' emptyVault)) = Ok
   \<and> resources (snd (CommitConfig demoDeps 0 [1] (Some \<lparr>Payload = [1], Signature = []\<rparr>) (newChan ''ch'' emptyVault))) =
       Some \<lparr>ConfigtxValidator = \<lparr>ChannelID = ''ch'', ConfigProto = \<lparr>Sequence = 1, ChannelGroup = []\<rparr>\<rparr>,
             OrdererConfig = None, ApplicationConfig = None, ChannelConfig = None\<rparr>
   \<and> capabilitiesSupported
        \<lparr>ConfigtxValidator = \<lparr>ChannelID = ''ch'', ConfigProto = \<lparr>Sequence = 1, ChannelGroup = []\<rparr>\<rparr>,
         OrdererConfig = None, ApplicationConfig = None, ChannelConfig = None\<rparr> =
       Some (Errorf ''[channel %s] does not have application config so is incompatible'' [ArgStr ''ch''])
   \<and> of_kinds {KCheck}
        (new_events (newChan ''ch'' emptyVault)
           (snd (CommitConfig demoDeps 0 [1] (Some \<lparr>Payload = [1], Signature = []\<rparr>) (newChan ''ch'' emptyVault)))) = []
   \<and> fst (reload_valid demoDeps 1 ''config-1''
            (newChan ''ch'' (emptyVault\<lparr>kvstate := [(''_configtx'', ''CHANNEL_CONFIG_ENV_BYTES1'') \<mapsto> [1]]\<rparr>))) = Ok
   \<and> of_kinds {KCheck}
        (new_events (newChan ''ch'' (emptyVault\<lparr>kvstate := [(''_configtx'', ''CHANNEL_CONFIG_ENV_BYTES1'') \<mapsto> [1]]\<rparr>))
           (snd (reload_valid demoDeps 1 ''config-1''
                   (newChan ''ch'' (emptyVault\<lparr>kvstate := [(''_configtx'', ''CHANNEL_CONFIG_ENV_BYTES1'') \<mapsto> [1]]\<rparr>))))) = []"
proof -
  let ?e = "\<lparr>Payload = [1], Signature = []\<rparr> :: Envelope"
  let ?c = "newChan ''ch'' emptyVault"
  let ?cr = "newChan ''ch'' (emptyVault\<lparr>kvstate := [(''_configtx'', ''CHANNEL_CONFIG_ENV_BYTES1'') \<mapsto> [1]]\<rparr>)"
  let ?cfg = "\<lparr>Sequence = 1, ChannelGroup = []\<rparr> :: Config"
  let ?ctx = "\<lparr>Config = Some ?cfg, LastUpdate = None\<rparr>"
  let ?b = "\<lparr>ConfigtxValidator = \<lparr>ChannelID = ''ch'', ConfigProto = ?cfg\<rparr>,
             OrdererConfig = None, ApplicationConfig = None, ChannelConfig = None\<rparr>"
  have a: "UnmarshalPayload demoDeps (Payload ?e) = Inr \<lparr>Header = [], Data = [1]\<rparr>
      \<and> UnmarshalConfigEnvelope demoDeps (Data \<lparr>Header = [], Data = [1]\<rparr>) = Inr ?ctx
      \<and> Config ?ctx = Some ?cfg
      \<and> failStatus demoDeps (vault ?c) (ConfigTXPrefix @ FormatUint (Sequence ?cfg)) = None
      \<and> txStatus (vault ?c) (ConfigTXPrefix @ FormatUint (Sequence ?cfg)) = Unknown"
    by (simp add: newChan_def emptyVault_def)
  have g: "resources ?c = None \<and> NewBundle demoDeps (name ?c) (Config ?ctx) = Inr ?b
      \<and> fst (commitConfig demoDeps (ConfigTXPrefix @ FormatUint (Sequence ?cfg)) 0 (Sequence ?cfg) [1] ?c) = None"
    by (simp add: newChan_def demoNewBundle_def demo_commitConfig_ok)
  have s: "stored_config demoDeps (vault ?cr) 1 = Some ?ctx"
    by (simp add: stored_config_def decode_stored_def newChan_def emptyVault_def channelConfigKey_def
          peerNamespace_def FormatUint_1)
  have gr: "resources ?cr = None \<and> NewBundle demoDeps (name ?cr) (Config ?ctx) = Inr ?b"
    by (simp add: newChan_def demoNewBundle_def)
  from genesis_skips_capability_check [of demoDeps ?e "\<lparr>Header = [], Data = [1]\<rparr>" ?ctx ?cfg ?c 0 "[1]" ?b] a g
  have 1: "fst (CommitConfig demoDeps 0 [1] (Some ?e) ?c) = Ok
     \<and> resources (snd (CommitConfig demoDeps 0 [1] (Some ?e) ?c)) = Some ?b
     \<and> of_kinds {KCheck} (new_events ?c (snd (CommitConfig demoDeps 0 [1] (Some ?e) ?c))) = []"
    by (simp add: newChan_def)
  from genesis_skips_capability_check [of demoDeps _ _ ?ctx _ ?cr _ _ ?b 1 "''config-1''"] s gr
  have 2: "fst (reload_valid demoDeps 1 ''config-1'' ?cr) = Ok
     \<and> of_kinds {KCheck} (new_events ?cr (snd (reload_valid demoDeps 1 ''config-1'' ?cr))) = []"
    by (simp add: newChan_def)
  have 3: "capabilitiesSupported ?b =
       Some (Errorf ''[channel %s] does not have application config so is incompatible'' [ArgStr ''ch''])"
    by (simp add: capabilitiesSupported_def)
  from 1 2 3 show ?thesis by simp
qed

subsection \<open>Pushes while a lock is held\<close>

lemma pushes_inside_held: "\<forall>e\<in>set es. kind_of e = KPush \<or> kind_of e = KLog \<Longrightarrow> pushes_inside l True es"
proof (induction es)
  case Nil
  show ?case by simp
next
  case (Cons e es)
  then show ?case by (cases e) simp_all
qed

lemma pushes_inside_append_held:
  "\<forall>e\<in>set es. kind_of e = KPush \<or> kind_of e = KLog \<Longrightarrow>
     pushes_inside l True (es @ rest) = pushes_inside l True rest"
proof (induction es)
  case Nil
  show ?case by simp
next
  case (Cons e es)
  then show ?case by (cases e) simp_all
qed

subsection \<open>A reload over an empty vault\<close>

lemma vault_Status_fields [simp]:
  "name (snd (vault_Status d t c)) = name c"
  "resources (snd (vault_Status d t c)) = resources c"
  "vault (snd (vault_Status d t c)) = vault c"
  by (simp_all add: vault_Status_def split: option.splits)

lemma reload_empty:
  "ReloadConfigTransactions demoDeps (newChan ''ch'' emptyVault) =
     Some (Ok, \<lparr>name = ''ch'', resources = None, vault = emptyVault,
                trace = [Lock applyLock, CallNewQueryExecutor,
                         Log Infof ''looking up the latest config block available'' [],
                         CallStatus ''config-1'',
                         Log Infof ''no config block available, must start from genesis'' [],
                         CallQEDone, Unlock applyLock]\<rparr>)"
  apply (simp add: ReloadConfigTransactions_def vault_NewQueryExecutor_def)
  apply (subst reload_loop.simps)
  apply (simp add: vault_Status_def newChan_def emptyVault_def emit_def emits_def FormatUint_1 ConfigTXPrefix_def)
  done

subsection \<open>A reload replays the stored configurations\<close>

lemma vault_Status_stored:
  "stored_status d (vault c) s = Some vc \<Longrightarrow>
     vault_Status d (ConfigTXPrefix @ FormatUint s) c = (Inr vc, emit (CallStatus (ConfigTXPrefix @ FormatUint s)) c)"
  by (simp add: stored_status_def vault_Status_def split: option.splits)

lemma holds_configs_stored:
  "holds_configs d v s (raw # raws) \<Longrightarrow> stored_config d v s = decode_stored d raw"
  by (simp add: stored_config_def split: sum.splits)

lemma reload_loop_replay:
  assumes "holds_configs d (vault c) s raws"
    and "stored_status d (vault c) (s + of_nat (length raws)) = Some Unknown"
    and "map (decode_stored d) raws = map Some ctxs"
    and "spec_replay d (name c) (resources c) ctxs = Some r"
  shows "\<exists>c'. reload_loop d s c = Some (Ok, c', s + of_nat (length raws))
           \<and> resources c' = r \<and> vault c' = vault c \<and> name c' = name c"
  using assms
proof (induction raws arbitrary: s c ctxs)
  case Nil
  then have "ctxs = []" by simp
  with Nil show ?case
    by (subst reload_loop.simps) (simp add: vault_Status_stored)
next
  case (Cons raw raws)
  from Cons.prems(3) obtain ctx ctxs' where ctxs: "ctxs = ctx # ctxs'"
    and dec: "decode_stored d raw = Some ctx" and rest: "map (decode_stored d) raws = map Some ctxs'"
    by (cases ctxs) auto
  let ?t = "ConfigTXPrefix @ FormatUint s"
  let ?c1 = "emit (CallStatus ?t) c"
  from Cons.prems(1) have st: "stored_status d (vault c) s = Some Valid" by simp
  from Cons.prems(1) dec have sc: "stored_config d (vault ?c1) s = Some ctx"
    using holds_configs_stored [of d "vault c" s raw raws] by simp
  from Cons.prems(4) ctxs obtain b where sb: "spec_build d (name ?c1) (resources ?c1) ctx = Some b"
    and sr: "spec_replay d (name c) (Some b) ctxs' = Some r"
    by (auto split: option.splits)
  obtain out c2 where rv0: "reload_valid d s ?t ?c1 = (out, c2)"
    by (cases "reload_valid d s ?t ?c1")
  with reload_valid_Ok [OF sc sb, of ?t]
  have ok: "out = Ok" "resources c2 = Some b" "vault c2 = vault c" "name c2 = name c"
    by simp_all
  have hc: "holds_configs d (vault c2) (s + 1) raws"
    using Cons.prems(1) ok(3) by simp
  have un: "stored_status d (vault c2) (s + 1 + of_nat (length raws)) = Some Unknown"
    using Cons.prems(2) ok(3) by (simp add: ac_simps)
  have sr': "spec_replay d (name c2) (resources c2) ctxs' = Some r"
    using sr ok(2,4) by simp
  from Cons.IH [OF hc un rest sr'] obtain c' where
    c': "reload_loop d (s + 1) c2 = Some (Ok, c', s + 1 + of_nat (length raws))"
      "resources c' = r" "vault c' = vault c" "name c' = name c"
    using ok(3,4) by auto
  have "reload_loop d s c = Some (Ok, c', s + 1 + of_nat (length raws))"
    by (subst reload_loop.simps) (simp add: vault_Status_stored [OF st] rv0 ok(1) c'(1))
  with c'(2,3,4) show ?case by (simp add: ac_simps)
qed

subsection \<open>Decimal strings are injective\<close>

lemma digit_inj: "a < 10 \<Longrightarrow> b < 10 \<Longrightarrow> digit a = digit b \<Longrightarrow> a = b"
proof -
  have cases10: "k = 0 \<or> k = 1 \<or> k = 2 \<or> k = 3 \<or> k = 4 \<or> k = 5 \<or> k = 6 \<or> k = 7 \<or> k = 8 \<or> k = 9"
    if "k < 10" for k :: nat using that by arith
  assume "a < 10" "b < 10" "digit a = digit b"
  with cases10 [of a] cases10 [of b] show ?thesis
    by (auto simp add: digit_def)
qed

lemma decimal_nonempty: "decimal n \<noteq> []"
  by (subst decimal.simps) simp

lemma decimal_inj: "decimal n = decimal m \<Longrightarrow> n = m"
proof (induction n arbitrary: m rule: decimal.induct)
  case (1 n)
  show ?case
  proof (cases "n < 10")
    case True
    show ?thesis
    proof (cases "m < 10")
      case m: True
      from "1.prems" True m have "digit n = digit m"
        by (simp add: decimal.simps [of n] decimal.simps [of m])
      with True m show ?thesis by (simp add: digit_inj)
    next
      case m: False
      from "1.prems" True m have "[digit n] = decimal (m div 10) @ [digit (m mod 10)]"
        by (simp add: decimal.simps [of n] decimal.simps [of m])
      then have "decimal (m div 10) = []" by simp
      with decimal_nonempty show ?thesis by blast
    qed
  next
    case False
    show ?thesis
    proof (cases "m < 10")
      case m: True
      from "1.prems" False m have "decimal (n div 10) @ [digit (n mod 10)] = [digit m]"
        by (simp add: decimal.simps [of n] decimal.simps [of m])
      then have "decimal (n div 10) = []" by simp
      with decimal_nonempty show ?thesis by blast
    next
      case m: False
      from "1.prems" False m
      have "decimal (n div 10) @ [digit (n mod 10)] = decimal (m div 10) @ [digit (m mod 10)]"
        by (simp add: decimal.simps [of n] decimal.simps [of m])
      then have eq: "decimal (n div 10) = decimal (m div 10)" and dg: "digit (n mod 10) = digit (m mod 10)"
        by simp_all
      from "1.IH" [OF False eq] have "n div 10 = m div 10" .
      moreover from dg have "n mod 10 = m mod 10"
        by (simp add: digit_inj)
      ultimately show ?thesis by (metis div_mult_mod_eq)
    qed
  qed
qed

lemma FormatUint_inj: "FormatUint a = FormatUint b \<Longrightarrow> a = b"
  by (simp add: FormatUint_def) (drule decimal_inj, simp add: word_unat_eq_iff)

lemma txid_succ_neq: "ConfigTXPrefix @ FormatUint (s + 1) \<noteq> ConfigTXPrefix @ FormatUint s"
  using FormatUint_inj [of "s + 1" s] by auto

subsection \<open>What a live commit does when it succeeds or fails\<close>

lemma commitConfig_success_vault:
  assumes "fst (commitConfig d t blk s raw c) = None"
  shows "\<exists>key. CreateCompositeKey d channelConfigKey [FormatUint s] = Inr key
           \<and> vault (snd (commitConfig d t blk s raw c)) =
               (vault c)\<lparr>txStatus := (txStatus (vault c))(t := Valid),
                         kvstate := (kvstate (vault c))((peerNamespace, key) \<mapsto> raw),
                         rwsets := (rwsets (vault c))(t := None)\<rparr>"
  using assms
  by (auto simp add: commitConfig_def commitConfig_rws_def vault_NewRWSet_def rws_SetState_def
        rws_Done_def CommitTX_def DiscardTx_def apply_writes_def
        split: option.splits sum.splits)

lemma CommitConfig_unknown_rejected:
  assumes "spec_build d (name c) (resources c) ctx = None"
  shows "\<exists>err. fst (CommitConfig_unknown d blk raw ctx txid seq c) = Err err"
proof -
  from commit_bundle_spec_None [OF assms, of blk] obtain err
    where "fst (commit_bundle d blk ctx c) = Inl (Err err)" by blast
  then show ?thesis
    by (cases "commit_bundle d blk ctx c") (simp add: CommitConfig_unknown_def)
qed

lemma CommitConfig_unknown_persist_failed:
  assumes "spec_build d (name c) (resources c) ctx = Some b"
    and "fst (commitConfig d txid blk seq raw c) = Some err"
  shows "fst (CommitConfig_unknown d blk raw ctx txid seq c) =
           Err (Wrapf err ''failed committing configtx to the vault'' [])"
    and "resources (snd (CommitConfig_unknown d blk raw ctx txid seq c)) = resources c"
    and "\<forall>e\<in>set (new_events c (snd (CommitConfig_unknown d blk raw ctx txid seq c))).
           e \<noteq> Lock resourcesLock \<and> kind_of e \<noteq> KPush"
proof -
  obtain r c1 where cb: "commit_bundle d blk ctx c = (r, c1)" by (cases "commit_bundle d blk ctx c")
  with commit_bundle_spec_Some [OF assms(1), of blk] have r: "r = Inr b" by simp
  have v: "vault c1 = vault c" and rs: "resources c1 = resources c"
    using cb commit_bundle_fields [of d blk ctx c] by simp_all
  obtain es1 where es1: "trace c1 = trace c @ es1"
    "\<forall>e\<in>set es1. e \<noteq> Lock resourcesLock \<and> kind_of e \<noteq> KWrite \<and> kind_of e \<noteq> KPush"
    using cb commit_bundle_trace [of d blk ctx c] by auto
  from commitConfig_cong [OF v, of d txid blk seq raw] assms(2)
  have ko: "fst (commitConfig d txid blk seq raw c1) = Some err" by simp
  obtain r2 c2 where cc: "commitConfig d txid blk seq raw c1 = (r2, c2)" by (cases "commitConfig d txid blk seq raw c1")
  with ko have r2: "r2 = Some err" by simp
  have rs2: "resources c2 = resources c1" using cc commitConfig_fields(2) [of d txid blk seq raw c1] by simp
  obtain es2 where es2: "trace c2 = trace c1 @ es2" "\<forall>e\<in>set es2. kind_of e = KWrite \<or> kind_of e = KLog"
    using cc commitConfig_trace [of d txid blk seq raw c1] by auto
  have res: "CommitConfig_unknown d blk raw ctx txid seq c =
               (Err (Wrapf err ''failed committing configtx to the vault'' []), c2)"
    using cb r cc r2 by (simp add: CommitConfig_unknown_def)
  show "fst (CommitConfig_unknown d blk raw ctx txid seq c) =
           Err (Wrapf err ''failed committing configtx to the vault'' [])"
    using res by simp
  show "resources (snd (CommitConfig_unknown d blk raw ctx txid seq c)) = resources c"
    using res rs rs2 by simp
  have "trace c2 = trace c @ (es1 @ es2)" using es1(1) es2(1) by simp
  from new_events_append [OF this] es1(2) es2(2)
  show "\<forall>e\<in>set (new_events c (snd (CommitConfig_unknown d blk raw ctx txid seq c))).
           e \<noteq> Lock resourcesLock \<and> kind_of e \<noteq> KPush"
    using res by auto
qed

lemma CommitConfig_Ok_effect:
  assumes ok: "fst (CommitConfig d blk raw (Some e) c) = Ok"
    and un: "\<forall>t. live_txid d e = Some t \<longrightarrow> txStatus (vault c) t = Unknown"
  shows "\<exists>ctx cfg b. decode_live d e = Some ctx \<and> Config ctx = Some cfg
        \<and> live_txid d e = Some (ConfigTXPrefix @ FormatUint (Sequence cfg))
        \<and> spec_build d (name c) (resources c) ctx = Some b
        \<and> resources (snd (CommitConfig d blk raw (Some e) c)) = Some b
        \<and> name (snd (CommitConfig d blk raw (Some e) c)) = name c
        \<and> fst (commitConfig d (ConfigTXPrefix @ FormatUint (Sequence cfg)) blk (Sequence cfg) raw c) = None
        \<and> vault (snd (CommitConfig d blk raw (Some e) c)) =
            vault (snd (commitConfig d (ConfigTXPrefix @ FormatUint (Sequence cfg)) blk (Sequence cfg) raw c))"
proof -
  from ok obtain payload where p: "UnmarshalPayload d (Payload e) = Inr payload"
    by (cases "UnmarshalPayload d (Payload e)")
       (simp_all add: CommitConfig_def CommitConfig_locked_def case_prod_beta)
  from ok p obtain ctx where x: "UnmarshalConfigEnvelope d (Data payload) = Inr ctx"
    by (cases "UnmarshalConfigEnvelope d (Data payload)")
       (simp_all add: CommitConfig_def CommitConfig_locked_def case_prod_beta)
  from ok p x obtain cfg where g: "Config ctx = Some cfg"
    by (cases "Config ctx")
       (simp_all add: CommitConfig_def CommitConfig_locked_def case_prod_beta)
  let ?t = "ConfigTXPrefix @ FormatUint (Sequence cfg)"
  have dl: "decode_live d e = Some ctx" using p x by (simp add: decode_live_def)
  have lt: "live_txid d e = Some ?t" using dl g by (simp add: live_txid_def)
  from ok p x g have fs: "failStatus d (vault c) ?t = None"
    by (cases "failStatus d (vault c) ?t")
       (simp_all add: CommitConfig_def CommitConfig_locked_def vault_Status_def case_prod_beta Let_def)
  from un lt have st: "txStatus (vault c) ?t = Unknown" by simp
  let ?c1 = "emits [Lock commitConfigMutex, Lock applyLock,
                    Log Debugf ''[channel: %s] received config transaction number %d''
                      [ArgStr (name c), ArgUint blk],
                    CallStatus ?t] c"
  note reach = CommitConfig_reach [OF p x g fs st, of blk raw]
  from ok reach have ok1: "fst (CommitConfig_unknown d blk raw ctx ?t (Sequence cfg) ?c1) = Ok" by simp
  have vc: "vault ?c1 = vault c" by simp
  note cong = commitConfig_cong [OF vc, of d ?t blk "Sequence cfg" raw]
  show ?thesis
  proof (cases "spec_build d (name c) (resources c) ctx")
    case None
    then have "spec_build d (name ?c1) (resources ?c1) ctx = None" by simp
    from CommitConfig_unknown_rejected [OF this, of blk raw ?t "Sequence cfg"] ok1
    show ?thesis by auto
  next
    case (Some b)
    then have sb: "spec_build d (name ?c1) (resources ?c1) ctx = Some b" by simp
    show ?thesis
    proof (cases "fst (commitConfig d ?t blk (Sequence cfg) raw ?c1)")
      case (Some err)
      from CommitConfig_unknown_persist_failed(1) [OF sb Some] ok1 show ?thesis by simp
    next
      case None
      note u = CommitConfig_unknown_Ok [OF sb None]
      from u(2) have "resources (snd (CommitConfig d blk raw (Some e) c)) = Some b"
        by (simp add: reach)
      moreover from u(4) have "name (snd (CommitConfig d blk raw (Some e) c)) = name c"
        by (simp add: reach)
      moreover from u(3) cong
      have "vault (snd (CommitConfig d blk raw (Some e) c)) = vault (snd (commitConfig d ?t blk (Sequence cfg) raw c))"
        by (simp add: reach)
      moreover from None cong have "fst (commitConfig d ?t blk (Sequence cfg) raw c) = None" by simp
      ultimately show ?thesis using dl g lt \<open>spec_build d (name c) (resources c) ctx = Some b\<close> by blast
    qed
  qed
qed

lemma CommitAll_replay:
  assumes "CommitAll d txs c = (Ok, c')"
    and "distinct (map (\<lambda>tx. live_txid d (snd (snd tx))) txs)"
    and "\<forall>tx\<in>set txs. \<forall>t. live_txid d (snd (snd tx)) = Some t \<longrightarrow> txStatus (vault c) t = Unknown"
  shows "\<exists>ctxs. map (\<lambda>tx. decode_live d (snd (snd tx))) txs = map Some ctxs
           \<and> spec_replay d (name c) (resources c) ctxs = Some (resources c')
           \<and> name c' = name c"
  using assms
proof (induction txs arbitrary: c)
  case Nil
  then show ?case by simp
next
  case (Cons tx txs)
  obtain blk raw e where tx: "tx = (blk, raw, e)" by (cases tx)
  obtain out c1 where cc: "CommitConfig d blk raw (Some e) c = (out, c1)"
    by (cases "CommitConfig d blk raw (Some e) c")
  from Cons.prems(1) tx cc have out: "out = Ok" and rest: "CommitAll d txs c1 = (Ok, c')"
    by (cases out; simp)+
  from cc out have ok: "fst (CommitConfig d blk raw (Some e) c) = Ok" by simp
  from Cons.prems(3) tx have un: "\<forall>t. live_txid d e = Some t \<longrightarrow> txStatus (vault c) t = Unknown"
    by simp
  from CommitConfig_Ok_effect [OF ok un] cc obtain ctx cfg b where
    eff: "decode_live d e = Some ctx" "Config ctx = Some cfg"
      "live_txid d e = Some (ConfigTXPrefix @ FormatUint (Sequence cfg))"
      "spec_build d (name c) (resources c) ctx = Some b"
      "resources c1 = Some b" "name c1 = name c"
      "fst (commitConfig d (ConfigTXPrefix @ FormatUint (Sequence cfg)) blk (Sequence cfg) raw c) = None"
      "vault c1 = vault (snd (commitConfig d (ConfigTXPrefix @ FormatUint (Sequence cfg)) blk (Sequence cfg) raw c))"
    by auto
  let ?t = "ConfigTXPrefix @ FormatUint (Sequence cfg)"
  from commitConfig_success_vault [OF eff(7)] eff(8)
  have st: "txStatus (vault c1) t' = txStatus (vault c) t'" if "t' \<noteq> ?t" for t'
    using that by auto
  have d': "distinct (map (\<lambda>tx. live_txid d (snd (snd tx))) txs)"
    using Cons.prems(2) by simp
  have un': "\<forall>tx\<in>set txs. \<forall>t. live_txid d (snd (snd tx)) = Some t \<longrightarrow> txStatus (vault c1) t = Unknown"
  proof (intro ballI allI impI)
    fix tx' t' assume a: "tx' \<in> set txs" "live_txid d (snd (snd tx')) = Some t'"
    from Cons.prems(2) tx eff(3) a have "t' \<noteq> ?t" by force
    with st Cons.prems(3) a show "txStatus (vault c1) t' = Unknown" by simp
  qed
  from Cons.IH [OF rest d' un'] obtain ctxs where
    ih: "map (\<lambda>tx. decode_live d (snd (snd tx))) txs = map Some ctxs"
      "spec_replay d (name c1) (resources c1) ctxs = Some (resources c')" "name c' = name c1"
    by blast
  have "map (\<lambda>tx. decode_live d (snd (snd tx))) (tx # txs) = map Some (ctx # ctxs)"
    using ih(1) tx eff(1) by simp
  moreover have "spec_replay d (name c) (resources c) (ctx # ctxs) = Some (resources c')"
    using ih(2) eff(4,5,6) by simp
  moreover have "name c' = name c" using ih(3) eff(6) by simp
  ultimately show ?case by blast
qed

lemma decode_stored_live:
  "UnmarshalEnvelope d raw = Inr env \<Longrightarrow> decode_stored d raw = decode_live d env"
  by (simp add: decode_stored_def decode_live_def)

lemma ReloadConfigTransactions_loop:
  assumes "failNewQueryExecutor d (vault c) = None"
    and "reload_loop d 1 (emit (Log Infof ''looking up the latest config block available'' [])
            (emit CallNewQueryExecutor (emit (Lock applyLock) c))) = Some (Ok, c2, s)"
  shows "\<exists>c'. ReloadConfigTransactions d c = Some (Ok, c') \<and> resources c' = resources c2
           \<and> vault c' = vault c2 \<and> name c' = name c2"
  using assms by (simp add: ReloadConfigTransactions_def vault_NewQueryExecutor_def)

lemma CommitConfig_Ok_intro:
  assumes "UnmarshalPayload d (Payload e) = Inr payload"
    and "UnmarshalConfigEnvelope d (Data payload) = Inr ctx"
    and "Config ctx = Some cfg"
    and "failStatus d (vault c) (ConfigTXPrefix @ FormatUint (Sequence cfg)) = None"
    and "txStatus (vault c) (ConfigTXPrefix @ FormatUint (Sequence cfg)) = Unknown"
    and sb: "spec_build d (name c) (resources c) ctx = Some b"
    and pc: "fst (commitConfig d (ConfigTXPrefix @ FormatUint (Sequence cfg)) blk (Sequence cfg) raw c) = None"
  shows "fst (CommitConfig d blk raw (Some e) c) = Ok"
    and "resources (snd (CommitConfig d blk raw (Some e) c)) = Some b"
    and "name (snd (CommitConfig d blk raw (Some e) c)) = name c"
    and "vault (snd (CommitConfig d blk raw (Some e) c)) =
           vault (snd (commitConfig d (ConfigTXPrefix @ FormatUint (Sequence cfg)) blk (Sequence cfg) raw c))"
proof -
  let ?t = "ConfigTXPrefix @ FormatUint (Sequence cfg)"
  let ?c1 = "emits [Lock commitConfigMutex, Lock applyLock,
                    Log Debugf ''[channel: %s] received config transaction number %d''
                      [ArgStr (name c), ArgUint blk],
                    CallStatus ?t] c"
  note reach = CommitConfig_reach [OF assms(1-5), of blk raw]
  have vc: "vault ?c1 = vault c" by simp
  note cong = commitConfig_cong [OF vc, of d ?t blk "Sequence cfg" raw]
  from sb have sb1: "spec_build d (name ?c1) (resources ?c1) ctx = Some b" by simp
  from pc cong have pc1: "fst (commitConfig d ?t blk (Sequence cfg) raw ?c1) = None" by simp
  note u = CommitConfig_unknown_Ok [OF sb1 pc1]
  show "fst (CommitConfig d blk raw (Some e) c) = Ok" using u(1) by (simp add: reach)
  show "resources (snd (CommitConfig d blk raw (Some e) c)) = Some b" using u(2) by (simp add: reach)
  show "name (snd (CommitConfig d blk raw (Some e) c)) = name c" using u(4) by (simp add: reach)
  show "vault (snd (CommitConfig d blk raw (Some e) c)) =
           vault (snd (commitConfig d ?t blk (Sequence cfg) raw c))"
    using u(3) cong by (simp add: reach)
qed

lemma demo_commitConfig_vault:
  "vault (snd (commitConfig demoDeps t blk s raw c)) =
     (vault c)\<lparr>txStatus := (txStatus (vault c))(t := Valid),
               kvstate := (kvstate (vault c))((peerNamespace, channelConfigKey @ FormatUint s) \<mapsto> raw),
               rwsets := (rwsets (vault c))(t := None)\<rparr>"
  using commitConfig_success_vault [where d = demoDeps and t = t and blk = blk and s = s and raw = raw and c = c]
  by (simp add: demo_commitConfig_ok)

lemma demo_commit1:
  "fst (CommitConfig demoDeps 0 [1, 7] (Some demoEnv1) (newChan ''ch'' emptyVault)) = Ok"
  "resources (snd (CommitConfig demoDeps 0 [1, 7] (Some demoEnv1) (newChan ''ch'' emptyVault))) = Some demoBundle1"
  "name (snd (CommitConfig demoDeps 0 [1, 7] (Some demoEnv1) (newChan ''ch'' emptyVault))) = ''ch''"
  "vault (snd (CommitConfig demoDeps 0 [1, 7] (Some demoEnv1) (newChan ''ch'' emptyVault))) =
     emptyVault\<lparr>txStatus := (txStatus emptyVault)(''config-1'' := Valid),
                kvstate := (kvstate emptyVault)((''_configtx'', ''CHANNEL_CONFIG_ENV_BYTES1'') \<mapsto> [1, 7]),
                rwsets := (rwsets emptyVault)(''config-1'' := None)\<rparr>"
proof -
  let ?c = "newChan ''ch'' emptyVault"
  let ?cfg = "\<lparr>Sequence = 1, ChannelGroup = [7]\<rparr> :: Config"
  let ?ctx = "\<lparr>Config = Some ?cfg, LastUpdate = None\<rparr>"
  have h: "UnmarshalPayload demoDeps (Payload demoEnv1) = Inr \<lparr>Header = [], Data = [1, 7]\<rparr>"
    "UnmarshalConfigEnvelope demoDeps (Data \<lparr>Header = [], Data = [1, 7]\<rparr>) = Inr ?ctx"
    "Config ?ctx = Some ?cfg"
    "failStatus demoDeps (vault ?c) (ConfigTXPrefix @ FormatUint (Sequence ?cfg)) = None"
    "txStatus (vault ?c) (ConfigTXPrefix @ FormatUint (Sequence ?cfg)) = Unknown"
    "spec_build demoDeps (name ?c) (resources ?c) ?ctx = Some demoBundle1"
    "fst (commitConfig demoDeps (ConfigTXPrefix @ FormatUint (Sequence ?cfg)) 0 (Sequence ?cfg) [1, 7] ?c) = None"
    by (simp_all add: demoEnv1_def newChan_def emptyVault_def spec_build_def demoNewBundle_def
          demoBundle1_def demo_commitConfig_ok)
  note r = CommitConfig_Ok_intro [OF h]
  show "fst (CommitConfig demoDeps 0 [1, 7] (Some demoEnv1) ?c) = Ok" by (rule r(1))
  show "resources (snd (CommitConfig demoDeps 0 [1, 7] (Some demoEnv1) ?c)) = Some demoBundle1" by (rule r(2))
  show "name (snd (CommitConfig demoDeps 0 [1, 7] (Some demoEnv1) ?c)) = ''ch''"
    using r(3) by (simp add: newChan_def)
  show "vault (snd (CommitConfig demoDeps 0 [1, 7] (Some demoEnv1) ?c)) =
     emptyVault\<lparr>txStatus := (txStatus emptyVault)(''config-1'' := Valid),
                kvstate := (kvstate emptyVault)((''_configtx'', ''CHANNEL_CONFIG_ENV_BYTES1'') \<mapsto> [1, 7]),
                rwsets := (rwsets emptyVault)(''config-1'' := None)\<rparr>"
    using r(4) by (simp add: demo_commitConfig_vault newChan_def ConfigTXPrefix_def FormatUint_1
          peerNamespace_def channelConfigKey_def)
qed

lemma demo_commit2:
  assumes "resources c = Some demoBundle1" and "name c = ''ch''"
    and "txStatus (vault c) ''config-2'' = Unknown"
  shows "fst (CommitConfig demoDeps 1 [2, 8] (Some demoEnv2) c) = Ok"
    and "resources (snd (CommitConfig demoDeps 1 [2, 8] (Some demoEnv2) c)) = Some demoBundle2"
proof -
  let ?cfg = "\<lparr>Sequence = 2, ChannelGroup = [8]\<rparr> :: Config"
  let ?ctx = "\<lparr>Config = Some ?cfg, LastUpdate = None\<rparr>"
  have h: "UnmarshalPayload demoDeps (Payload demoEnv2) = Inr \<lparr>Header = [], Data = [2, 8]\<rparr>"
    "UnmarshalConfigEnvelope demoDeps (Data \<lparr>Header = [], Data = [2, 8]\<rparr>) = Inr ?ctx"
    "Config ?ctx = Some ?cfg"
    "failStatus demoDeps (vault c) (ConfigTXPrefix @ FormatUint (Sequence ?cfg)) = None"
    "txStatus (vault c) (ConfigTXPrefix @ FormatUint (Sequence ?cfg)) = Unknown"
    "spec_build demoDeps (name c) (resources c) ?ctx = Some demoBundle2"
    "fst (commitConfig demoDeps (ConfigTXPrefix @ FormatUint (Sequence ?cfg)) 1 (Sequence ?cfg) [2, 8] c) = None"
    using assms
    by (simp_all add: demoEnv2_def spec_build_def demoNewBundle_def demoValidate_def
          demoBundle1_def demoBundle2_def demo_commitConfig_ok capabilitiesSupported_def
          ConfigTXPrefix_def FormatUint_2)
  note r = CommitConfig_Ok_intro [OF h]
  show "fst (CommitConfig demoDeps 1 [2, 8] (Some demoEnv2) c) = Ok" by (rule r(1))
  show "resources (snd (CommitConfig demoDeps 1 [2, 8] (Some demoEnv2) c)) = Some demoBundle2" by (rule r(2))
qed

lemma demo_CommitAll:
  "fst (CommitAll demoDeps demoTxs (newChan ''ch'' emptyVault)) = Ok"
  "resources (snd (CommitAll demoDeps demoTxs (newChan ''ch'' emptyVault))) = Some demoBundle2"
proof -
  obtain out c1 where 1: "CommitConfig demoDeps 0 [1, 7] (Some demoEnv1) (newChan ''ch'' emptyVault) = (out, c1)"
    by (cases "CommitConfig demoDeps 0 [1, 7] (Some demoEnv1) (newChan ''ch'' emptyVault)")
  with demo_commit1 have c1: "out = Ok" "resources c1 = Some demoBundle1" "name c1 = ''ch''"
    "vault c1 = emptyVault\<lparr>txStatus := (txStatus emptyVault)(''config-1'' := Valid),
                kvstate := (kvstate emptyVault)((''_configtx'', ''CHANNEL_CONFIG_ENV_BYTES1'') \<mapsto> [1, 7]),
                rwsets := (rwsets emptyVault)(''config-1'' := None)\<rparr>"
    by simp_all
  have s: "txStatus (vault c1) ''config-2'' = Unknown"
    by (subst c1(4)) (simp add: emptyVault_def)
  obtain out2 c2 where 2: "CommitConfig demoDeps 1 [2, 8] (Some demoEnv2) c1 = (out2, c2)"
    by (cases "CommitConfig demoDeps 1 [2, 8] (Some demoEnv2) c1")
  with demo_commit2 [OF c1(2) c1(3) s] have c2: "out2 = Ok" "resources c2 = Some demoBundle2"
    by simp_all
  show "fst (CommitAll demoDeps demoTxs (newChan ''ch'' emptyVault)) = Ok"
    by (simp add: demoTxs_def 1 c1(1) 2 c2)
  show "resources (snd (CommitAll demoDeps demoTxs (newChan ''ch'' emptyVault))) = Some demoBundle2"
    by (simp add: demoTxs_def 1 c1(1) 2 c2)
qed

subsection \<open>Sequential reconstruction\<close>

text \<open>
  C1. Let the vault \<open>v\<close> hold configuration transactions for the sequence numbers
  \<open>1..N\<close> (status \<open>Valid\<close>, raw envelope readable at the key of the number) and have
  status \<open>Unknown\<close> for \<open>N + 1\<close>. Let the same transactions, as the raw bytes and the
  envelopes they decode to, have been committed by \<open>N\<close> calls of \<open>CommitConfig\<close> in order,
  on a channel of the same name with no active bundle, each call returning \<open>nil\<close> and
  each being the first delivery of its transaction (no transaction id twice, none
  with a status other than \<open>Unknown\<close> at the start). Then on a channel with no active
  bundle over \<open>v\<close> the loop of \<open>ReloadConfigTransactions\<close> ends without error with
  \<^verbatim>\<open>sequence\<close> equal to \<open>N + 1\<close>, that is at the first \<open>Unknown\<close> status, and the
  active bundle after the reload is the active bundle after the \<open>N\<close> commits.
\<close>

theorem reload_rebuilds_live_bundle:
  assumes store: "holds_configs d v 1 (map (\<lambda>tx. fst (snd tx)) txs)"
    and next_unknown: "stored_status d v (1 + of_nat (length txs)) = Some Unknown"
    and readable: "failNewQueryExecutor d v = None"
    and serial: "\<forall>tx\<in>set txs. UnmarshalEnvelope d (fst (snd tx)) = Inr (snd (snd tx))"
    and live: "CommitAll d txs c0 = (Ok, cN)"
    and genesis: "resources c0 = None"
    and first_delivery:
      "\<forall>tx\<in>set txs. \<forall>t. live_txid d (snd (snd tx)) = Some t \<longrightarrow> txStatus (vault c0) t = Unknown"
    and no_duplicates: "distinct (map (\<lambda>tx. live_txid d (snd (snd tx))) txs)"
  shows "\<exists>c' c''. reload_loop d 1 (newChan (name c0) v) = Some (Ok, c', 1 + of_nat (length txs))
           \<and> resources c' = resources cN
           \<and> ReloadConfigTransactions d (newChan (name c0) v) = Some (Ok, c'')
           \<and> resources c'' = resources cN"
proof -
  from CommitAll_replay [OF live no_duplicates first_delivery] genesis obtain ctxs where
    ctxs: "map (\<lambda>tx. decode_live d (snd (snd tx))) txs = map Some ctxs"
      "spec_replay d (name c0) None ctxs = Some (resources cN)"
    by auto
  have dec: "map (decode_stored d) (map (\<lambda>tx. fst (snd tx)) txs) = map Some ctxs"
    using serial ctxs(1) by (simp add: decode_stored_live cong: map_cong)
  let ?c = "newChan (name c0) v"
  let ?cp = "emit (Log Infof ''looking up the latest config block available'' [])
               (emit CallNewQueryExecutor (emit (Lock applyLock) ?c))"
  have 1: "holds_configs d (vault ?c) 1 (map (\<lambda>tx. fst (snd tx)) txs)"
    and 2: "stored_status d (vault ?c) (1 + of_nat (length (map (\<lambda>tx. fst (snd tx)) txs))) = Some Unknown"
    and 3: "spec_replay d (name ?c) (resources ?c) ctxs = Some (resources cN)"
    using store next_unknown ctxs(2) by (simp_all add: newChan_def)
  from reload_loop_replay [OF 1 2 dec 3] obtain c' where
    c': "reload_loop d 1 ?c = Some (Ok, c', 1 + of_nat (length txs))" "resources c' = resources cN"
    by auto
  have 1: "holds_configs d (vault ?cp) 1 (map (\<lambda>tx. fst (snd tx)) txs)"
    and 2: "stored_status d (vault ?cp) (1 + of_nat (length (map (\<lambda>tx. fst (snd tx)) txs))) = Some Unknown"
    and 3: "spec_replay d (name ?cp) (resources ?cp) ctxs = Some (resources cN)"
    using store next_unknown ctxs(2) by (simp_all add: newChan_def)
  from reload_loop_replay [OF 1 2 dec 3] obtain c2 where
    c2: "reload_loop d 1 ?cp = Some (Ok, c2, 1 + of_nat (length txs))" "resources c2 = resources cN"
    by auto
  have "failNewQueryExecutor d (vault ?c) = None" using readable by (simp add: newChan_def)
  from ReloadConfigTransactions_loop [OF this c2(1)] c2(2) obtain c'' where
    "ReloadConfigTransactions d ?c = Some (Ok, c'')" "resources c'' = resources cN"
    by auto
  with c' show ?thesis by blast
qed

theorem reload_rebuilds_live_bundle_witness:
  "fst (CommitAll demoDeps demoTxs (newChan ''ch'' emptyVault)) = Ok
   \<and> resources (snd (CommitAll demoDeps demoTxs (newChan ''ch'' emptyVault))) = Some demoBundle2
   \<and> (\<exists>c' c''. reload_loop demoDeps 1 (newChan ''ch'' storedVault) = Some (Ok, c', 3)
         \<and> resources c' = Some demoBundle2
         \<and> ReloadConfigTransactions demoDeps (newChan ''ch'' storedVault) = Some (Ok, c'')
         \<and> resources c'' = Some demoBundle2)"
proof -
  let ?c0 = "newChan ''ch'' emptyVault"
  let ?cN = "snd (CommitAll demoDeps demoTxs ?c0)"
  have store: "holds_configs demoDeps storedVault 1 (map (\<lambda>tx. fst (snd tx)) demoTxs)"
    by (simp add: demoTxs_def stored_status_def storedVault_def ConfigTXPrefix_def FormatUint_1
          FormatUint_2 channelConfigKey_def peerNamespace_def)
  have next_unknown: "stored_status demoDeps storedVault (1 + of_nat (length demoTxs)) = Some Unknown"
    by (simp add: demoTxs_def stored_status_def storedVault_def ConfigTXPrefix_def FormatUint_3)
  have readable: "failNewQueryExecutor demoDeps storedVault = None" by simp
  have serial: "\<forall>tx\<in>set demoTxs. UnmarshalEnvelope demoDeps (fst (snd tx)) = Inr (snd (snd tx))"
    by (simp add: demoTxs_def demoEnv1_def demoEnv2_def)
  have live: "CommitAll demoDeps demoTxs ?c0 = (Ok, ?cN)"
    using demo_CommitAll(1) by (metis prod.collapse)
  have res: "resources ?cN = Some demoBundle2" by (rule demo_CommitAll(2))
  have genesis: "resources ?c0 = None" by (simp add: newChan_def)
  have first_delivery:
    "\<forall>tx\<in>set demoTxs. \<forall>t. live_txid demoDeps (snd (snd tx)) = Some t \<longrightarrow> txStatus (vault ?c0) t = Unknown"
    by (simp add: newChan_def emptyVault_def)
  have no_duplicates: "distinct (map (\<lambda>tx. live_txid demoDeps (snd (snd tx))) demoTxs)"
    by (simp add: demoTxs_def live_txid_def decode_live_def demoEnv1_def demoEnv2_def
          ConfigTXPrefix_def FormatUint_1 FormatUint_2)
  from reload_rebuilds_live_bundle [OF store next_unknown readable serial live genesis first_delivery no_duplicates]
  obtain c' c'' where
    "reload_loop demoDeps 1 (newChan (name ?c0) storedVault) = Some (Ok, c', 1 + of_nat (length demoTxs))"
    "resources c' = resources ?cN"
    "ReloadConfigTransactions demoDeps (newChan (name ?c0) storedVault) = Some (Ok, c'')"
    "resources c'' = resources ?cN"
    by blast
  moreover have "name ?c0 = ''ch''" by (simp add: newChan_def)
  moreover have "1 + of_nat (length demoTxs) = (3 :: 64 word)" by (simp add: demoTxs_def)
  ultimately have "\<exists>c' c''. reload_loop demoDeps 1 (newChan ''ch'' storedVault) = Some (Ok, c', 3)
         \<and> resources c' = Some demoBundle2
         \<and> ReloadConfigTransactions demoDeps (newChan ''ch'' storedVault) = Some (Ok, c'')
         \<and> resources c'' = Some demoBundle2"
    using res by auto
  with demo_CommitAll show ?thesis by blast
qed

subsection \<open>A reload after a commit\<close>

lemma commitConfig_success_events:
  assumes "fst (commitConfig d t blk s raw c) = None"
  shows "\<exists>key. CreateCompositeKey d channelConfigKey [FormatUint s] = Inr key
           \<and> new_events c (snd (commitConfig d t blk s raw c)) =
               [CallNewRWSet t, CallSetState t peerNamespace key raw, CallRWSDone t,
                CallCommitTX t blk 0, CallRWSDone t]"
  using assms
  by (auto simp add: commitConfig_def commitConfig_rws_def vault_NewRWSet_def rws_SetState_def
        rws_Done_def CommitTX_def DiscardTx_def new_events_def
        split: option.splits sum.splits)

lemma holds_configs_snoc:
  "holds_configs d v s (raws @ [raw]) =
     (holds_configs d v s raws \<and> holds_configs d v (s + of_nat (length raws)) [raw])"
  by (induction raws arbitrary: s) (auto simp add: ac_simps)

lemma holds_configs_after_commit:
  assumes "holds_configs d v s raws"
    and "txStatus v' = (txStatus v)(t := Valid)"
    and "kvstate v' = (kvstate v)((peerNamespace, key) \<mapsto> raw)"
    and "txStatus v t = Unknown" and "kvstate v (peerNamespace, key) = None"
    and "\<forall>t. failStatus d v' t = None" and "\<forall>k. failGetState d v' peerNamespace k = None"
  shows "holds_configs d v' s raws"
  using assms(1)
proof (induction raws arbitrary: s)
  case Nil
  show ?case by simp
next
  case (Cons r raws)
  from Cons.prems have st: "txStatus v (ConfigTXPrefix @ FormatUint s) = Valid"
    by (simp add: stored_status_def split: option.splits)
  with assms(4) have "ConfigTXPrefix @ FormatUint s \<noteq> t" by auto
  with st assms(2,6) have 1: "stored_status d v' s = Some Valid"
    by (simp add: stored_status_def)
  from Cons.prems obtain k where k: "CreateCompositeKey d channelConfigKey [FormatUint s] = Inr k"
    "kvstate v (peerNamespace, k) = Some r"
    by (auto split: sum.splits)
  with assms(5) have "k \<noteq> key" by auto
  with k assms(3,7) have 2: "failGetState d v' peerNamespace k = None \<and> kvstate v' (peerNamespace, k) = Some r"
    by simp
  from Cons.prems have "holds_configs d v (s + 1) raws" by simp
  from Cons.IH [OF this] 1 2 k(1) show ?case by simp
qed

lemma spec_replay_snoc:
  "spec_replay d nm cur (ctxs @ [ctx]) =
     (case spec_replay d nm cur ctxs of
        None \<Rightarrow> None
      | Some r \<Rightarrow> map_option Some (spec_build d nm r ctx))"
  by (induction ctxs arbitrary: cur) (auto split: option.splits)

lemma reload_after_commit:
  assumes hc: "holds_configs d (vault c) 1 raws"
    and dec: "map (decode_stored d) raws = map Some ctxs"
    and sync: "spec_replay d (name c) None ctxs = Some (resources c)"
    and ser: "decode_stored d raw = Some ctx"
    and built: "spec_build d (name c) (resources c) ctx = Some b"
    and seq: "seq = 1 + of_nat (length raws)"
    and pc: "fst (commitConfig d (ConfigTXPrefix @ FormatUint seq) blk seq raw c) = None"
    and v': "v' = vault (snd (commitConfig d (ConfigTXPrefix @ FormatUint seq) blk seq raw c))"
    and unk: "txStatus (vault c) (ConfigTXPrefix @ FormatUint seq) = Unknown"
    and free: "\<forall>key. CreateCompositeKey d channelConfigKey [FormatUint seq] = Inr key
                 \<longrightarrow> kvstate (vault c) (peerNamespace, key) = None"
    and nxt: "txStatus (vault c) (ConfigTXPrefix @ FormatUint (seq + 1)) = Unknown"
    and rd: "failNewQueryExecutor d v' = None" "\<forall>t. failStatus d v' t = None"
      "\<forall>k. failGetState d v' peerNamespace k = None"
  shows "\<exists>c''. ReloadConfigTransactions d (newChan (name c) v') = Some (Ok, c'') \<and> resources c'' = Some b"
proof -
  let ?t = "ConfigTXPrefix @ FormatUint seq"
  from commitConfig_success_vault [OF pc] v' obtain key where
    key: "CreateCompositeKey d channelConfigKey [FormatUint seq] = Inr key"
    and ts: "txStatus v' = (txStatus (vault c))(?t := Valid)"
    and kv: "kvstate v' = (kvstate (vault c))((peerNamespace, key) \<mapsto> raw)"
    by auto
  from free key have fr: "kvstate (vault c) (peerNamespace, key) = None" by simp
  have 1: "holds_configs d v' 1 raws"
    by (rule holds_configs_after_commit [OF hc ts kv unk fr rd(2) rd(3)])
  have 2: "holds_configs d v' (1 + of_nat (length raws)) [raw]"
    using key ts kv rd(2,3) seq by (simp add: stored_status_def)
  have hc': "holds_configs d v' 1 (raws @ [raw])"
    using 1 2 by (simp add: holds_configs_snoc)
  have "?t \<noteq> ConfigTXPrefix @ FormatUint (seq + 1)"
    using txid_succ_neq [of seq] by simp
  with ts nxt rd(2) seq have un: "stored_status d v' (1 + of_nat (length (raws @ [raw]))) = Some Unknown"
    by (simp add: stored_status_def ac_simps)
  have dec': "map (decode_stored d) (raws @ [raw]) = map Some (ctxs @ [ctx])"
    using dec ser by simp
  have sr: "spec_replay d (name c) None (ctxs @ [ctx]) = Some (Some b)"
    using sync built by (simp add: spec_replay_snoc)
  let ?cp = "emit (Log Infof ''looking up the latest config block available'' [])
               (emit CallNewQueryExecutor (emit (Lock applyLock) (newChan (name c) v')))"
  have a: "holds_configs d (vault ?cp) 1 (raws @ [raw])"
    and b: "stored_status d (vault ?cp) (1 + of_nat (length (raws @ [raw]))) = Some Unknown"
    and e: "spec_replay d (name ?cp) (resources ?cp) (ctxs @ [ctx]) = Some (Some b)"
    using hc' un sr by (simp_all add: newChan_def)
  from reload_loop_replay [OF a b dec' e] obtain c2 where
    c2: "reload_loop d 1 ?cp = Some (Ok, c2, 1 + of_nat (length (raws @ [raw])))" "resources c2 = Some b"
    by auto
  have "failNewQueryExecutor d (vault (newChan (name c) v')) = None"
    using rd(1) by (simp add: newChan_def)
  from ReloadConfigTransactions_loop [OF this c2(1)] c2(2) show ?thesis by auto
qed

lemma CommitConfig_unknown_Ok_trace:
  assumes sb: "spec_build d (name c) (resources c) ctx = Some b"
    and pc: "fst (commitConfig d txid blk seq raw c) = None"
  shows "\<exists>nb key aes. CreateCompositeKey d channelConfigKey [FormatUint seq] = Inr key
      \<and> trace (snd (CommitConfig_unknown d blk raw ctx txid seq c)) =
          trace c @ nb @
          [CallNewRWSet txid, CallSetState txid peerNamespace key raw, CallRWSDone txid,
           CallCommitTX txid blk 0, CallRWSDone txid] @
          Lock resourcesLock # aes @ [Unlock resourcesLock]
      \<and> (\<forall>e\<in>set nb. e \<noteq> Lock resourcesLock \<and> kind_of e \<noteq> KWrite \<and> kind_of e \<noteq> KPush)
      \<and> (\<forall>e\<in>set aes. kind_of e = KPush \<or> kind_of e = KLog)"
proof -
  obtain r c1 where cb: "commit_bundle d blk ctx c = (r, c1)" by (cases "commit_bundle d blk ctx c")
  with commit_bundle_spec_Some [OF sb, of blk] have r: "r = Inr b" by simp
  have v: "vault c1 = vault c" using cb commit_bundle_fields(3) [of d blk ctx c] by simp
  obtain nb where nb: "trace c1 = trace c @ nb"
    "\<forall>e\<in>set nb. e \<noteq> Lock resourcesLock \<and> kind_of e \<noteq> KWrite \<and> kind_of e \<noteq> KPush"
    using cb commit_bundle_trace [of d blk ctx c] by auto
  from commitConfig_cong [OF v, of d txid blk seq raw] pc
  have ok: "fst (commitConfig d txid blk seq raw c1) = None" by simp
  obtain r2 c2 where cc: "commitConfig d txid blk seq raw c1 = (r2, c2)"
    by (cases "commitConfig d txid blk seq raw c1")
  with ok have r2: "r2 = None" by simp
  from commitConfig_success_events [OF ok] cc obtain key where
    key: "CreateCompositeKey d channelConfigKey [FormatUint seq] = Inr key"
    and ws: "new_events c1 c2 =
               [CallNewRWSet txid, CallSetState txid peerNamespace key raw, CallRWSDone txid,
                CallCommitTX txid blk 0, CallRWSDone txid]"
    by auto
  obtain es where "trace c2 = trace c1 @ es"
    using cc commitConfig_trace [of d txid blk seq raw c1] by auto
  with ws have t2: "trace c2 = trace c1 @
               [CallNewRWSet txid, CallSetState txid peerNamespace key raw, CallRWSDone txid,
                CallCommitTX txid blk 0, CallRWSDone txid]"
    by (simp add: new_events_def)
  obtain aes where aes: "trace (applyBundle b c2) = trace c2 @ Lock resourcesLock # aes @ [Unlock resourcesLock]"
    "\<forall>e\<in>set aes. kind_of e = KPush \<or> kind_of e = KLog"
    using applyBundle_trace_kinds by blast
  have "trace (snd (CommitConfig_unknown d blk raw ctx txid seq c)) =
          trace c @ nb @
          [CallNewRWSet txid, CallSetState txid peerNamespace key raw, CallRWSDone txid,
           CallCommitTX txid blk 0, CallRWSDone txid] @
          Lock resourcesLock # aes @ [Unlock resourcesLock]"
    using cb r cc r2 aes(1) t2 nb(1) by (simp add: CommitConfig_unknown_def)
  with key nb(2) aes(2) show ?thesis by blast
qed

lemma failing_decode [simp]:
  "UnmarshalPayload failingDeps bs = Inr \<lparr>Header = [], Data = bs\<rparr>"
  "UnmarshalConfigEnvelope failingDeps (x # xs) =
     Inr \<lparr>Config = Some \<lparr>Sequence = ucast x, ChannelGroup = xs\<rparr>, LastUpdate = None\<rparr>"
  "CreateCompositeKey failingDeps ot attrs = Inr (ot @ concat attrs)"
  "NewBundle failingDeps = demoNewBundle" "Validate failingDeps = demoValidate"
  "failStatus failingDeps v t = None" "failNewRWSet failingDeps v t = None"
  "failSetState failingDeps v t ns k bs = None"
  "failCommitTX failingDeps v t blk = Some (External ''commit failed'')"
  "failDiscardTx failingDeps v t = Some (External ''discard failed'')"
  by (simp_all add: failingDeps_def demoDeps_def)

lemma failing_commitConfig:
  "fst (commitConfig failingDeps t blk s raw c) =
     Some (Wrapf (External ''commit failed'') ''failed committing configtx rws'' [])"
  by (simp add: commitConfig_def commitConfig_rws_def vault_NewRWSet_def rws_SetState_def
        rws_Done_def CommitTX_def DiscardTx_def)

subsection \<open>Persist before activate\<close>

lemma reload_first_unknown:
  assumes "failNewQueryExecutor d v = None" and "stored_status d v 1 = Some Unknown"
  shows "\<exists>c''. ReloadConfigTransactions d (newChan n v) = Some (Ok, c'') \<and> resources c'' = None"
proof -
  let ?cp = "emit (Log Infof ''looking up the latest config block available'' [])
               (emit CallNewQueryExecutor (emit (Lock applyLock) (newChan n v)))"
  have "stored_status d (vault ?cp) 1 = Some Unknown" using assms(2) by (simp add: newChan_def)
  from vault_Status_stored [OF this]
  have l: "reload_loop d 1 ?cp = Some (Ok, emit (CallStatus (ConfigTXPrefix @ FormatUint 1)) ?cp, 1)"
    by (subst reload_loop.simps) simp
  have "failNewQueryExecutor d (vault (newChan n v)) = None" using assms(1) by (simp add: newChan_def)
  from ReloadConfigTransactions_loop [OF this l] show ?thesis
    by (auto simp add: newChan_def)
qed

text \<open>
  C4, as stated, fails in its last clause. \<open>CommitConfig\<close> derives the transaction id
  from the sequence number embedded in the configuration, whatever it is, and
  \<open>ReloadConfigTransactions\<close> starts at the sequence number 1. A first configuration
  with the sequence number 0 is persisted as \<^verbatim>\<open>config-0\<close> and activated; after a crash
  between the two, a reload over the vault that \<open>commitConfig\<close> left finds the status of
  \<^verbatim>\<open>config-1\<close> \<open>Unknown\<close> and returns \<^verbatim>\<open>nil\<close> with no active bundle.
\<close>

theorem persist_before_activate_counterexample:
  "fst (CommitConfig demoDeps 3 [0, 7] (Some demoEnv0) (newChan ''ch'' emptyVault)) = Ok
   \<and> resources (snd (CommitConfig demoDeps 3 [0, 7] (Some demoEnv0) (newChan ''ch'' emptyVault))) =
       Some demoBundle0
   \<and> vault (snd (CommitConfig demoDeps 3 [0, 7] (Some demoEnv0) (newChan ''ch'' emptyVault))) =
       vault (snd (commitConfig demoDeps ''config-0'' 3 0 [0, 7] (newChan ''ch'' emptyVault)))
   \<and> map_option fst
        (ReloadConfigTransactions demoDeps
           (newChan ''ch'' (vault (snd (commitConfig demoDeps ''config-0'' 3 0 [0, 7] (newChan ''ch'' emptyVault))))))
       = Some Ok
   \<and> map_option (resources \<circ> snd)
        (ReloadConfigTransactions demoDeps
           (newChan ''ch'' (vault (snd (commitConfig demoDeps ''config-0'' 3 0 [0, 7] (newChan ''ch'' emptyVault))))))
       = Some None"
proof -
  let ?c = "newChan ''ch'' emptyVault"
  let ?cfg = "\<lparr>Sequence = 0, ChannelGroup = [7]\<rparr> :: Config"
  let ?ctx = "\<lparr>Config = Some ?cfg, LastUpdate = None\<rparr>"
  have t: "ConfigTXPrefix @ FormatUint 0 = ''config-0''"
    by (simp add: ConfigTXPrefix_def FormatUint_0)
  have h: "UnmarshalPayload demoDeps (Payload demoEnv0) = Inr \<lparr>Header = [], Data = [0, 7]\<rparr>"
    "UnmarshalConfigEnvelope demoDeps (Data \<lparr>Header = [], Data = [0, 7]\<rparr>) = Inr ?ctx"
    "Config ?ctx = Some ?cfg"
    "failStatus demoDeps (vault ?c) (ConfigTXPrefix @ FormatUint (Sequence ?cfg)) = None"
    "txStatus (vault ?c) (ConfigTXPrefix @ FormatUint (Sequence ?cfg)) = Unknown"
    "spec_build demoDeps (name ?c) (resources ?c) ?ctx = Some demoBundle0"
    "fst (commitConfig demoDeps (ConfigTXPrefix @ FormatUint (Sequence ?cfg)) 3 (Sequence ?cfg) [0, 7] ?c) = None"
    by (simp_all add: demoEnv0_def newChan_def emptyVault_def spec_build_def demoNewBundle_def
          demoBundle0_def demo_commitConfig_ok)
  note r = CommitConfig_Ok_intro [OF h]
  have 1: "fst (CommitConfig demoDeps 3 [0, 7] (Some demoEnv0) ?c) = Ok" by (rule r(1))
  have 2: "resources (snd (CommitConfig demoDeps 3 [0, 7] (Some demoEnv0) ?c)) = Some demoBundle0" by (rule r(2))
  have 3: "vault (snd (CommitConfig demoDeps 3 [0, 7] (Some demoEnv0) ?c)) =
       vault (snd (commitConfig demoDeps ''config-0'' 3 0 [0, 7] ?c))"
    using r(4) by (simp add: t)
  let ?v = "vault (snd (commitConfig demoDeps ''config-0'' 3 0 [0, 7] ?c))"
  have s1: "txStatus ?v ''config-1'' = Unknown"
    by (simp add: demo_commitConfig_vault newChan_def emptyVault_def)
  have "stored_status demoDeps ?v 1 = Some Unknown"
    using s1 by (simp add: stored_status_def ConfigTXPrefix_def FormatUint_1)
  from reload_first_unknown [OF _ this, of "''ch''"]
  have 4: "\<exists>c''. ReloadConfigTransactions demoDeps (newChan ''ch'' ?v) = Some (Ok, c'') \<and> resources c'' = None"
    by simp
  from 1 2 3 4 show ?thesis by auto
qed

text \<open>
  C4, amended. Take a call of \<open>CommitConfig\<close> that built a bundle \<open>b\<close> (the envelope decodes,
  the status of the derived id is \<open>Unknown\<close>, and the bundle of the configuration on
  the active one is \<open>b\<close>).

  If \<open>commitConfig\<close> fails with \<open>err\<close>, the call returns \<open>err\<close> wrapped with
  \<^verbatim>\<open>"failed committing configtx to the vault"\<close>, the active bundle is as before and
  the write lock on the resources is never taken.

  If \<open>commitConfig\<close> succeeds, the call returns \<open>nil\<close> and \<open>b\<close> is active; of the
  events of the call, the writes to the vault and the taking of the resources lock
  are, in this order: the write set opened, written and released, \<open>CommitTX\<close>, the
  deferred release, and only then the lock of \<open>applyBundle\<close>. The vault after the call
  is the vault just after \<open>commitConfig\<close>: activation does not touch it. So a crash
  between the two leaves this vault and nothing of the channel; and if the vault
  held, before the call, configuration transactions \<open>1..N-1\<close> that replay to the
  active bundle, and this transaction has sequence number \<open>N\<close>, with its raw bytes
  decoding to the delivered envelope, its key unused and the status of \<open>N + 1\<close>
  \<open>Unknown\<close>, then, the vault being readable, \<open>ReloadConfigTransactions\<close> on a channel
  with no active bundle over that vault returns \<open>nil\<close> with \<open>b\<close> active.
\<close>

theorem persist_before_activate:
  assumes "UnmarshalPayload d (Payload e) = Inr payload"
    and "UnmarshalConfigEnvelope d (Data payload) = Inr ctx"
    and "Config ctx = Some cfg"
    and "failStatus d (vault c) (ConfigTXPrefix @ FormatUint (Sequence cfg)) = None"
    and "txStatus (vault c) (ConfigTXPrefix @ FormatUint (Sequence cfg)) = Unknown"
    and built: "spec_build d (name c) (resources c) ctx = Some b"
  shows
    "(\<forall>err. fst (commitConfig d (ConfigTXPrefix @ FormatUint (Sequence cfg)) blockNumber (Sequence cfg) raw c) = Some err \<longrightarrow>
        fst (CommitConfig d blockNumber raw (Some e) c) =
          Err (Wrapf err ''failed committing configtx to the vault'' [])
        \<and> resources (snd (CommitConfig d blockNumber raw (Some e) c)) = resources c
        \<and> Lock resourcesLock \<notin> set (new_events c (snd (CommitConfig d blockNumber raw (Some e) c))))
     \<and> (fst (commitConfig d (ConfigTXPrefix @ FormatUint (Sequence cfg)) blockNumber (Sequence cfg) raw c) = None \<longrightarrow>
        fst (CommitConfig d blockNumber raw (Some e) c) = Ok
        \<and> resources (snd (CommitConfig d blockNumber raw (Some e) c)) = Some b
        \<and> vault (snd (CommitConfig d blockNumber raw (Some e) c)) =
            vault (snd (commitConfig d (ConfigTXPrefix @ FormatUint (Sequence cfg)) blockNumber (Sequence cfg) raw c))
        \<and> (\<exists>key. filter (\<lambda>ev. kind_of ev = KWrite \<or> ev = Lock resourcesLock)
                    (new_events c (snd (CommitConfig d blockNumber raw (Some e) c))) =
                  [CallNewRWSet (ConfigTXPrefix @ FormatUint (Sequence cfg)),
                   CallSetState (ConfigTXPrefix @ FormatUint (Sequence cfg)) peerNamespace key raw,
                   CallRWSDone (ConfigTXPrefix @ FormatUint (Sequence cfg)),
                   CallCommitTX (ConfigTXPrefix @ FormatUint (Sequence cfg)) blockNumber 0,
                   CallRWSDone (ConfigTXPrefix @ FormatUint (Sequence cfg)),
                   Lock resourcesLock])
        \<and> (holds_configs d (vault c) 1 raws
            \<and> map (decode_stored d) raws = map Some ctxs
            \<and> spec_replay d (name c) None ctxs = Some (resources c)
            \<and> UnmarshalEnvelope d raw = Inr e
            \<and> Sequence cfg = 1 + of_nat (length raws)
            \<and> (\<forall>key. CreateCompositeKey d channelConfigKey [FormatUint (Sequence cfg)] = Inr key
                   \<longrightarrow> kvstate (vault c) (peerNamespace, key) = None)
            \<and> txStatus (vault c) (ConfigTXPrefix @ FormatUint (Sequence cfg + 1)) = Unknown
            \<and> failNewQueryExecutor d
                 (vault (snd (commitConfig d (ConfigTXPrefix @ FormatUint (Sequence cfg)) blockNumber (Sequence cfg) raw c))) = None
            \<and> (\<forall>t. failStatus d
                 (vault (snd (commitConfig d (ConfigTXPrefix @ FormatUint (Sequence cfg)) blockNumber (Sequence cfg) raw c))) t = None)
            \<and> (\<forall>k. failGetState d
                 (vault (snd (commitConfig d (ConfigTXPrefix @ FormatUint (Sequence cfg)) blockNumber (Sequence cfg) raw c)))
                 peerNamespace k = None)
            \<longrightarrow>
            (\<exists>c''. ReloadConfigTransactions d
                      (newChan (name c)
                         (vault (snd (commitConfig d (ConfigTXPrefix @ FormatUint (Sequence cfg)) blockNumber (Sequence cfg) raw c)))) =
                    Some (Ok, c'')
                  \<and> resources c'' = Some b)))"
proof (intro conjI allI impI)
  let ?t = "ConfigTXPrefix @ FormatUint (Sequence cfg)"
  let ?pre = "[Lock commitConfigMutex, Lock applyLock,
               Log Debugf ''[channel: %s] received config transaction number %d''
                 [ArgStr (name c), ArgUint blockNumber],
               CallStatus ?t]"
  let ?c1 = "emits ?pre c"
  note reach = CommitConfig_reach [OF assms(1-5), of blockNumber raw]
  have vc: "vault ?c1 = vault c" by simp
  note cong = commitConfig_cong [OF vc, of d ?t blockNumber "Sequence cfg" raw]
  from built have sb1: "spec_build d (name ?c1) (resources ?c1) ctx = Some b" by simp
  {
    fix err
    assume "fst (commitConfig d ?t blockNumber (Sequence cfg) raw c) = Some err"
    with cong have ko: "fst (commitConfig d ?t blockNumber (Sequence cfg) raw ?c1) = Some err" by simp
    note f = CommitConfig_unknown_persist_failed [OF sb1 ko]
    show "fst (CommitConfig d blockNumber raw (Some e) c) =
            Err (Wrapf err ''failed committing configtx to the vault'' [])"
      using f(1) by (simp add: reach)
    show "resources (snd (CommitConfig d blockNumber raw (Some e) c)) = resources c"
      using f(2) by (simp add: reach)
    let ?u = "snd (CommitConfig_unknown d blockNumber raw ctx ?t (Sequence cfg) ?c1)"
    obtain rest where rest: "trace ?u = trace ?c1 @ rest"
      using CommitConfig_unknown_trace [of d blockNumber raw ctx ?t "Sequence cfg" ?c1] by auto
    then have ne: "new_events ?c1 ?u = rest" by (simp add: new_events_def)
    from rest have "trace (snd (CommitConfig d blockNumber raw (Some e) c)) =
        trace c @ (?pre @ rest @ [Unlock applyLock, Unlock commitConfigMutex])"
      by (simp add: reach)
    from new_events_append [OF this] f(3) ne
    show "Lock resourcesLock \<notin> set (new_events c (snd (CommitConfig d blockNumber raw (Some e) c)))"
      by auto
  }
  assume pc: "fst (commitConfig d ?t blockNumber (Sequence cfg) raw c) = None"
  note i = CommitConfig_Ok_intro [OF assms(1-5) built pc]
  show "fst (CommitConfig d blockNumber raw (Some e) c) = Ok" by (rule i(1))
  show "resources (snd (CommitConfig d blockNumber raw (Some e) c)) = Some b" by (rule i(2))
  show "vault (snd (CommitConfig d blockNumber raw (Some e) c)) =
          vault (snd (commitConfig d ?t blockNumber (Sequence cfg) raw c))" by (rule i(4))
  from pc cong have pc1: "fst (commitConfig d ?t blockNumber (Sequence cfg) raw ?c1) = None" by simp
  from CommitConfig_unknown_Ok_trace [OF sb1 pc1] obtain nb key aes where
    key: "CreateCompositeKey d channelConfigKey [FormatUint (Sequence cfg)] = Inr key"
    and tr: "trace (snd (CommitConfig_unknown d blockNumber raw ctx ?t (Sequence cfg) ?c1)) =
          trace ?c1 @ nb @
          [CallNewRWSet ?t, CallSetState ?t peerNamespace key raw, CallRWSDone ?t,
           CallCommitTX ?t blockNumber 0, CallRWSDone ?t] @
          Lock resourcesLock # aes @ [Unlock resourcesLock]"
    and nb: "\<forall>e\<in>set nb. e \<noteq> Lock resourcesLock \<and> kind_of e \<noteq> KWrite \<and> kind_of e \<noteq> KPush"
    and aes: "\<forall>e\<in>set aes. kind_of e = KPush \<or> kind_of e = KLog"
    by blast
  have "trace (snd (CommitConfig d blockNumber raw (Some e) c)) =
      trace c @ (?pre @ nb @
          [CallNewRWSet ?t, CallSetState ?t peerNamespace key raw, CallRWSDone ?t,
           CallCommitTX ?t blockNumber 0, CallRWSDone ?t] @
          Lock resourcesLock # aes @ [Unlock resourcesLock, Unlock applyLock, Unlock commitConfigMutex])"
    using tr by (simp add: reach)
  note ev = new_events_append [OF this]
  have fnb: "filter (\<lambda>ev. kind_of ev = KWrite \<or> ev = Lock resourcesLock) nb = []"
    using nb by (auto simp add: filter_empty_conv)
  have faes: "filter (\<lambda>ev. kind_of ev = KWrite \<or> ev = Lock resourcesLock) aes = []"
    using aes by (auto simp add: filter_empty_conv)
  have "filter (\<lambda>ev. kind_of ev = KWrite \<or> ev = Lock resourcesLock)
          (new_events c (snd (CommitConfig d blockNumber raw (Some e) c))) =
        [CallNewRWSet ?t, CallSetState ?t peerNamespace key raw, CallRWSDone ?t,
         CallCommitTX ?t blockNumber 0, CallRWSDone ?t, Lock resourcesLock]"
    by (simp add: ev fnb faes)
  then show "\<exists>key. filter (\<lambda>ev. kind_of ev = KWrite \<or> ev = Lock resourcesLock)
                    (new_events c (snd (CommitConfig d blockNumber raw (Some e) c))) =
        [CallNewRWSet ?t, CallSetState ?t peerNamespace key raw, CallRWSDone ?t,
         CallCommitTX ?t blockNumber 0, CallRWSDone ?t, Lock resourcesLock]"
    by blast
  let ?v' = "vault (snd (commitConfig d ?t blockNumber (Sequence cfg) raw c))"
  assume h: "holds_configs d (vault c) 1 raws
            \<and> map (decode_stored d) raws = map Some ctxs
            \<and> spec_replay d (name c) None ctxs = Some (resources c)
            \<and> UnmarshalEnvelope d raw = Inr e
            \<and> Sequence cfg = 1 + of_nat (length raws)
            \<and> (\<forall>key. CreateCompositeKey d channelConfigKey [FormatUint (Sequence cfg)] = Inr key
                   \<longrightarrow> kvstate (vault c) (peerNamespace, key) = None)
            \<and> txStatus (vault c) (ConfigTXPrefix @ FormatUint (Sequence cfg + 1)) = Unknown
            \<and> failNewQueryExecutor d ?v' = None
            \<and> (\<forall>t. failStatus d ?v' t = None)
            \<and> (\<forall>k. failGetState d ?v' peerNamespace k = None)"
  have ser: "decode_stored d raw = Some ctx"
    using h assms(1,2) by (simp add: decode_stored_def)
  from h have hc: "holds_configs d (vault c) 1 raws"
    and dec: "map (decode_stored d) raws = map Some ctxs"
    and sync: "spec_replay d (name c) None ctxs = Some (resources c)"
    and seq: "Sequence cfg = 1 + of_nat (length raws)"
    and free: "\<forall>key. CreateCompositeKey d channelConfigKey [FormatUint (Sequence cfg)] = Inr key
                   \<longrightarrow> kvstate (vault c) (peerNamespace, key) = None"
    and nxt: "txStatus (vault c) (ConfigTXPrefix @ FormatUint (Sequence cfg + 1)) = Unknown"
    and rd: "failNewQueryExecutor d ?v' = None" "\<forall>t. failStatus d ?v' t = None"
      "\<forall>k. failGetState d ?v' peerNamespace k = None"
    by blast+
  show "\<exists>c''. ReloadConfigTransactions d (newChan (name c) ?v') = Some (Ok, c'') \<and> resources c'' = Some b"
    by (rule reload_after_commit [OF hc dec sync ser built seq pc refl assms(5) free nxt rd])
qed

theorem persist_before_activate_witness:
  "fst (CommitConfig failingDeps 1 [2, 8] (Some demoEnv2) demoChan1) =
     Err (Wrapf (Wrapf (External ''commit failed'') ''failed committing configtx rws'' [])
            ''failed committing configtx to the vault'' [])
   \<and> resources (snd (CommitConfig failingDeps 1 [2, 8] (Some demoEnv2) demoChan1)) = Some demoBundle1
   \<and> Lock resourcesLock \<notin> set (new_events demoChan1 (snd (CommitConfig failingDeps 1 [2, 8] (Some demoEnv2) demoChan1)))
   \<and> fst (CommitConfig demoDeps 1 [2, 8] (Some demoEnv2) demoChan1) = Ok
   \<and> resources (snd (CommitConfig demoDeps 1 [2, 8] (Some demoEnv2) demoChan1)) = Some demoBundle2
   \<and> (\<exists>c''. ReloadConfigTransactions demoDeps
               (newChan ''ch'' (vault (snd (commitConfig demoDeps ''config-2'' 1 2 [2, 8] demoChan1)))) =
             Some (Ok, c'')
           \<and> resources c'' = Some demoBundle2)"
proof -
  let ?cfg = "\<lparr>Sequence = 2, ChannelGroup = [8]\<rparr> :: Config"
  let ?ctx = "\<lparr>Config = Some ?cfg, LastUpdate = None\<rparr>"
  let ?ctx1 = "\<lparr>Config = Some \<lparr>Sequence = 1, ChannelGroup = [7]\<rparr>, LastUpdate = None\<rparr>"
  let ?p = "\<lparr>Header = [], Data = [2, 8]\<rparr> :: PayloadMsg"
  have t: "ConfigTXPrefix @ FormatUint (Sequence ?cfg) = ''config-2''"
    by (simp add: ConfigTXPrefix_def FormatUint_2)
  have f: "UnmarshalPayload failingDeps (Payload demoEnv2) = Inr ?p"
    "UnmarshalConfigEnvelope failingDeps (Data ?p) = Inr ?ctx"
    "Config ?ctx = Some ?cfg"
    "failStatus failingDeps (vault demoChan1) (ConfigTXPrefix @ FormatUint (Sequence ?cfg)) = None"
    "txStatus (vault demoChan1) (ConfigTXPrefix @ FormatUint (Sequence ?cfg)) = Unknown"
    "spec_build failingDeps (name demoChan1) (resources demoChan1) ?ctx = Some demoBundle2"
    by (simp_all add: demoEnv2_def demoChan1_def ConfigTXPrefix_def FormatUint_2 spec_build_def demoNewBundle_def demoValidate_def
          demoBundle1_def demoBundle2_def capabilitiesSupported_def)
  have g: "UnmarshalPayload demoDeps (Payload demoEnv2) = Inr ?p"
    "UnmarshalConfigEnvelope demoDeps (Data ?p) = Inr ?ctx"
    "Config ?ctx = Some ?cfg"
    "failStatus demoDeps (vault demoChan1) (ConfigTXPrefix @ FormatUint (Sequence ?cfg)) = None"
    "txStatus (vault demoChan1) (ConfigTXPrefix @ FormatUint (Sequence ?cfg)) = Unknown"
    "spec_build demoDeps (name demoChan1) (resources demoChan1) ?ctx = Some demoBundle2"
    by (simp_all add: demoEnv2_def demoChan1_def ConfigTXPrefix_def FormatUint_2 spec_build_def demoNewBundle_def demoValidate_def
          demoBundle1_def demoBundle2_def capabilitiesSupported_def)
  have ko: "fst (commitConfig failingDeps (ConfigTXPrefix @ FormatUint (Sequence ?cfg)) 1 (Sequence ?cfg) [2, 8] demoChan1) =
      Some (Wrapf (External ''commit failed'') ''failed committing configtx rws'' [])"
    by (rule failing_commitConfig)
  have ok: "fst (commitConfig demoDeps (ConfigTXPrefix @ FormatUint (Sequence ?cfg)) 1 (Sequence ?cfg) [2, 8] demoChan1) = None"
    by (rule demo_commitConfig_ok)
  have h: "holds_configs demoDeps (vault demoChan1) 1 [[1, 7]]
            \<and> map (decode_stored demoDeps) [[1, 7]] = map Some [?ctx1]
            \<and> spec_replay demoDeps (name demoChan1) None [?ctx1] = Some (resources demoChan1)
            \<and> UnmarshalEnvelope demoDeps [2, 8] = Inr demoEnv2
            \<and> Sequence ?cfg = 1 + of_nat (length [[1, 7 :: 8 word]])
            \<and> (\<forall>key. CreateCompositeKey demoDeps channelConfigKey [FormatUint (Sequence ?cfg)] = Inr key
                   \<longrightarrow> kvstate (vault demoChan1) (peerNamespace, key) = None)
            \<and> txStatus (vault demoChan1) (ConfigTXPrefix @ FormatUint (Sequence ?cfg + 1)) = Unknown
            \<and> failNewQueryExecutor demoDeps
                 (vault (snd (commitConfig demoDeps (ConfigTXPrefix @ FormatUint (Sequence ?cfg)) 1 (Sequence ?cfg) [2, 8] demoChan1))) = None
            \<and> (\<forall>t. failStatus demoDeps
                 (vault (snd (commitConfig demoDeps (ConfigTXPrefix @ FormatUint (Sequence ?cfg)) 1 (Sequence ?cfg) [2, 8] demoChan1))) t = None)
            \<and> (\<forall>k. failGetState demoDeps
                 (vault (snd (commitConfig demoDeps (ConfigTXPrefix @ FormatUint (Sequence ?cfg)) 1 (Sequence ?cfg) [2, 8] demoChan1)))
                 peerNamespace k = None)"
    by (auto simp add: demoChan1_def stored_status_def decode_stored_def spec_build_def demoNewBundle_def
          demoBundle1_def demoEnv2_def ConfigTXPrefix_def FormatUint_1 FormatUint_2 FormatUint_3
          channelConfigKey_def peerNamespace_def)
  note A = persist_before_activate [OF f, of 1 "[2, 8]"]
  note B = persist_before_activate [OF g, of 1 "[2, 8]" "[[1, 7]]" "[?ctx1]"]
  from A ko have 1: "fst (CommitConfig failingDeps 1 [2, 8] (Some demoEnv2) demoChan1) =
     Err (Wrapf (Wrapf (External ''commit failed'') ''failed committing configtx rws'' [])
            ''failed committing configtx to the vault'' [])
   \<and> resources (snd (CommitConfig failingDeps 1 [2, 8] (Some demoEnv2) demoChan1)) = resources demoChan1
   \<and> Lock resourcesLock \<notin> set (new_events demoChan1 (snd (CommitConfig failingDeps 1 [2, 8] (Some demoEnv2) demoChan1)))"
    by blast
  from B ok h have 2: "fst (CommitConfig demoDeps 1 [2, 8] (Some demoEnv2) demoChan1) = Ok
   \<and> resources (snd (CommitConfig demoDeps 1 [2, 8] (Some demoEnv2) demoChan1)) = Some demoBundle2
   \<and> (\<exists>c''. ReloadConfigTransactions demoDeps
               (newChan (name demoChan1)
                  (vault (snd (commitConfig demoDeps (ConfigTXPrefix @ FormatUint (Sequence ?cfg)) 1 (Sequence ?cfg) [2, 8] demoChan1)))) =
             Some (Ok, c'')
           \<and> resources c'' = Some demoBundle2)"
    by blast
  have n: "name demoChan1 = ''ch''" "resources demoChan1 = Some demoBundle1" "Sequence ?cfg = 2"
    by (simp_all add: demoChan1_def)
  have t2: "ConfigTXPrefix @ FormatUint 2 = ''config-2''"
    by (simp add: ConfigTXPrefix_def FormatUint_2)
  from 1 2 show ?thesis
    unfolding n t2 by blast
qed

subsection \<open>Locks held at a push\<close>

lemma pushes_inside_append:
  "pushes_inside l h (xs @ ys) = (pushes_inside l h xs \<and> pushes_inside l (held_after l h xs) ys)"
  by (induction l h xs rule: pushes_inside.induct) auto

lemma held_after_append:
  "held_after l h (xs @ ys) = held_after l (held_after l h xs) ys"
  by (induction l h xs rule: held_after.induct) auto

lemma quiet_steps:
  "\<forall>e\<in>set es. quiet e \<Longrightarrow> pushes_inside l h es \<and> held_after l h es = h"
proof (induction es)
  case Nil
  show ?case by simp
next
  case (Cons e es)
  then show ?case by (cases e) simp_all
qed

lemma log_push_steps:
  "\<forall>e\<in>set es. kind_of e = KPush \<or> kind_of e = KLog \<Longrightarrow> held_after l h es = h"
proof (induction es)
  case Nil
  show ?case by simp
next
  case (Cons e es)
  then show ?case by (cases e) simp_all
qed

lemma locked_steps_Nil [simp]: "locked_steps []"
  by (simp add: locked_steps_def)

lemma locked_steps_append: "locked_steps xs \<Longrightarrow> locked_steps ys \<Longrightarrow> locked_steps (xs @ ys)"
  by (simp add: locked_steps_def pushes_inside_append held_after_append)

lemma locked_steps_quiet: "\<forall>e\<in>set es. quiet e \<Longrightarrow> locked_steps es"
  using quiet_steps [of es] by (simp add: locked_steps_def)

lemma locked_steps_apply:
  assumes "\<forall>e\<in>set aes. kind_of e = KPush \<or> kind_of e = KLog"
  shows "locked_steps (Lock resourcesLock # aes @ [Unlock resourcesLock])"
  using pushes_inside_held [OF assms] log_push_steps [OF assms]
  by (simp add: locked_steps_def pushes_inside_append held_after_append)

lemma quiet_kinds: "kind_of e = KWrite \<or> kind_of e = KLog \<Longrightarrow> quiet e"
  by (cases e) simp_all

lemma commit_bundle_quiet:
  "\<exists>es. trace (snd (commit_bundle d blk ctx c)) = trace c @ es \<and> (\<forall>e\<in>set es. quiet e)"
  by (simp add: commit_bundle_def Resources_def Let_def split: option.splits sum.splits)

lemma reload_bundle_quiet:
  "\<exists>es. trace (snd (reload_bundle d t ctx c)) = trace c @ es \<and> (\<forall>e\<in>set es. quiet e)"
  by (simp add: reload_bundle_def Resources_def Let_def split: option.splits sum.splits)

lemma CommitConfig_unknown_steps:
  "\<exists>es. trace (snd (CommitConfig_unknown d blk raw ctx txid seq c)) = trace c @ es \<and> locked_steps es"
proof -
  obtain r c1 where cb: "commit_bundle d blk ctx c = (r, c1)" by (cases "commit_bundle d blk ctx c")
  obtain es1 where es1: "trace c1 = trace c @ es1" "\<forall>e\<in>set es1. quiet e"
    using cb commit_bundle_quiet [of d blk ctx c] by auto
  note s1 = locked_steps_quiet [OF es1(2)]
  show ?thesis
  proof (cases r)
    case (Inl out)
    with cb es1(1) s1 show ?thesis by (auto simp add: CommitConfig_unknown_def)
  next
    case (Inr bdl)
    obtain r2 c2 where cc: "commitConfig d txid blk seq raw c1 = (r2, c2)"
      by (cases "commitConfig d txid blk seq raw c1")
    obtain es2 where es2: "trace c2 = trace c1 @ es2" "\<forall>e\<in>set es2. kind_of e = KWrite \<or> kind_of e = KLog"
      using cc commitConfig_trace [of d txid blk seq raw c1] by auto
    from es2(2) have "\<forall>e\<in>set es2. quiet e" by (auto intro: quiet_kinds)
    note s2 = locked_steps_append [OF s1 locked_steps_quiet [OF this]]
    show ?thesis
    proof (cases r2)
      case (Some err)
      have "trace (snd (CommitConfig_unknown d blk raw ctx txid seq c)) = trace c @ (es1 @ es2)"
        using cb Inr cc Some es1(1) es2(1) by (simp add: CommitConfig_unknown_def)
      with s2 show ?thesis by blast
    next
      case None
      obtain aes where aes: "trace (applyBundle bdl c2) = trace c2 @ Lock resourcesLock # aes @ [Unlock resourcesLock]"
        "\<forall>e\<in>set aes. kind_of e = KPush \<or> kind_of e = KLog"
        using applyBundle_trace_kinds by blast
      have "trace (snd (CommitConfig_unknown d blk raw ctx txid seq c)) =
              trace c @ ((es1 @ es2) @ (Lock resourcesLock # aes @ [Unlock resourcesLock]))"
        using cb Inr cc None es1(1) es2(1) aes(1) by (simp add: CommitConfig_unknown_def)
      with locked_steps_append [OF s2 locked_steps_apply [OF aes(2)]] show ?thesis by blast
    qed
  qed
qed

lemma CommitConfig_locked_elim:
  assumes "\<And>out. P (out, c)"
    and "\<And>out t. P (out, emit (CallStatus t) c)"
    and "\<And>ctx t seq. P (CommitConfig_unknown d blk raw ctx t seq (emit (CallStatus t) c))"
  shows "P (CommitConfig_locked d blk raw env c)"
  by (simp add: CommitConfig_locked_def vault_Status_def Let_def assms
        split: option.splits sum.splits ValidationCode.splits)

lemma CommitConfig_locked_steps:
  "\<exists>es. trace (snd (CommitConfig_locked d blk raw env c)) = trace c @ es \<and> locked_steps es"
proof (rule CommitConfig_locked_elim)
  fix out :: outcome
  have "trace c = trace c @ []" by simp
  then show "\<exists>es. trace (snd (out, c)) = trace c @ es \<and> locked_steps es"
    using locked_steps_Nil by fastforce
next
  fix out :: outcome and t
  have "locked_steps [CallStatus t]" by (rule locked_steps_quiet) simp
  then show "\<exists>es. trace (snd (out, emit (CallStatus t) c)) = trace c @ es \<and> locked_steps es"
    by (intro exI [of _ "[CallStatus t]"]) simp
next
  fix ctx t seq
  let ?c1 = "emit (CallStatus t) c"
  obtain es where es: "trace (snd (CommitConfig_unknown d blk raw ctx t seq ?c1)) = trace ?c1 @ es"
    "locked_steps es"
    using CommitConfig_unknown_steps by blast
  have "locked_steps [CallStatus t]" by (rule locked_steps_quiet) simp
  from locked_steps_append [OF this es(2)] es(1)
  show "\<exists>es. trace (snd (CommitConfig_unknown d blk raw ctx t seq ?c1)) = trace c @ es \<and> locked_steps es"
    by (intro exI [of _ "[CallStatus t] @ es"]) simp
qed

lemma reload_valid_shape:
  assumes "\<And>out. P (out, emit (Log Infof ''config block available, txID [%s], loading...'' [ArgStr t]) c)"
    and "\<And>out k. P (out, emit (CallGetState peerNamespace k)
                          (emit (Log Infof ''config block available, txID [%s], loading...'' [ArgStr t]) c))"
    and "\<And>ctx k. P (case reload_bundle d t ctx
                            (emit (CallGetState peerNamespace k)
                               (emit (Log Infof ''config block available, txID [%s], loading...'' [ArgStr t]) c)) of
                       (Inl out, c3) \<Rightarrow> (out, c3)
                     | (Inr bdl, c3) \<Rightarrow> (Ok, applyBundle bdl c3))"
  shows "P (reload_valid d s t c)"
  by (simp add: reload_valid_def qe_GetState_def Let_def assms split: option.splits sum.splits)

lemma reload_valid_steps:
  "\<exists>es. trace (snd (reload_valid d s t c)) = trace c @ es \<and> locked_steps es"
proof (rule reload_valid_shape)
  fix out :: outcome
  let ?L = "Log Infof ''config block available, txID [%s], loading...'' [ArgStr t]"
  have "locked_steps [?L]" by (rule locked_steps_quiet) simp
  then show "\<exists>es. trace (snd (out, emit ?L c)) = trace c @ es \<and> locked_steps es"
    by (intro exI [of _ "[?L]"]) simp
next
  fix out :: outcome and k
  let ?L = "Log Infof ''config block available, txID [%s], loading...'' [ArgStr t]"
  have "locked_steps [?L, CallGetState peerNamespace k]" by (rule locked_steps_quiet) simp
  then show "\<exists>es. trace (snd (out, emit (CallGetState peerNamespace k) (emit ?L c))) = trace c @ es
      \<and> locked_steps es"
    by (intro exI [of _ "[?L, CallGetState peerNamespace k]"]) simp
next
  fix ctx k
  let ?L = "Log Infof ''config block available, txID [%s], loading...'' [ArgStr t]"
  let ?c0 = "emit (CallGetState peerNamespace k) (emit ?L c)"
  let ?r = "case reload_bundle d t ctx ?c0 of (Inl out, c3) \<Rightarrow> (out, c3)
            | (Inr bdl, c3) \<Rightarrow> (Ok, applyBundle bdl c3)"
  have s0: "locked_steps [?L, CallGetState peerNamespace k]" by (rule locked_steps_quiet) simp
  obtain r c1 where rb: "reload_bundle d t ctx ?c0 = (r, c1)" by (cases "reload_bundle d t ctx ?c0")
  obtain es1 where es1: "trace c1 = trace ?c0 @ es1" "\<forall>e\<in>set es1. quiet e"
    using rb reload_bundle_quiet [of d t ctx ?c0] by auto
  note s1 = locked_steps_append [OF s0 locked_steps_quiet [OF es1(2)]]
  show "\<exists>es. trace (snd ?r) = trace c @ es \<and> locked_steps es"
  proof (cases r)
    case (Inl out)
    have "trace (snd ?r) = trace c @ ([?L, CallGetState peerNamespace k] @ es1)"
      using rb Inl es1(1) by simp
    with s1 show ?thesis by blast
  next
    case (Inr bdl)
    obtain aes where aes: "trace (applyBundle bdl c1) = trace c1 @ Lock resourcesLock # aes @ [Unlock resourcesLock]"
      "\<forall>e\<in>set aes. kind_of e = KPush \<or> kind_of e = KLog"
      using applyBundle_trace_kinds by blast
    have "trace (snd ?r) =
            trace c @ (([?L, CallGetState peerNamespace k] @ es1) @ (Lock resourcesLock # aes @ [Unlock resourcesLock]))"
      using rb Inr es1(1) aes(1) by simp
    with locked_steps_append [OF s1 locked_steps_apply [OF aes(2)]] show ?thesis by blast
  qed
qed

lemma reload_loop_steps:
  assumes "reload_loop d s c = Some r"
  shows "\<exists>es. trace (fst (snd r)) = trace c @ es \<and> locked_steps es"
proof (rule reload_loop.raw_induct
    [where P = "\<lambda>d s c r. \<exists>es. trace (fst (snd r)) = trace c @ es \<and> locked_steps es", OF _ assms],
    goal_cases)
  case (1 loop d' s' c' r')
  let ?t = "ConfigTXPrefix @ FormatUint s'"
  obtain st c1 where st: "vault_Status d' ?t c' = (st, c1)" by (cases "vault_Status d' ?t c'")
  then have c1: "trace c1 = trace c' @ [CallStatus ?t]"
    by (auto simp add: vault_Status_def split: option.splits)
  have s0: "locked_steps [CallStatus ?t]" by (rule locked_steps_quiet) simp
  have direct: "\<exists>es. trace c1 = trace c' @ es \<and> locked_steps es"
    using c1 s0 by blast
  show ?case
  proof (cases st)
    case (Inl err)
    with 1(2) st direct show ?thesis by auto
  next
    case (Inr vc)
    show ?thesis
    proof (cases vc)
      case Valid
      obtain out c2 where rv: "reload_valid d' s' ?t c1 = (out, c2)"
        by (cases "reload_valid d' s' ?t c1")
      obtain es2 where es2: "trace c2 = trace c1 @ es2" "locked_steps es2"
        using rv reload_valid_steps [of d' s' ?t c1] by auto
      have c2: "trace c2 = trace c' @ ([CallStatus ?t] @ es2)" using c1 es2(1) by simp
      note s2 = locked_steps_append [OF s0 es2(2)]
      show ?thesis
      proof (cases out)
        case Ok
        with 1(2) st Inr Valid rv have "loop d' (s' + 1) c2 = Some r'" by simp
        from 1(1) [OF this] obtain es3 where es3: "trace (fst (snd r')) = trace c2 @ es3" "locked_steps es3"
          by blast
        have "trace (fst (snd r')) = trace c' @ (([CallStatus ?t] @ es2) @ es3)"
          using es3(1) c2 by simp
        with locked_steps_append [OF s2 es3(2)] show ?thesis by blast
      next
        case (Err e)
        with 1(2) st Inr Valid rv have "fst (snd r') = c2" by auto
        with c2 s2 show ?thesis by auto
      next
        case Panic
        with 1(2) st Inr Valid rv have "fst (snd r') = c2" by auto
        with c2 s2 show ?thesis by auto
      qed
    next
      case Unknown
      with 1(2) st Inr direct show ?thesis by auto
    next
      case (OtherCode n)
      with 1(2) st Inr direct show ?thesis by auto
    qed
  qed
qed

lemma CommitConfig_pushes_locked:
  "pushes_inside l False (new_events c (snd (CommitConfig d blk raw env c)))"
proof -
  let ?pre = "[Lock commitConfigMutex, Lock applyLock,
               Log Debugf ''[channel: %s] received config transaction number %d''
                 [ArgStr (name c), ArgUint blk]]"
  obtain es where es: "trace (snd (CommitConfig_locked d blk raw env (emits ?pre c))) = trace (emits ?pre c) @ es"
    "locked_steps es"
    using CommitConfig_locked_steps by blast
  have "trace (snd (CommitConfig d blk raw env c)) =
          trace c @ (?pre @ es @ [Unlock applyLock, Unlock commitConfigMutex])"
    using es(1) by (simp add: CommitConfig_def case_prod_beta)
  note ev = new_events_append [OF this]
  from es(2) show ?thesis
    unfolding ev by (cases l) (simp_all add: locked_steps_def pushes_inside_append)
qed

lemma ReloadConfigTransactions_pushes_locked:
  assumes "ReloadConfigTransactions d c = Some r"
  shows "pushes_inside applyLock False (new_events c (snd r))
       \<and> pushes_inside resourcesLock False (new_events c (snd r))"
proof (cases "failNewQueryExecutor d (vault c)")
  case (Some err)
  with assms have "trace (snd r) = trace c @ [Lock applyLock, CallNewQueryExecutor, Unlock applyLock]"
    by (auto simp add: ReloadConfigTransactions_def vault_NewQueryExecutor_def)
  from new_events_append [OF this] show ?thesis by simp
next
  case None
  let ?L = "Log Infof ''looking up the latest config block available'' []"
  let ?c1 = "emit ?L (emit CallNewQueryExecutor (emit (Lock applyLock) c))"
  from assms None obtain out c2 s where l: "reload_loop d 1 ?c1 = Some (out, c2, s)"
    by (auto simp add: ReloadConfigTransactions_def vault_NewQueryExecutor_def split: option.splits)
  from reload_loop_steps [OF l] obtain es where es: "trace c2 = trace ?c1 @ es" "locked_steps es"
    by auto
  have "\<exists>post. trace (snd r) = trace c2 @ post \<and> (\<forall>e\<in>set post. e = Unlock applyLock \<or> quiet e)"
  proof (cases out)
    case Ok
    show ?thesis
    proof (cases "s = 1")
      case True
      with assms None l Ok have "trace (snd r) = trace c2 @
          [Log Infof ''no config block available, must start from genesis'' [], CallQEDone, Unlock applyLock]"
        by (auto simp add: ReloadConfigTransactions_def vault_NewQueryExecutor_def)
      then show ?thesis by (intro exI [of _ "[Log Infof ''no config block available, must start from genesis'' [], CallQEDone, Unlock applyLock]"]) simp
    next
      case False
      with assms None l Ok have "trace (snd r) = trace c2 @
          [Log Infof ''latest config block available at sequence [%d]'' [ArgUint (s - 1)], CallQEDone, Unlock applyLock]"
        by (auto simp add: ReloadConfigTransactions_def vault_NewQueryExecutor_def)
      then show ?thesis by (intro exI [of _ "[Log Infof ''latest config block available at sequence [%d]'' [ArgUint (s - 1)], CallQEDone, Unlock applyLock]"]) simp
    qed
  next
    case (Err e)
    with assms None l have "trace (snd r) = trace c2 @ [CallQEDone, Unlock applyLock]"
      by (auto simp add: ReloadConfigTransactions_def vault_NewQueryExecutor_def)
    then show ?thesis by (intro exI [of _ "[CallQEDone, Unlock applyLock]"]) simp
  next
    case Panic
    with assms None l have "trace (snd r) = trace c2 @ [CallQEDone, Unlock applyLock]"
      by (auto simp add: ReloadConfigTransactions_def vault_NewQueryExecutor_def)
    then show ?thesis by (intro exI [of _ "[CallQEDone, Unlock applyLock]"]) simp
  qed
  then obtain post where post: "trace (snd r) = trace c2 @ post"
    "\<forall>e\<in>set post. e = Unlock applyLock \<or> quiet e"
    by blast
  have q: "pushes_inside l h post" for l h
    using post(2)
  proof (induction post arbitrary: h)
    case Nil
    show ?case by simp
  next
    case (Cons e post)
    then show ?case by (cases e) auto
  qed
  have "trace (snd r) = trace c @ ([Lock applyLock, CallNewQueryExecutor, ?L] @ es @ post)"
    using post(1) es(1) by simp
  note ev = new_events_append [OF this]
  from es(2) q show ?thesis
    unfolding ev by (simp add: locked_steps_def pushes_inside_append)
qed

subsection \<open>The push happens under the locks\<close>

text \<open>
  C9, as stated, fails: in the trace of \<open>applyBundle\<close> for a bundle with endpoints the
  push to the network layer comes between the write lock on the resources and its
  release, because the release is deferred to the function's return.
\<close>

theorem applyBundle_pushes_outside_lock_counterexample:
  "\<not> pushes_outside resourcesLock False
       (new_events (newChan ''ch'' emptyVault) (applyBundle demoBundle (newChan ''ch'' emptyVault)))"
  by (simp add: new_events_def applyBundle_trace newChan_def demoBundle_def demoOrg_def orgLogs_def
        orgOrderers_def)

text \<open>
  C9, amended. \<open>applyBundle\<close> takes the write lock on the resources first and releases
  it last; nothing in between locks or unlocks. It replaces the field and, still
  holding the lock, inspects the bundle and pushes the endpoint list: every push of
  the call happens while the resources lock is held. In a whole call of
  \<open>CommitConfig\<close> every push happens while each of the three locks is held, and in a
  whole call of \<open>ReloadConfigTransactions\<close> while the apply lock and the resources lock
  are held.
\<close>

theorem applyBundle_pushes_under_lock:
  "(\<exists>es. new_events c (applyBundle b c) = Lock resourcesLock # es @ [Unlock resourcesLock]
      \<and> of_kinds {KLock} es = []
      \<and> pushed es = pushed (new_events c (applyBundle b c))
      \<and> pushes_inside resourcesLock False (new_events c (applyBundle b c))
      \<and> resources (applyBundle b c) = Some b)
   \<and> (\<forall>l. pushes_inside l False (new_events c (snd (CommitConfig d blockNumber raw env c))))
   \<and> (\<forall>r. ReloadConfigTransactions d c = Some r \<longrightarrow>
         pushes_inside applyLock False (new_events c (snd r))
         \<and> pushes_inside resourcesLock False (new_events c (snd r)))"
proof (intro conjI allI impI)
  obtain es where es: "trace (applyBundle b c) = trace c @ (Lock resourcesLock # es @ [Unlock resourcesLock])"
    "\<forall>e\<in>set es. kind_of e = KPush \<or> kind_of e = KLog"
    using applyBundle_trace_kinds [of b c] by auto
  note ev = new_events_append [OF es(1)]
  have "of_kinds {KLock} es = []"
    using es(2) by (auto intro!: of_kinds_none)
  moreover have "pushes_inside resourcesLock False (Lock resourcesLock # es @ [Unlock resourcesLock])"
    using pushes_inside_append_held [OF es(2), of resourcesLock "[Unlock resourcesLock]"] by simp
  ultimately show "\<exists>es. new_events c (applyBundle b c) = Lock resourcesLock # es @ [Unlock resourcesLock]
      \<and> of_kinds {KLock} es = []
      \<and> pushed es = pushed (new_events c (applyBundle b c))
      \<and> pushes_inside resourcesLock False (new_events c (applyBundle b c))
      \<and> resources (applyBundle b c) = Some b"
    unfolding ev by (intro exI [of _ es]) simp
next
  fix l
  show "pushes_inside l False (new_events c (snd (CommitConfig d blockNumber raw env c)))"
    by (rule CommitConfig_pushes_locked)
next
  fix r
  assume r: "ReloadConfigTransactions d c = Some r"
  from ReloadConfigTransactions_pushes_locked [OF r]
  show "pushes_inside applyLock False (new_events c (snd r))"
    and "pushes_inside resourcesLock False (new_events c (snd r))"
    by simp_all
qed

theorem applyBundle_pushes_under_lock_witness:
  "pushes_inside resourcesLock False
     (new_events (newChan ''ch'' emptyVault) (applyBundle demoBundle (newChan ''ch'' emptyVault)))
   \<and> pushed (new_events (newChan ''ch'' emptyVault) (applyBundle demoBundle (newChan ''ch'' emptyVault))) \<noteq> []
   \<and> map_option fst (ReloadConfigTransactions demoDeps (newChan ''ch'' emptyVault)) = Some Ok
   \<and> pushes_inside applyLock False
       (new_events (newChan ''ch'' emptyVault)
          (snd (the (ReloadConfigTransactions demoDeps (newChan ''ch'' emptyVault)))))"
proof -
  note T = applyBundle_pushes_under_lock [of "newChan ''ch'' emptyVault" demoBundle demoDeps 0 "[]" None]
  from T have 1: "pushes_inside resourcesLock False
     (new_events (newChan ''ch'' emptyVault) (applyBundle demoBundle (newChan ''ch'' emptyVault)))"
    by blast
  from T reload_empty have 2: "pushes_inside applyLock False
       (new_events (newChan ''ch'' emptyVault)
          (snd (the (ReloadConfigTransactions demoDeps (newChan ''ch'' emptyVault)))))"
    by (metis option.sel)
  have 3: "pushed (new_events (newChan ''ch'' emptyVault) (applyBundle demoBundle (newChan ''ch'' emptyVault))) \<noteq> []"
    by (simp add: new_events_def applyBundle_trace newChan_def demoBundle_def demoOrg_def orgOrderers_def)
  from 1 2 3 show ?thesis by (simp add: reload_empty)
qed

subsection \<open>The active bundle is absent or whole\<close>












end
